theory Spec2Isabelle
  imports Main "HOL-Library.Word"
begin

unbundle bit_operations_syntax

section \<open>DualSerialPortLib: the 16550 mini UART and the PL011 behind one serial port API\<close>

text \<open>
  A shallow embedding of
  \<^verbatim>\<open>Platform/RaspberryPi/Library/DualSerialPortLib/DualSerialPortLib.c\<close>.
  Machine integers are words of the width the C code gives them; \<^verbatim>\<open>UINTN\<close> is 64 bits
  wide (the library is built for AArch64).
\<close>

type_synonym UINT8 = "8 word"
type_synonym UINT32 = "32 word"
type_synonym UINT64 = "64 word"
type_synonym UINTN = "64 word"

subsection \<open>Platform configuration and constants of headers outside the source tree\<close>

text \<open>
  The PCDs read with \<^verbatim>\<open>PcdGet\<close>/\<^verbatim>\<open>FixedPcdGet\<close>, and the register addresses that
  \<^verbatim>\<open>IndustryStandard/Bcm2836.h\<close> and \<^verbatim>\<open>Bcm2836Gpio.h\<close> define, are parameters of the
  model: neither header is part of the source at hand.
\<close>

record platform =
  PcdSerialRegisterStride :: UINT32
  PcdSerialUseHardwareFlowControl :: bool
  PcdSerialDetectCable :: bool
  PcdSerialClockRate :: UINT32
  PcdSerialBaudRate :: UINT32
  PcdSerialLineControl :: UINT8
  PcdSerialFifoControl :: UINT8
  PcdSerialExtendedTxFifoSize :: UINT32
  PcdUartDefaultBaudRate :: UINT64
  PcdUartDefaultParity :: UINT8
  PcdUartDefaultDataBits :: UINT8
  PcdUartDefaultStopBits :: UINT8
  BCM2836_PL011_UART_BASE_ADDRESS :: UINTN
  BCM2836_MINI_UART_BASE_ADDRESS :: UINTN
  GPIO_BASE_ADDRESS :: UINTN
  BCM2836_CM_BASE :: UINTN
  BCM2836_CM_VPU_CLOCK_DIVISOR :: UINTN

text \<open>
  The control bits of \<^verbatim>\<open>Protocol/SerialIo.h\<close> that \<^verbatim>\<open>SerialPortSetControl\<close> and
  \<^verbatim>\<open>SerialPortGetControl\<close> name, parameters for the same reason.
\<close>

record serial_io_bits =
  EFI_SERIAL_CLEAR_TO_SEND :: UINT32
  EFI_SERIAL_DATA_SET_READY :: UINT32
  EFI_SERIAL_RING_INDICATE :: UINT32
  EFI_SERIAL_CARRIER_DETECT :: UINT32
  EFI_SERIAL_REQUEST_TO_SEND :: UINT32
  EFI_SERIAL_DATA_TERMINAL_READY :: UINT32
  EFI_SERIAL_INPUT_BUFFER_EMPTY :: UINT32
  EFI_SERIAL_OUTPUT_BUFFER_EMPTY :: UINT32
  EFI_SERIAL_HARDWARE_FLOW_CONTROL_ENABLE :: UINT32

definition PL011_UART_REGISTER_BASE :: "platform \<Rightarrow> UINTN" where
  "PL011_UART_REGISTER_BASE p = BCM2836_PL011_UART_BASE_ADDRESS p"

definition MINI_UART_REGISTER_BASE :: "platform \<Rightarrow> UINTN" where
  "MINI_UART_REGISTER_BASE p = BCM2836_MINI_UART_BASE_ADDRESS p + 0x40"

subsection \<open>16550 register offsets and bit fields\<close>

definition R_UART_RXBUF :: UINTN where "R_UART_RXBUF = 0"
definition R_UART_TXBUF :: UINTN where "R_UART_TXBUF = 0"
definition R_UART_BAUD_LOW :: UINTN where "R_UART_BAUD_LOW = 0"
definition R_UART_BAUD_HIGH :: UINTN where "R_UART_BAUD_HIGH = 1"
definition R_UART_IER :: UINTN where "R_UART_IER = 1"
definition R_UART_FCR :: UINTN where "R_UART_FCR = 2"
definition B_UART_FCR_FIFOE :: UINT8 where "B_UART_FCR_FIFOE = 0x01"
definition B_UART_FCR_FIFO64 :: UINT8 where "B_UART_FCR_FIFO64 = 0x20"
definition R_UART_LCR :: UINTN where "R_UART_LCR = 3"
definition B_UART_LCR_DLAB :: UINT8 where "B_UART_LCR_DLAB = 0x80"
definition R_UART_MCR :: UINTN where "R_UART_MCR = 4"
definition B_UART_MCR_DTRC :: UINT8 where "B_UART_MCR_DTRC = 0x01"
definition B_UART_MCR_RTS :: UINT8 where "B_UART_MCR_RTS = 0x02"
definition R_UART_LSR :: UINTN where "R_UART_LSR = 5"
definition B_UART_LSR_RXRDY :: UINT8 where "B_UART_LSR_RXRDY = 0x01"
definition B_UART_LSR_TXRDY :: UINT8 where "B_UART_LSR_TXRDY = 0x20"
definition B_UART_LSR_TEMT :: UINT8 where "B_UART_LSR_TEMT = 0x40"
definition R_UART_MSR :: UINTN where "R_UART_MSR = 6"
definition B_UART_MSR_CTS :: UINT8 where "B_UART_MSR_CTS = 0x10"
definition B_UART_MSR_DSR :: UINT8 where "B_UART_MSR_DSR = 0x20"
definition B_UART_MSR_RI :: UINT8 where "B_UART_MSR_RI = 0x40"
definition B_UART_MSR_DCD :: UINT8 where "B_UART_MSR_DCD = 0x80"

subsection \<open>Memory-mapped I/O\<close>

text \<open>
  Device registers are volatile: what a load returns is decided by the hardware, not by
  the program. The hardware is therefore an input of the model, \<open>hw t a\<close> being the value
  that register \<open>a\<close> shows to the access number \<open>t\<close>; any device behaviour is one such
  function. Every access is appended to the \<open>trace\<close> of the state, so that what the code
  wrote, and in which order, can be read off afterwards.
\<close>

type_synonym hardware = "nat \<Rightarrow> UINTN \<Rightarrow> UINT32"

datatype mmio =
  Rd8 UINTN UINT8
| Rd32 UINTN UINT32
| Wr8 UINTN UINT8

text \<open>The two module-level flags of the library, and the accesses made so far.\<close>

record state =
  UsePl011Uart :: bool
  UsePl011UartSet :: bool
  trace :: "mmio list"

definition MmioRead8 :: "hardware \<Rightarrow> UINTN \<Rightarrow> state \<Rightarrow> UINT8 \<times> state" where
  "MmioRead8 hw a s =
     (let v = ucast (hw (length (trace s)) a)
      in (v, s\<lparr>trace := trace s @ [Rd8 a v]\<rparr>))"

definition MmioRead32 :: "hardware \<Rightarrow> UINTN \<Rightarrow> state \<Rightarrow> UINT32 \<times> state" where
  "MmioRead32 hw a s =
     (let v = hw (length (trace s)) a
      in (v, s\<lparr>trace := trace s @ [Rd32 a v]\<rparr>))"

text \<open>\<^verbatim>\<open>MmioWrite8\<close> returns the value written; no caller in this library uses it.\<close>

definition MmioWrite8 :: "UINTN \<Rightarrow> UINT8 \<Rightarrow> state \<Rightarrow> state" where
  "MmioWrite8 a v s = s\<lparr>trace := trace s @ [Wr8 a v]\<rparr>"

text \<open>The stores of a trace, in order.\<close>

fun writes :: "mmio list \<Rightarrow> (UINTN \<times> UINT8) list" where
  "writes [] = []"
| "writes (Wr8 a v # es) = (a, v) # writes es"
| "writes (e # es) = writes es"

subsection \<open>Register access (lines 66-93)\<close>

definition reg :: "platform \<Rightarrow> UINTN \<Rightarrow> UINTN \<Rightarrow> UINTN" where
  "reg p Base Offset = Base + Offset * ucast (PcdSerialRegisterStride p)"

definition SerialPortReadRegister ::
  "platform \<Rightarrow> hardware \<Rightarrow> UINTN \<Rightarrow> UINTN \<Rightarrow> state \<Rightarrow> UINT8 \<times> state" where
  "SerialPortReadRegister p hw Base Offset s = MmioRead8 hw (reg p Base Offset) s"

definition SerialPortWriteRegister ::
  "platform \<Rightarrow> UINTN \<Rightarrow> UINTN \<Rightarrow> UINT8 \<Rightarrow> state \<Rightarrow> state" where
  "SerialPortWriteRegister p Base Offset Value s = MmioWrite8 (reg p Base Offset) Value s"

subsection \<open>Flow control gate (lines 103-141)\<close>

definition SerialPortWritable ::
  "platform \<Rightarrow> hardware \<Rightarrow> UINTN \<Rightarrow> state \<Rightarrow> bool \<times> state" where
  "SerialPortWritable p hw SerialRegisterBase s =
     (if PcdSerialUseHardwareFlowControl p then
        if PcdSerialDetectCable p then
          (let (Msr, s') = SerialPortReadRegister p hw SerialRegisterBase R_UART_MSR s
           in (Msr AND (B_UART_MSR_DSR OR B_UART_MSR_CTS) = (B_UART_MSR_DSR OR B_UART_MSR_CTS), s'))
        else
          (let (Msr, s') = SerialPortReadRegister p hw SerialRegisterBase R_UART_MSR s
           in (Msr AND (B_UART_MSR_DSR OR B_UART_MSR_CTS) \<noteq> B_UART_MSR_DSR, s'))
      else (True, s))"

subsection \<open>Baud divisor (lines 150-176)\<close>

text \<open>
  \<^verbatim>\<open>BaseClockRate\<close> is a \<^verbatim>\<open>UINT64\<close>; the division and the remainder are taken on its low
  32 bits, and \<^verbatim>\<open>SerialBaudRate * 16\<close> and \<^verbatim>\<open>SerialBaudRate * 8\<close> are \<^verbatim>\<open>UINT32\<close> products
  that wrap. A denominator that wraps to zero makes the C division undefined: the model
  returns \<open>None\<close> for the divisor then.
\<close>

definition SerialPortGetDivisor ::
  "platform \<Rightarrow> hardware \<Rightarrow> UINT32 \<Rightarrow> state \<Rightarrow> UINT32 option \<times> state" where
  "SerialPortGetDivisor p hw SerialBaudRate s =
     (let BaseClockRate = (ucast (PcdSerialClockRate p) :: UINT64) * 4;
          (v, s') = MmioRead32 hw (BCM2836_CM_BASE p + BCM2836_CM_VPU_CLOCK_DIVISOR p) s;
          Divisor = v AND 0xFFFFFF;
          BaseClockRate =
            (if Divisor \<noteq> 0 then push_bit 12 BaseClockRate div ucast Divisor
             else BaseClockRate)
      in if SerialBaudRate * 16 = 0 then (None, s')
         else
           (let Divisor = (ucast BaseClockRate :: UINT32) div (SerialBaudRate * 16)
            in if (ucast BaseClockRate :: UINT32) mod (SerialBaudRate * 16) \<ge> SerialBaudRate * 8
               then (Some (Divisor + 1), s')
               else (Some Divisor, s')))"

subsection \<open>Status codes, attributes, and calls that leave the library\<close>

datatype RETURN_STATUS =
  RETURN_SUCCESS
| RETURN_INVALID_PARAMETER
| RETURN_UNSUPPORTED
| RETURN_DEVICE_ERROR

text \<open>
  The two enumerations of \<^verbatim>\<open>Protocol/SerialIo.h\<close>. A C enumeration can hold an integer
  that is none of its enumerators; the last constructor of each type stands for those.
\<close>

datatype EFI_PARITY_TYPE =
  DefaultParity | NoParity | EvenParity | OddParity | MarkParity | SpaceParity
| ParityOutOfRange

datatype EFI_STOP_BITS_TYPE =
  DefaultStopBits | OneStopBit | OneFiveStopBits | TwoStopBits
| StopBitsOutOfRange

text \<open>The in/out parameters of \<^verbatim>\<open>SerialPortSetAttributes\<close>, as the cells they point to.\<close>

record attributes =
  BaudRate :: UINT64
  ReceiveFifoDepth :: UINT32
  Timeout :: UINT32
  Parity :: EFI_PARITY_TYPE
  DataBits :: UINT8
  StopBits :: EFI_STOP_BITS_TYPE

text \<open>
  A data buffer is \<open>None\<close> for the \<^verbatim>\<open>NULL\<close> pointer, and otherwise the bytes found at
  \<^verbatim>\<open>Buffer[0]\<close>, \<^verbatim>\<open>Buffer[1]\<close>, ... Byte counts and loop indices, \<^verbatim>\<open>UINTN\<close> in the
  source, are naturals: the code only counts them up or down between 0 and the count it
  was given, so none of them wraps.
\<close>

type_synonym buffer = "(nat \<Rightarrow> UINT8) option"

text \<open>
  On the PL011 branch every operation is a tail call into \<^verbatim>\<open>PL011UartLib\<close>, which is
  not part of this library. The model stops at the call and records it with its
  arguments (the clock frequency that \<^verbatim>\<open>PL011UartClockGetFreq\<close> returns is left out).
  \<^verbatim>\<open>SerialPortInitialize\<close> passes the five default PCDs, \<^verbatim>\<open>SerialPortSetAttributes\<close>
  the caller's cells.
\<close>

datatype pl011_call =
  PL011UartInitializePort_Defaults UINTN UINT64 UINT32 UINT8 UINT8 UINT8
| PL011UartInitializePort UINTN attributes
| PL011UartWrite UINTN buffer nat
| PL011UartRead UINTN buffer nat
| PL011UartPoll UINTN
| PL011UartSetControl UINTN UINT32
| PL011UartGetControl UINTN

text \<open>
  How an operation ends: it returns a value, it hands over to the PL011 library, or it
  divides by zero in \<^verbatim>\<open>SerialPortGetDivisor\<close>. An operation with a busy-wait loop
  yields an \<open>option\<close>: \<open>None\<close> when it spins forever.
\<close>

datatype 'a outcome =
  Returned 'a
| Forwarded pl011_call
| DivisionByZero

subsection \<open>Variant detection (lines 208-211 and 328-331)\<close>

text \<open>The same four lines open \<^verbatim>\<open>SerialPortInitialize\<close> and \<^verbatim>\<open>SerialPortWrite\<close>.\<close>

definition DetectUart :: "platform \<Rightarrow> hardware \<Rightarrow> state \<Rightarrow> state" where
  "DetectUart p hw s =
     (if \<not> UsePl011UartSet s then
        (let (v, s') = MmioRead32 hw (GPIO_BASE_ADDRESS p + 4) s
         in s'\<lparr>UsePl011Uart := (v AND 0x0003F000 = 0x00024000), UsePl011UartSet := True\<rparr>)
      else s)"

subsection \<open>Busy-wait loops\<close>

text \<open>
  \<^verbatim>\<open>while ((LSR & (TEMT | TXRDY)) != (TEMT | TXRDY));\<close> at lines 255, 350 and 377.
\<close>

partial_function (option) WaitTransmitEmpty ::
  "platform \<Rightarrow> hardware \<Rightarrow> UINTN \<Rightarrow> state \<Rightarrow> state option" where
  "WaitTransmitEmpty p hw SerialRegisterBase s =
     (let (Lsr, s') = SerialPortReadRegister p hw SerialRegisterBase R_UART_LSR s
      in if Lsr AND (B_UART_LSR_TEMT OR B_UART_LSR_TXRDY) \<noteq> (B_UART_LSR_TEMT OR B_UART_LSR_TXRDY)
         then WaitTransmitEmpty p hw SerialRegisterBase s'
         else Some s')"

text \<open>\<^verbatim>\<open>while (!SerialPortWritable (SerialRegisterBase));\<close> at lines 355 and 386.\<close>

partial_function (option) WaitWritable ::
  "platform \<Rightarrow> hardware \<Rightarrow> UINTN \<Rightarrow> state \<Rightarrow> state option" where
  "WaitWritable p hw SerialRegisterBase s =
     (let (w, s') = SerialPortWritable p hw SerialRegisterBase s
      in if \<not> w then WaitWritable p hw SerialRegisterBase s' else Some s')"

text \<open>The receive wait of lines 435-442, which raises RTS while it waits.\<close>

partial_function (option) WaitReceiveReady ::
  "platform \<Rightarrow> hardware \<Rightarrow> UINTN \<Rightarrow> UINT8 \<Rightarrow> state \<Rightarrow> state option" where
  "WaitReceiveReady p hw SerialRegisterBase Mcr s =
     (let (Lsr, s') = SerialPortReadRegister p hw SerialRegisterBase R_UART_LSR s
      in if Lsr AND B_UART_LSR_RXRDY = 0 then
           WaitReceiveReady p hw SerialRegisterBase Mcr
             (if PcdSerialUseHardwareFlowControl p
              then SerialPortWriteRegister p SerialRegisterBase R_UART_MCR (Mcr OR B_UART_MCR_RTS) s'
              else s')
         else Some s')"

declare WaitTransmitEmpty.simps [code]
declare WaitWritable.simps [code]
declare WaitReceiveReady.simps [code]

subsection \<open>SerialPortInitialize (lines 189-289)\<close>

definition SerialPortInitialize ::
  "platform \<Rightarrow> hardware \<Rightarrow> state \<Rightarrow> (RETURN_STATUS outcome \<times> state) option" where
  "SerialPortInitialize p hw s =
     (let s = DetectUart p hw s
      in if UsePl011Uart s then
           Some (Forwarded (PL011UartInitializePort_Defaults (PL011_UART_REGISTER_BASE p)
                   (PcdUartDefaultBaudRate p) 0 (PcdUartDefaultParity p)
                   (PcdUartDefaultDataBits p) (PcdUartDefaultStopBits p)), s)
         else
           (let SerialRegisterBase = MINI_UART_REGISTER_BASE p;
                (d, s) = SerialPortGetDivisor p hw (PcdSerialBaudRate p) s
            in case d of
                 None \<Rightarrow> Some (DivisionByZero, s)
               | Some Divisor \<Rightarrow>
                  (let (Lcr, s) = SerialPortReadRegister p hw SerialRegisterBase R_UART_LCR s;
                       Initialized = \<not> (Lcr AND 0x3F \<noteq> PcdSerialLineControl p AND 0x3F);
                       (Lcr, s) = SerialPortReadRegister p hw SerialRegisterBase R_UART_LCR s;
                       s = SerialPortWriteRegister p SerialRegisterBase R_UART_LCR
                             (Lcr OR B_UART_LCR_DLAB) s;
                       (High, s) = SerialPortReadRegister p hw SerialRegisterBase R_UART_BAUD_HIGH s;
                       CurrentDivisor = push_bit 8 (ucast High :: UINT32);
                       (Low, s) = SerialPortReadRegister p hw SerialRegisterBase R_UART_BAUD_LOW s;
                       CurrentDivisor = CurrentDivisor OR ucast Low;
                       (Lcr, s) = SerialPortReadRegister p hw SerialRegisterBase R_UART_LCR s;
                       s = SerialPortWriteRegister p SerialRegisterBase R_UART_LCR
                             (Lcr AND NOT B_UART_LCR_DLAB) s;
                       Initialized = (if CurrentDivisor \<noteq> Divisor then False else Initialized)
                   in if Initialized then Some (Returned RETURN_SUCCESS, s)
                      else
                        (case WaitTransmitEmpty p hw SerialRegisterBase s of
                           None \<Rightarrow> None
                         | Some s \<Rightarrow>
                            (let s = SerialPortWriteRegister p SerialRegisterBase R_UART_LCR
                                       B_UART_LCR_DLAB s;
                                 s = SerialPortWriteRegister p SerialRegisterBase R_UART_BAUD_HIGH
                                       (ucast (drop_bit 8 Divisor)) s;
                                 s = SerialPortWriteRegister p SerialRegisterBase R_UART_BAUD_LOW
                                       (ucast (Divisor AND 0xff)) s;
                                 s = SerialPortWriteRegister p SerialRegisterBase R_UART_LCR
                                       (PcdSerialLineControl p AND 0x3F) s;
                                 s = SerialPortWriteRegister p SerialRegisterBase R_UART_FCR 0x00 s;
                                 s = SerialPortWriteRegister p SerialRegisterBase R_UART_FCR
                                       (PcdSerialFifoControl p AND
                                          (B_UART_FCR_FIFOE OR B_UART_FCR_FIFO64)) s;
                                 s = SerialPortWriteRegister p SerialRegisterBase R_UART_IER 0x00 s;
                                 s = SerialPortWriteRegister p SerialRegisterBase R_UART_MCR 0x00 s
                             in Some (Returned RETURN_SUCCESS, s))))))"

subsection \<open>SerialPortWrite (lines 310-396)\<close>

text \<open>The size of the transmit FIFO, lines 362-369.\<close>

definition FifoSize :: "platform \<Rightarrow> nat" where
  "FifoSize p =
     (if PcdSerialFifoControl p AND B_UART_FCR_FIFOE \<noteq> 0 then
        if PcdSerialFifoControl p AND B_UART_FCR_FIFO64 = 0 then 16
        else unat (PcdSerialExtendedTxFifoSize p)
      else 1)"

text \<open>
  The \<^verbatim>\<open>for\<close> loop of lines 382-392. \<^verbatim>\<open>Buffer++\<close> moves the view of the caller's
  bytes one cell on.
\<close>

partial_function (option) FillTxFifo ::
  "platform \<Rightarrow> hardware \<Rightarrow> UINTN \<Rightarrow> nat \<Rightarrow> nat \<Rightarrow> nat \<Rightarrow> (nat \<Rightarrow> UINT8) \<Rightarrow> state
     \<Rightarrow> (nat \<times> (nat \<Rightarrow> UINT8) \<times> state) option" where
  "FillTxFifo p hw SerialRegisterBase Size Index NumberOfBytes Buffer s =
     (if Index < Size \<and> NumberOfBytes \<noteq> 0 then
        (case WaitWritable p hw SerialRegisterBase s of
           None \<Rightarrow> None
         | Some s \<Rightarrow>
             FillTxFifo p hw SerialRegisterBase Size (Index + 1) (NumberOfBytes - 1)
               (\<lambda>i. Buffer (i + 1))
               (SerialPortWriteRegister p SerialRegisterBase R_UART_TXBUF (Buffer 0) s))
      else Some (NumberOfBytes, Buffer, s))"

text \<open>The \<^verbatim>\<open>while (NumberOfBytes != 0)\<close> loop of lines 372-393.\<close>

partial_function (option) WriteLoop ::
  "platform \<Rightarrow> hardware \<Rightarrow> UINTN \<Rightarrow> nat \<Rightarrow> nat \<Rightarrow> (nat \<Rightarrow> UINT8) \<Rightarrow> state \<Rightarrow> state option" where
  "WriteLoop p hw SerialRegisterBase Size NumberOfBytes Buffer s =
     (if NumberOfBytes \<noteq> 0 then
        (case WaitTransmitEmpty p hw SerialRegisterBase s of
           None \<Rightarrow> None
         | Some s \<Rightarrow>
            (case FillTxFifo p hw SerialRegisterBase Size 0 NumberOfBytes Buffer s of
               None \<Rightarrow> None
             | Some (NumberOfBytes, Buffer, s) \<Rightarrow>
                 WriteLoop p hw SerialRegisterBase Size NumberOfBytes Buffer s))
      else Some s)"

declare FillTxFifo.simps [code]
declare WriteLoop.simps [code]

definition SerialPortWrite ::
  "platform \<Rightarrow> hardware \<Rightarrow> buffer \<Rightarrow> nat \<Rightarrow> state \<Rightarrow> (nat outcome \<times> state) option" where
  "SerialPortWrite p hw Buffer NumberOfBytes s =
     (let s = DetectUart p hw s
      in if UsePl011Uart s then
           Some (Forwarded (PL011UartWrite (PL011_UART_REGISTER_BASE p) Buffer NumberOfBytes), s)
         else
           (case Buffer of
              None \<Rightarrow> Some (Returned 0, s)
            | Some Bytes \<Rightarrow>
               (let SerialRegisterBase = MINI_UART_REGISTER_BASE p
                in if NumberOfBytes = 0 then
                     (case WaitTransmitEmpty p hw SerialRegisterBase s of
                        None \<Rightarrow> None
                      | Some s \<Rightarrow>
                         (case WaitWritable p hw SerialRegisterBase s of
                            None \<Rightarrow> None
                          | Some s \<Rightarrow> Some (Returned 0, s)))
                   else
                     (case WriteLoop p hw SerialRegisterBase (FifoSize p) NumberOfBytes Bytes s of
                        None \<Rightarrow> None
                      | Some s \<Rightarrow> Some (Returned NumberOfBytes, s)))))"

subsection \<open>SerialPortRead (lines 409-458)\<close>

text \<open>
  The \<^verbatim>\<open>for\<close> loop of lines 431-454. \<^verbatim>\<open>Buffer\<close> and \<^verbatim>\<open>Result\<close> advance together, so
  the cell that \<^verbatim>\<open>*Buffer\<close> names is cell \<open>Result\<close> of the caller's buffer.
\<close>

partial_function (option) ReadLoop ::
  "platform \<Rightarrow> hardware \<Rightarrow> UINTN \<Rightarrow> UINT8 \<Rightarrow> nat \<Rightarrow> nat \<Rightarrow> (nat \<Rightarrow> UINT8) \<Rightarrow> state
     \<Rightarrow> (nat \<times> (nat \<Rightarrow> UINT8) \<times> state) option" where
  "ReadLoop p hw SerialRegisterBase Mcr NumberOfBytes Result Buffer s =
     (if NumberOfBytes \<noteq> 0 then
        (case WaitReceiveReady p hw SerialRegisterBase Mcr s of
           None \<Rightarrow> None
         | Some s \<Rightarrow>
            (let s = (if PcdSerialUseHardwareFlowControl p
                      then SerialPortWriteRegister p SerialRegisterBase R_UART_MCR Mcr s
                      else s);
                 (Byte, s) = SerialPortReadRegister p hw SerialRegisterBase R_UART_RXBUF s
             in ReadLoop p hw SerialRegisterBase Mcr (NumberOfBytes - 1) (Result + 1)
                  (Buffer (Result := Byte)) s))
      else Some (Result, Buffer, s))"

declare ReadLoop.simps [code]

text \<open>The operation returns the count and the caller's buffer as it leaves it.\<close>

definition SerialPortRead ::
  "platform \<Rightarrow> hardware \<Rightarrow> buffer \<Rightarrow> nat \<Rightarrow> state
     \<Rightarrow> ((nat \<times> buffer) outcome \<times> state) option" where
  "SerialPortRead p hw Buffer NumberOfBytes s =
     (if UsePl011Uart s then
        Some (Forwarded (PL011UartRead (PL011_UART_REGISTER_BASE p) Buffer NumberOfBytes), s)
      else
        (case Buffer of
           None \<Rightarrow> Some (Returned (0, None), s)
         | Some Bytes \<Rightarrow>
            (let SerialRegisterBase = MINI_UART_REGISTER_BASE p;
                 (Mcr, s) = SerialPortReadRegister p hw SerialRegisterBase R_UART_MCR s;
                 Mcr = Mcr AND NOT B_UART_MCR_RTS
             in case ReadLoop p hw SerialRegisterBase Mcr NumberOfBytes 0 Bytes s of
                  None \<Rightarrow> None
                | Some (Result, Bytes, s) \<Rightarrow> Some (Returned (Result, Some Bytes), s))))"

subsection \<open>SerialPortPoll (lines 471-506)\<close>

definition SerialPortPoll :: "platform \<Rightarrow> hardware \<Rightarrow> state \<Rightarrow> bool outcome \<times> state" where
  "SerialPortPoll p hw s =
     (if UsePl011Uart s then (Forwarded (PL011UartPoll (PL011_UART_REGISTER_BASE p)), s)
      else
        (let SerialRegisterBase = MINI_UART_REGISTER_BASE p;
             (Lsr, s) = SerialPortReadRegister p hw SerialRegisterBase R_UART_LSR s
         in if Lsr AND B_UART_LSR_RXRDY \<noteq> 0 then
              (if PcdSerialUseHardwareFlowControl p then
                 (let (Mcr, s) = SerialPortReadRegister p hw SerialRegisterBase R_UART_MCR s
                  in (Returned True,
                      SerialPortWriteRegister p SerialRegisterBase R_UART_MCR
                        (Mcr AND NOT B_UART_MCR_RTS) s))
               else (Returned True, s))
            else
              (if PcdSerialUseHardwareFlowControl p then
                 (let (Mcr, s) = SerialPortReadRegister p hw SerialRegisterBase R_UART_MCR s
                  in (Returned False,
                      SerialPortWriteRegister p SerialRegisterBase R_UART_MCR
                        (Mcr OR B_UART_MCR_RTS) s))
               else (Returned False, s))))"

subsection \<open>SerialPortSetControl (lines 518-561)\<close>

definition SerialPortSetControl ::
  "platform \<Rightarrow> serial_io_bits \<Rightarrow> hardware \<Rightarrow> UINT32 \<Rightarrow> state \<Rightarrow> RETURN_STATUS outcome \<times> state" where
  "SerialPortSetControl p b hw Control s =
     (if UsePl011Uart s then
        (Forwarded (PL011UartSetControl (PL011_UART_REGISTER_BASE p) Control), s)
      else if Control AND NOT (EFI_SERIAL_REQUEST_TO_SEND b OR EFI_SERIAL_DATA_TERMINAL_READY b OR
                               EFI_SERIAL_HARDWARE_FLOW_CONTROL_ENABLE b) \<noteq> 0
      then (Returned RETURN_UNSUPPORTED, s)
      else
        (let SerialRegisterBase = MINI_UART_REGISTER_BASE p;
             (Mcr, s) = SerialPortReadRegister p hw SerialRegisterBase R_UART_MCR s;
             Mcr = Mcr AND NOT (B_UART_MCR_DTRC OR B_UART_MCR_RTS);
             Mcr = (if Control AND EFI_SERIAL_DATA_TERMINAL_READY b = EFI_SERIAL_DATA_TERMINAL_READY b
                    then Mcr OR B_UART_MCR_DTRC else Mcr);
             Mcr = (if Control AND EFI_SERIAL_REQUEST_TO_SEND b = EFI_SERIAL_REQUEST_TO_SEND b
                    then Mcr OR B_UART_MCR_RTS else Mcr)
         in (Returned RETURN_SUCCESS,
             SerialPortWriteRegister p SerialRegisterBase R_UART_MCR Mcr s)))"

subsection \<open>SerialPortGetControl (lines 573-644)\<close>

definition SerialPortGetControl ::
  "platform \<Rightarrow> serial_io_bits \<Rightarrow> hardware \<Rightarrow> state
     \<Rightarrow> (RETURN_STATUS \<times> UINT32) outcome \<times> state" where
  "SerialPortGetControl p b hw s =
     (if UsePl011Uart s then (Forwarded (PL011UartGetControl (PL011_UART_REGISTER_BASE p)), s)
      else
        (let SerialRegisterBase = MINI_UART_REGISTER_BASE p;
             Control = 0;
             (Msr, s) = SerialPortReadRegister p hw SerialRegisterBase R_UART_MSR s;
             Control = (if Msr AND B_UART_MSR_CTS = B_UART_MSR_CTS
                        then Control OR EFI_SERIAL_CLEAR_TO_SEND b else Control);
             Control = (if Msr AND B_UART_MSR_DSR = B_UART_MSR_DSR
                        then Control OR EFI_SERIAL_DATA_SET_READY b else Control);
             Control = (if Msr AND B_UART_MSR_RI = B_UART_MSR_RI
                        then Control OR EFI_SERIAL_RING_INDICATE b else Control);
             Control = (if Msr AND B_UART_MSR_DCD = B_UART_MSR_DCD
                        then Control OR EFI_SERIAL_CARRIER_DETECT b else Control);
             (Mcr, s) = SerialPortReadRegister p hw SerialRegisterBase R_UART_MCR s;
             Control = (if Mcr AND B_UART_MCR_DTRC = B_UART_MCR_DTRC
                        then Control OR EFI_SERIAL_DATA_TERMINAL_READY b else Control);
             Control = (if Mcr AND B_UART_MCR_RTS = B_UART_MCR_RTS
                        then Control OR EFI_SERIAL_REQUEST_TO_SEND b else Control);
             Control = (if PcdSerialUseHardwareFlowControl p
                        then Control OR EFI_SERIAL_HARDWARE_FLOW_CONTROL_ENABLE b else Control);
             (Lsr, s) = SerialPortReadRegister p hw SerialRegisterBase R_UART_LSR s;
             Control = (if Lsr AND (B_UART_LSR_TEMT OR B_UART_LSR_TXRDY)
                             = (B_UART_LSR_TEMT OR B_UART_LSR_TXRDY)
                        then Control OR EFI_SERIAL_OUTPUT_BUFFER_EMPTY b else Control);
             Control = (if Lsr AND B_UART_LSR_RXRDY = 0
                        then Control OR EFI_SERIAL_INPUT_BUFFER_EMPTY b else Control)
         in (Returned (RETURN_SUCCESS, Control), s)))"

subsection \<open>SerialPortSetAttributes (lines 679-836)\<close>

text \<open>
  The three validation steps each either fail, which is the early
  \<^verbatim>\<open>return RETURN_INVALID_PARAMETER\<close>, or give the field of the line control byte
  together with the caller's cells as the step leaves them.
\<close>

text \<open>Data bits, lines 719-730.\<close>

definition ResolveDataBits :: "platform \<Rightarrow> attributes \<Rightarrow> (UINT8 \<times> attributes) option" where
  "ResolveDataBits p a =
     (if DataBits a = 0 then
        (let LcrData = PcdSerialLineControl p AND 0x3
         in Some (LcrData, a\<lparr>DataBits := LcrData + 5\<rparr>))
      else if DataBits a < 5 \<or> DataBits a > 8 then None
      else Some (DataBits a - 5, a))"

text \<open>Parity, lines 732-783. The first \<^verbatim>\<open>switch\<close> leaves \<^verbatim>\<open>*Parity\<close> alone by default.\<close>

definition ResolveParity :: "platform \<Rightarrow> attributes \<Rightarrow> (UINT8 \<times> attributes) option" where
  "ResolveParity p a =
     (if Parity a = DefaultParity then
        (let LcrParity = drop_bit 3 (PcdSerialLineControl p) AND 0x7
         in Some (LcrParity,
              if LcrParity = 0 then a\<lparr>Parity := NoParity\<rparr>
              else if LcrParity = 3 then a\<lparr>Parity := EvenParity\<rparr>
              else if LcrParity = 1 then a\<lparr>Parity := OddParity\<rparr>
              else if LcrParity = 7 then a\<lparr>Parity := SpaceParity\<rparr>
              else if LcrParity = 5 then a\<lparr>Parity := MarkParity\<rparr>
              else a))
      else
        (case Parity a of
           NoParity \<Rightarrow> Some (0, a)
         | EvenParity \<Rightarrow> Some (3, a)
         | OddParity \<Rightarrow> Some (1, a)
         | SpaceParity \<Rightarrow> Some (7, a)
         | MarkParity \<Rightarrow> Some (5, a)
         | _ \<Rightarrow> None))"

text \<open>Stop bits, lines 785-817; the data bits compared are the resolved ones.\<close>

definition ResolveStopBits :: "platform \<Rightarrow> attributes \<Rightarrow> (UINT8 \<times> attributes) option" where
  "ResolveStopBits p a =
     (if StopBits a = DefaultStopBits then
        (let LcrStop = drop_bit 2 (PcdSerialLineControl p) AND 0x1
         in Some (LcrStop,
              if LcrStop = 0 then a\<lparr>StopBits := OneStopBit\<rparr>
              else if LcrStop = 1 then
                (if DataBits a = 5 then a\<lparr>StopBits := OneFiveStopBits\<rparr>
                 else a\<lparr>StopBits := TwoStopBits\<rparr>)
              else a))
      else
        (case StopBits a of
           OneStopBit \<Rightarrow> Some (0, a)
         | OneFiveStopBits \<Rightarrow> Some (1, a)
         | TwoStopBits \<Rightarrow> Some (1, a)
         | _ \<Rightarrow> None))"

definition SerialPortSetAttributes ::
  "platform \<Rightarrow> hardware \<Rightarrow> attributes \<Rightarrow> state
     \<Rightarrow> (RETURN_STATUS \<times> attributes) outcome \<times> state" where
  "SerialPortSetAttributes p hw a s =
     (if UsePl011Uart s then
        (Forwarded (PL011UartInitializePort (PL011_UART_REGISTER_BASE p) a), s)
      else
        (let SerialRegisterBase = MINI_UART_REGISTER_BASE p;
             a = (if BaudRate a = 0 then a\<lparr>BaudRate := ucast (PcdSerialBaudRate p)\<rparr> else a);
             SerialBaudRate = (ucast (BaudRate a) :: UINT32)
         in case ResolveDataBits p a of
              None \<Rightarrow> (Returned (RETURN_INVALID_PARAMETER, a), s)
            | Some (LcrData, a) \<Rightarrow>
          (case ResolveParity p a of
              None \<Rightarrow> (Returned (RETURN_INVALID_PARAMETER, a), s)
            | Some (LcrParity, a) \<Rightarrow>
          (case ResolveStopBits p a of
              None \<Rightarrow> (Returned (RETURN_INVALID_PARAMETER, a), s)
            | Some (LcrStop, a) \<Rightarrow>
          (let (d, s) = SerialPortGetDivisor p hw SerialBaudRate s
           in case d of
                None \<Rightarrow> (DivisionByZero, s)
              | Some d \<Rightarrow>
                 (let Divisor = (ucast d :: UINTN);
                      s = SerialPortWriteRegister p SerialRegisterBase R_UART_LCR B_UART_LCR_DLAB s;
                      s = SerialPortWriteRegister p SerialRegisterBase R_UART_BAUD_HIGH
                            (ucast (drop_bit 8 Divisor)) s;
                      s = SerialPortWriteRegister p SerialRegisterBase R_UART_BAUD_LOW
                            (ucast (Divisor AND 0xff)) s;
                      Lcr = push_bit 3 LcrParity OR push_bit 2 LcrStop OR LcrData;
                      s = SerialPortWriteRegister p SerialRegisterBase R_UART_LCR (Lcr AND 0x3F) s
                  in (Returned (RETURN_SUCCESS, a), s)))))))"

section \<open>Vocabulary of the properties\<close>

text \<open>
  Nothing below this point is part of the library. These definitions name what the
  statements about it talk about: addresses, what the hardware shows at a given access,
  expected traces, and how one state relates to an earlier one.
\<close>

subsection \<open>Addresses and loads\<close>

definition VpuClockDivisor :: "platform \<Rightarrow> UINTN" where
  "VpuClockDivisor p = BCM2836_CM_BASE p + BCM2836_CM_VPU_CLOCK_DIVISOR p"

definition GpioFunctionSelect :: "platform \<Rightarrow> UINTN" where
  "GpioFunctionSelect p = GPIO_BASE_ADDRESS p + 4"

text \<open>The address of a register of the mini UART.\<close>

definition mini :: "platform \<Rightarrow> UINTN \<Rightarrow> UINTN" where
  "mini p r = reg p (MINI_UART_REGISTER_BASE p) r"

text \<open>What an 8-bit load from address \<open>a\<close> returns when it is access number \<open>t\<close>.\<close>

definition rd8 :: "hardware \<Rightarrow> nat \<Rightarrow> UINTN \<Rightarrow> UINT8" where
  "rd8 hw t a = ucast (hw t a)"

subsection \<open>Relating two states\<close>

text \<open>Both flags as before, and the trace only grown.\<close>

definition extends :: "state \<Rightarrow> state \<Rightarrow> bool" where
  "extends s s' \<longleftrightarrow>
     UsePl011Uart s' = UsePl011Uart s \<and> UsePl011UartSet s' = UsePl011UartSet s \<and>
     (\<exists>es. trace s' = trace s @ es)"

text \<open>As \<open>extends\<close>, and no store among the new accesses.\<close>

definition quiet :: "state \<Rightarrow> state \<Rightarrow> bool" where
  "quiet s s' \<longleftrightarrow> extends s s' \<and> writes (trace s') = writes (trace s)"

text \<open>The 8-bit loads from an address, and the 8-bit stores to it, whatever the value.\<close>

definition Load8 :: "UINTN \<Rightarrow> mmio set" where
  "Load8 a = {e. \<exists>v. e = Rd8 a v}"

definition Store8 :: "UINTN \<Rightarrow> mmio set" where
  "Store8 a = {e. \<exists>v. e = Wr8 a v}"

text \<open>Both flags as before, and the trace grown by accesses of the set \<open>A\<close> only.\<close>

definition within :: "mmio set \<Rightarrow> state \<Rightarrow> state \<Rightarrow> bool" where
  "within A s s' \<longleftrightarrow>
     UsePl011Uart s' = UsePl011Uart s \<and> UsePl011UartSet s' = UsePl011UartSet s \<and>
     (\<exists>es. trace s' = trace s @ es \<and> set es \<subseteq> A)"


text \<open>
  The accesses that each operation makes on the mini UART, by register. None of the sets
  holds a 32-bit load.
\<close>

definition WriteAccesses :: "platform \<Rightarrow> mmio set" where
  "WriteAccesses p =
     Load8 (mini p R_UART_LSR) \<union> Load8 (mini p R_UART_MSR) \<union> Store8 (mini p R_UART_TXBUF)"

definition ReadAccesses :: "platform \<Rightarrow> mmio set" where
  "ReadAccesses p =
     Load8 (mini p R_UART_MCR) \<union> Load8 (mini p R_UART_LSR) \<union> Load8 (mini p R_UART_RXBUF) \<union>
     Store8 (mini p R_UART_MCR)"

definition PollAccesses :: "platform \<Rightarrow> mmio set" where
  "PollAccesses p =
     Load8 (mini p R_UART_LSR) \<union> Load8 (mini p R_UART_MCR) \<union> Store8 (mini p R_UART_MCR)"

definition SetControlAccesses :: "platform \<Rightarrow> mmio set" where
  "SetControlAccesses p = Load8 (mini p R_UART_MCR) \<union> Store8 (mini p R_UART_MCR)"

definition GetControlAccesses :: "platform \<Rightarrow> mmio set" where
  "GetControlAccesses p =
     Load8 (mini p R_UART_MSR) \<union> Load8 (mini p R_UART_MCR) \<union> Load8 (mini p R_UART_LSR)"

subsection \<open>Variant detection\<close>

text \<open>The pin multiplexer routes the PL011 to the console pins, as access \<open>t\<close> sees it.\<close>

definition Pl011Selected :: "platform \<Rightarrow> hardware \<Rightarrow> nat \<Rightarrow> bool" where
  "Pl011Selected p hw t \<longleftrightarrow> hw t (GpioFunctionSelect p) AND 0x0003F000 = 0x00024000"

text \<open>
  State \<open>s'\<close> is \<open>s\<close> after a detection: the probe is the first new access, the first
  flag holds its verdict, and the second flag is raised.
\<close>

definition Detected :: "platform \<Rightarrow> hardware \<Rightarrow> state \<Rightarrow> state \<Rightarrow> bool" where
  "Detected p hw s s' \<longleftrightarrow>
     UsePl011UartSet s' \<and> (UsePl011Uart s' \<longleftrightarrow> Pl011Selected p hw (length (trace s))) \<and>
     (\<exists>es. trace s' =
        trace s @ Rd32 (GpioFunctionSelect p) (hw (length (trace s)) (GpioFunctionSelect p)) # es)"

text \<open>State \<open>s'\<close> carries the flags of \<open>s\<close>.\<close>

definition SameFlags :: "state \<Rightarrow> state \<Rightarrow> bool" where
  "SameFlags s s' \<longleftrightarrow>
     UsePl011Uart s' = UsePl011Uart s \<and> UsePl011UartSet s' = UsePl011UartSet s"

subsection \<open>Hardware that eventually answers\<close>

text \<open>Access \<open>t\<close>, were it a load of the line status register, would end the transmit wait.\<close>

definition TransmitterEmptyAt :: "platform \<Rightarrow> hardware \<Rightarrow> nat \<Rightarrow> bool" where
  "TransmitterEmptyAt p hw t \<longleftrightarrow>
     rd8 hw t (mini p R_UART_LSR) AND (B_UART_LSR_TEMT OR B_UART_LSR_TXRDY)
       = (B_UART_LSR_TEMT OR B_UART_LSR_TXRDY)"

text \<open>Access \<open>t\<close>, were it a call of \<^verbatim>\<open>SerialPortWritable\<close>, would return \<^verbatim>\<open>TRUE\<close>.\<close>

definition WritableAt :: "platform \<Rightarrow> hardware \<Rightarrow> nat \<Rightarrow> bool" where
  "WritableAt p hw t \<longleftrightarrow>
     (let Msr = rd8 hw t (mini p R_UART_MSR)
      in if PcdSerialUseHardwareFlowControl p then
           if PcdSerialDetectCable p
           then Msr AND (B_UART_MSR_DSR OR B_UART_MSR_CTS) = (B_UART_MSR_DSR OR B_UART_MSR_CTS)
           else Msr AND (B_UART_MSR_DSR OR B_UART_MSR_CTS) \<noteq> B_UART_MSR_DSR
         else True)"

text \<open>Access \<open>t\<close>, were it a load of the line status register, would show a received byte.\<close>

definition ReceiveReadyAt :: "platform \<Rightarrow> hardware \<Rightarrow> nat \<Rightarrow> bool" where
  "ReceiveReadyAt p hw t \<longleftrightarrow> rd8 hw t (mini p R_UART_LSR) AND B_UART_LSR_RXRDY \<noteq> 0"

text \<open>Counted from access \<open>t\<close>, access \<open>t + j\<close> is the first at which \<open>P\<close> holds.\<close>

definition FirstAt :: "(nat \<Rightarrow> bool) \<Rightarrow> nat \<Rightarrow> nat \<Rightarrow> bool" where
  "FirstAt P t j \<longleftrightarrow> P (t + j) \<and> (\<forall>i<j. \<not> P (t + i))"

text \<open>From every access on, \<open>P\<close> holds again at some later one.\<close>

definition recurs :: "(nat \<Rightarrow> bool) \<Rightarrow> bool" where
  "recurs P \<longleftrightarrow> (\<forall>t. \<exists>k. P (t + k))"

subsection \<open>Expected stores and traces\<close>

text \<open>The first \<open>n\<close> bytes of a buffer, each stored to the transmit buffer register.\<close>

definition TxBytes :: "platform \<Rightarrow> (nat \<Rightarrow> UINT8) \<Rightarrow> nat \<Rightarrow> (UINTN \<times> UINT8) list" where
  "TxBytes p Buffer n = map (\<lambda>i. (mini p R_UART_TXBUF, Buffer i)) [0..<n]"

text \<open>Address \<open>a\<close> loaded \<open>m\<close> times in a row, the first load being access \<open>t\<close>.\<close>

definition Polls :: "hardware \<Rightarrow> UINTN \<Rightarrow> nat \<Rightarrow> nat \<Rightarrow> mmio list" where
  "Polls hw a t m = map (\<lambda>i. Rd8 a (rd8 hw (t + i) a)) [0..<m]"

text \<open>
  The accesses of \<^verbatim>\<open>SerialPortInitialize\<close> from the divisor computation to the end of
  its check for an initialised port (lines 231-243), the first of them being access \<open>t\<close>.
\<close>

definition PreCheckTrace :: "platform \<Rightarrow> hardware \<Rightarrow> nat \<Rightarrow> mmio list" where
  "PreCheckTrace p hw t =
     [Rd32 (VpuClockDivisor p) (hw t (VpuClockDivisor p)),
      Rd8 (mini p R_UART_LCR) (rd8 hw (t + 1) (mini p R_UART_LCR)),
      Rd8 (mini p R_UART_LCR) (rd8 hw (t + 2) (mini p R_UART_LCR)),
      Wr8 (mini p R_UART_LCR) (rd8 hw (t + 2) (mini p R_UART_LCR) OR B_UART_LCR_DLAB),
      Rd8 (mini p R_UART_BAUD_HIGH) (rd8 hw (t + 4) (mini p R_UART_BAUD_HIGH)),
      Rd8 (mini p R_UART_BAUD_LOW) (rd8 hw (t + 5) (mini p R_UART_BAUD_LOW)),
      Rd8 (mini p R_UART_LCR) (rd8 hw (t + 6) (mini p R_UART_LCR)),
      Wr8 (mini p R_UART_LCR) (rd8 hw (t + 6) (mini p R_UART_LCR) AND NOT B_UART_LCR_DLAB)]"

definition PreChecked :: "platform \<Rightarrow> hardware \<Rightarrow> state \<Rightarrow> state" where
  "PreChecked p hw s = s\<lparr>trace := trace s @ PreCheckTrace p hw (length (trace s))\<rparr>"

text \<open>
  What that check compares: the low six bits of the line control register against the
  configured byte, and the divisor read under the latch, high byte then low byte, against
  the target.
\<close>

definition AlreadyInitialized :: "platform \<Rightarrow> hardware \<Rightarrow> nat \<Rightarrow> UINT32 \<Rightarrow> bool" where
  "AlreadyInitialized p hw t Divisor \<longleftrightarrow>
     rd8 hw (t + 1) (mini p R_UART_LCR) AND 0x3F = PcdSerialLineControl p AND 0x3F \<and>
     push_bit 8 (ucast (rd8 hw (t + 4) (mini p R_UART_BAUD_HIGH)) :: UINT32)
       OR ucast (rd8 hw (t + 5) (mini p R_UART_BAUD_LOW)) = Divisor"

text \<open>The stores of lines 260-285, which program the port.\<close>

definition ProgramWrites :: "platform \<Rightarrow> UINT32 \<Rightarrow> (UINTN \<times> UINT8) list" where
  "ProgramWrites p Divisor =
     [(mini p R_UART_LCR, B_UART_LCR_DLAB),
      (mini p R_UART_BAUD_HIGH, ucast (drop_bit 8 Divisor)),
      (mini p R_UART_BAUD_LOW, ucast (Divisor AND 0xff)),
      (mini p R_UART_LCR, PcdSerialLineControl p AND 0x3F),
      (mini p R_UART_FCR, 0x00),
      (mini p R_UART_FCR, PcdSerialFifoControl p AND (B_UART_FCR_FIFOE OR B_UART_FCR_FIFO64)),
      (mini p R_UART_IER, 0x00),
      (mini p R_UART_MCR, 0x00)]"

text \<open>The stores of lines 823-832, with which \<^verbatim>\<open>SerialPortSetAttributes\<close> ends.\<close>

definition SetAttributesWrites :: "platform \<Rightarrow> UINT32 \<Rightarrow> UINT8 \<Rightarrow> (UINTN \<times> UINT8) list" where
  "SetAttributesWrites p Divisor Lcr =
     [(mini p R_UART_LCR, B_UART_LCR_DLAB),
      (mini p R_UART_BAUD_HIGH, ucast (drop_bit 8 Divisor)),
      (mini p R_UART_BAUD_LOW, ucast (Divisor AND 0xff)),
      (mini p R_UART_LCR, Lcr)]"

text \<open>The state after the one load that \<^verbatim>\<open>SerialPortGetDivisor\<close> makes.\<close>

definition AfterClockRead :: "platform \<Rightarrow> hardware \<Rightarrow> state \<Rightarrow> state" where
  "AfterClockRead p hw s =
     s\<lparr>trace := trace s @ [Rd32 (VpuClockDivisor p) (hw (length (trace s)) (VpuClockDivisor p))]\<rparr>"

text \<open>\<^verbatim>\<open>SerialPortInitialize\<close> called twice in a row.\<close>

definition InitializeTwice ::
  "platform \<Rightarrow> hardware \<Rightarrow> state \<Rightarrow> (RETURN_STATUS outcome \<times> state) option" where
  "InitializeTwice p hw s =
     (case SerialPortInitialize p hw s of
        None \<Rightarrow> None
      | Some (r, s1) \<Rightarrow> SerialPortInitialize p hw s1)"

subsection \<open>Attributes\<close>

text \<open>The attributes that \<^verbatim>\<open>SerialPortSetAttributes\<close> rejects.\<close>

definition InvalidAttributes :: "attributes \<Rightarrow> bool" where
  "InvalidAttributes a \<longleftrightarrow>
     (DataBits a \<noteq> 0 \<and> (DataBits a < 5 \<or> 8 < DataBits a)) \<or>
     Parity a = ParityOutOfRange \<or> StopBits a = StopBitsOutOfRange"

text \<open>The caller's cells after lines 714-716.\<close>

definition DefaultedBaudRate :: "platform \<Rightarrow> attributes \<Rightarrow> attributes" where
  "DefaultedBaudRate p a =
     (if BaudRate a = 0 then a\<lparr>BaudRate := ucast (PcdSerialBaudRate p)\<rparr> else a)"

text \<open>
  The attributes that the configured defaults stand for: the baud rate PCD, and the three
  fields of the line control PCD read through the inverse of each encoding table. A
  parity code outside the table has no inverse, and the sentinel stays.
\<close>

definition ConfiguredAttributes :: "platform \<Rightarrow> attributes \<Rightarrow> attributes" where
  "ConfiguredAttributes p a =
     a\<lparr>BaudRate := ucast (PcdSerialBaudRate p),
       DataBits := (PcdSerialLineControl p AND 0x3) + 5,
       Parity :=
         (let c = drop_bit 3 (PcdSerialLineControl p) AND 0x7
          in if c = 0 then NoParity else if c = 1 then OddParity
             else if c = 3 then EvenParity else if c = 5 then MarkParity
             else if c = 7 then SpaceParity else DefaultParity),
       StopBits :=
         (if drop_bit 2 (PcdSerialLineControl p) AND 0x1 = 0 then OneStopBit
          else if PcdSerialLineControl p AND 0x3 = 0 then OneFiveStopBits
          else TwoStopBits)\<rparr>"

subsection \<open>The baud divisor as the specification words it\<close>

text \<open>
  The clock: the configured rate times 4, then \<open>(C << 12) / D\<close> when the divider \<open>D\<close>
  is nonzero. The divisor: \<open>C / (16 B)\<close>, one more when the remainder reaches half of
  \<open>16 B\<close>. Both on unbounded naturals.
\<close>

definition ScaledClock :: "nat \<Rightarrow> nat \<Rightarrow> nat" where
  "ScaledClock ClockRate D =
     (if D \<noteq> 0 then (ClockRate * 4 * 2 ^ 12) div D else ClockRate * 4)"

definition RoundedDivisor :: "nat \<Rightarrow> nat \<Rightarrow> nat" where
  "RoundedDivisor C B = C div (16 * B) + (if C mod (16 * B) \<ge> 8 * B then 1 else 0)"

section \<open>Concrete boards\<close>

text \<open>
  A Raspberry Pi 3 style configuration: peripherals at \<open>0x3F000000\<close>, registers four
  bytes apart, 115200 baud, 8N1, FIFOs on.
\<close>

definition rpi3 :: platform where
  "rpi3 = \<lparr>PcdSerialRegisterStride = 4, PcdSerialUseHardwareFlowControl = False,
      PcdSerialDetectCable = False, PcdSerialClockRate = 500000000,
      PcdSerialBaudRate = 115200, PcdSerialLineControl = 0x03, PcdSerialFifoControl = 0x27,
      PcdSerialExtendedTxFifoSize = 8, PcdUartDefaultBaudRate = 115200,
      PcdUartDefaultParity = 1, PcdUartDefaultDataBits = 8, PcdUartDefaultStopBits = 1,
      BCM2836_PL011_UART_BASE_ADDRESS = 0x3F201000,
      BCM2836_MINI_UART_BASE_ADDRESS = 0x3F215000, GPIO_BASE_ADDRESS = 0x3F200000,
      BCM2836_CM_BASE = 0x3F101000, BCM2836_CM_VPU_CLOCK_DIVISOR = 0x08\<rparr>"

text \<open>The same board with a 64-byte FIFO selected whose configured size is zero.\<close>

definition rpi3_fifo0 :: platform where
  "rpi3_fifo0 = rpi3\<lparr>PcdSerialFifoControl := 0x21, PcdSerialExtendedTxFifoSize := 0\<rparr>"

text \<open>The same board with hardware flow control and cable detection.\<close>

definition rpi3_flow :: platform where
  "rpi3_flow = rpi3\<lparr>PcdSerialUseHardwareFlowControl := True, PcdSerialDetectCable := True\<rparr>"

definition uefi_bits :: serial_io_bits where
  "uefi_bits = \<lparr>EFI_SERIAL_CLEAR_TO_SEND = 0x0010, EFI_SERIAL_DATA_SET_READY = 0x0020,
      EFI_SERIAL_RING_INDICATE = 0x0040, EFI_SERIAL_CARRIER_DETECT = 0x0080,
      EFI_SERIAL_REQUEST_TO_SEND = 0x0002, EFI_SERIAL_DATA_TERMINAL_READY = 0x0001,
      EFI_SERIAL_INPUT_BUFFER_EMPTY = 0x0100, EFI_SERIAL_OUTPUT_BUFFER_EMPTY = 0x0200,
      EFI_SERIAL_HARDWARE_FLOW_CONTROL_ENABLE = 0x4000\<rparr>"

text \<open>
  A mini UART at rest on the console pins, already programmed for \<open>rpi3\<close>: the pins are
  on function ALT5, the clock divider reads 5.0, the line control register reads 8N1,
  the divisor latch reads 217, the transmitter is empty, DSR and CTS are up.
\<close>

definition idle_mini_uart :: hardware where
  "idle_mini_uart t a =
     (if a = 0x3F200004 then 0x00012000
      else if a = 0x3F101008 then 0x5000
      else if a = 0x3F21504C then 0x03
      else if a = 0x3F215044 then 0x00
      else if a = 0x3F215040 then 0xD9
      else if a = 0x3F215054 then 0x60
      else if a = 0x3F215058 then 0x30
      else 0)"

text \<open>The same device before anything programmed it: line control and divisor read zero.\<close>

definition fresh_mini_uart :: hardware where
  "fresh_mini_uart t a =
     (if a = 0x3F21504C \<or> a = 0x3F215040 then 0 else idle_mini_uart t a)"

text \<open>The same device with the line set to 7 data bits, even parity, two stop bits.\<close>

definition mini_uart_7e2 :: hardware where
  "mini_uart_7e2 t a = (if a = 0x3F21504C then 0x1E else idle_mini_uart t a)"

text \<open>A board whose console pins are on function ALT0, the PL011.\<close>

definition pl011_board :: hardware where
  "pl011_board t a = (if a = 0x3F200004 then 0x00024000 else 0)"

text \<open>A board whose clock divider reads 0.25.\<close>

definition quarter_divider :: hardware where
  "quarter_divider t a = (if a = 0x3F101008 then 0x400 else idle_mini_uart t a)"

text \<open>The state at program start, and the state of a library that chose the mini UART.\<close>

definition unprobed :: state where
  "unprobed = \<lparr>UsePl011Uart = False, UsePl011UartSet = False, trace = []\<rparr>"

definition on_mini_uart :: state where
  "on_mini_uart = \<lparr>UsePl011Uart = False, UsePl011UartSet = True, trace = []\<rparr>"

text \<open>The state of a library that chose the PL011.\<close>

definition on_pl011 :: state where
  "on_pl011 = \<lparr>UsePl011Uart = True, UsePl011UartSet = True, trace = []\<rparr>"

text \<open>A buffer of the letter U, and a call with every attribute at its sentinel.\<close>

definition letters :: "nat \<Rightarrow> UINT8" where
  "letters i = 0x55"

definition all_defaults :: attributes where
  "all_defaults = \<lparr>BaudRate = 0, ReceiveFifoDepth = 0, Timeout = 0, Parity = DefaultParity,
      DataBits = 0, StopBits = DefaultStopBits\<rparr>"

text \<open>An explicit request for 8 data bits, no parity, one stop bit at 115200 baud.\<close>

definition explicit_8n1 :: attributes where
  "explicit_8n1 = \<lparr>BaudRate = 115200, ReceiveFifoDepth = 0, Timeout = 0, Parity = NoParity,
      DataBits = 8, StopBits = OneStopBit\<rparr>"

text \<open>
  A mini UART that takes the stores of a first \<^verbatim>\<open>SerialPortInitialize\<close> on \<open>rpi3\<close>:
  unprogrammed during the first 18 accesses, which is what that call makes from program
  start, and reading back the programmed line control and divisor bytes afterwards.
\<close>

definition mini_uart_taking_stores :: hardware where
  "mini_uart_taking_stores t a = (if t < 18 then fresh_mini_uart t a else idle_mini_uart t a)"

text \<open>The \<open>rpi3\<close> board configured for 300 baud: the divisor is 83333, \<open>0x14585\<close>.\<close>

definition rpi3_300 :: platform where
  "rpi3_300 = rpi3\<lparr>PcdSerialBaudRate := 300\<rparr>"

text \<open>
  A mini UART that takes the stores of a first \<^verbatim>\<open>SerialPortInitialize\<close> on \<open>rpi3_300\<close>:
  afterwards the divisor latch reads back the two bytes it was given, \<open>0x45\<close> and
  \<open>0x85\<close>.
\<close>

definition mini_uart_taking_stores_300 :: hardware where
  "mini_uart_taking_stores_300 t a =
     (if t < 18 then fresh_mini_uart t a
      else if a = 0x3F215044 then 0x45
      else if a = 0x3F215040 then 0x85
      else idle_mini_uart t a)"

text \<open>
  The \<open>rpi3\<close> board with a line control PCD whose parity field holds code 2, which no
  parity value encodes to: 8 data bits, one stop bit.
\<close>

definition rpi3_parity_code2 :: platform where
  "rpi3_parity_code2 = rpi3\<lparr>PcdSerialLineControl := 0x13\<rparr>"

text \<open>
  A mini UART with received bytes waiting: the line status register shows data ready
  and an empty transmitter, and the receive buffer reads the letter A.
\<close>

definition receiving_mini_uart :: hardware where
  "receiving_mini_uart t a =
     (if a = 0x3F215054 then 0x61
      else if a = 0x3F215040 then 0x41
      else idle_mini_uart t a)"

text \<open>A mini UART whose transmitter is busy during the first three accesses.\<close>

definition busy_then_idle :: hardware where
  "busy_then_idle t a = (if a = 0x3F215054 \<and> t < 3 then 0x00 else idle_mini_uart t a)"

text \<open>A request for 9 data bits with the parity left to the default.\<close>

definition nine_data_bits :: attributes where
  "nine_data_bits = \<lparr>BaudRate = 115200, ReceiveFifoDepth = 0, Timeout = 0,
      Parity = DefaultParity, DataBits = 9, StopBits = OneStopBit\<rparr>"

text \<open>A request that leaves the parity to the default and names the rest: 8 data bits, one stop bit.\<close>

definition default_parity_8_1 :: attributes where
  "default_parity_8_1 = \<lparr>BaudRate = 115200, ReceiveFifoDepth = 0, Timeout = 0,
      Parity = DefaultParity, DataBits = 8, StopBits = OneStopBit\<rparr>"

section \<open>Lemmas\<close>

subsection \<open>Frames: what the primitives and the loops leave alone\<close>

lemma extends_refl [simp]: "extends s s" by (simp add: extends_def)

lemma extends_trans: "extends s s' \<Longrightarrow> extends s' s'' \<Longrightarrow> extends s s''"
  by (auto simp: extends_def)

lemma extends_read [simp]: "extends s (snd (SerialPortReadRegister p hw B r s))"
  by (simp add: extends_def SerialPortReadRegister_def MmioRead8_def Let_def)

lemma extends_write [simp]: "extends s (SerialPortWriteRegister p B r v s)"
  by (simp add: extends_def SerialPortWriteRegister_def MmioWrite8_def)

lemma extends_writable [simp]: "extends s (snd (SerialPortWritable p hw B s))"
  by (simp add: SerialPortWritable_def split_beta Let_def)

lemma WaitTransmitEmpty_extends:
  assumes "WaitTransmitEmpty p hw B s = Some s'"
  shows "extends s s'"
proof (rule WaitTransmitEmpty.raw_induct [where P = "\<lambda>p hw B s s'. extends s s'", OF _ assms], goal_cases)
  case (1 f p hw B s s')
  show ?case
  proof (cases "fst (SerialPortReadRegister p hw B R_UART_LSR s) AND (B_UART_LSR_TEMT OR B_UART_LSR_TXRDY)
        \<noteq> B_UART_LSR_TEMT OR B_UART_LSR_TXRDY")
    case True
    with 1(2) have "f p hw B (snd (SerialPortReadRegister p hw B R_UART_LSR s)) = Some s'"
      by (simp add: split_beta)
    then have "extends (snd (SerialPortReadRegister p hw B R_UART_LSR s)) s'" by (rule 1(1))
    then show ?thesis by (rule extends_trans [OF extends_read])
  next
    case False
    with 1(2) have "s' = snd (SerialPortReadRegister p hw B R_UART_LSR s)"
      by (simp add: split_beta)
    then show ?thesis by simp
  qed
qed

lemma WaitWritable_extends:
  assumes "WaitWritable p hw B s = Some s'"
  shows "extends s s'"
proof (rule WaitWritable.raw_induct [where P = "\<lambda>p hw B s s'. extends s s'", OF _ assms], goal_cases)
  case (1 f p hw B s s')
  show ?case
  proof (cases "fst (SerialPortWritable p hw B s)")
    case False
    with 1(2) have "f p hw B (snd (SerialPortWritable p hw B s)) = Some s'"
      by (simp add: split_beta)
    then have "extends (snd (SerialPortWritable p hw B s)) s'" by (rule 1(1))
    then show ?thesis by (rule extends_trans [OF extends_writable])
  next
    case True
    with 1(2) have "s' = snd (SerialPortWritable p hw B s)"
      by (simp add: split_beta)
    then show ?thesis by simp
  qed
qed

lemma FillTxFifo_extends:
  assumes "FillTxFifo p hw B Size Index n Buffer s = Some r"
  shows "extends s (snd (snd r))"
proof (rule FillTxFifo.raw_induct [where P = "\<lambda>p hw B Size Index n Buffer s r. extends s (snd (snd r))", OF _ assms], goal_cases)
  case (1 f p hw B Size Index n Buffer s r)
  show ?case
  proof (cases "Index < Size \<and> n \<noteq> 0")
    case True
    with 1(2) obtain s1 where w: "WaitWritable p hw B s = Some s1"
      and f: "f p hw B Size (Index + 1) (n - 1) (\<lambda>i. Buffer (i + 1))
                (SerialPortWriteRegister p B R_UART_TXBUF (Buffer 0) s1) = Some r"
      by (auto split: option.splits)
    from w have "extends s s1" by (rule WaitWritable_extends)
    then have "extends s (SerialPortWriteRegister p B R_UART_TXBUF (Buffer 0) s1)"
      by (rule extends_trans) simp
    then show ?thesis using 1(1) [OF f] by (rule extends_trans)
  next
    case False
    with 1(2) show ?thesis by auto
  qed
qed

lemma WriteLoop_extends:
  assumes "WriteLoop p hw B Size n Buffer s = Some s'"
  shows "extends s s'"
proof (rule WriteLoop.raw_induct [where P = "\<lambda>p hw B Size n Buffer s s'. extends s s'", OF _ assms], goal_cases)
  case (1 f p hw B Size n Buffer s s')
  show ?case
  proof (cases "n \<noteq> 0")
    case True
    with 1(2) obtain s1 n' Buffer' s2 where w: "WaitTransmitEmpty p hw B s = Some s1"
      and g: "FillTxFifo p hw B Size 0 n Buffer s1 = Some (n', Buffer', s2)"
      and f: "f p hw B Size n' Buffer' s2 = Some s'"
      by (auto split: option.splits)
    have "extends s s1" using w by (rule WaitTransmitEmpty_extends)
    moreover have "extends s1 s2" using FillTxFifo_extends [OF g] by simp
    moreover have "extends s2 s'" using f by (rule 1(1))
    ultimately show ?thesis by (blast intro: extends_trans)
  next
    case False
    with 1(2) show ?thesis by auto
  qed
qed

subsection \<open>Stores of a trace\<close>

lemma writes_append [simp]: "writes (xs @ ys) = writes xs @ writes ys"
  by (induction xs rule: writes.induct) simp_all

lemma quiet_refl [simp]: "quiet s s" by (simp add: quiet_def)

lemma quiet_trans: "quiet s s' \<Longrightarrow> quiet s' s'' \<Longrightarrow> quiet s s''"
  by (auto simp: quiet_def intro: extends_trans)

lemma quiet_read [simp]: "quiet s (snd (SerialPortReadRegister p hw B r s))"
  by (simp add: quiet_def extends_def SerialPortReadRegister_def MmioRead8_def Let_def)

lemma quiet_writable [simp]: "quiet s (snd (SerialPortWritable p hw B s))"
  by (simp add: SerialPortWritable_def split_beta Let_def)

lemma length_read [simp]:
  "length (trace (snd (SerialPortReadRegister p hw B r s))) = Suc (length (trace s))"
  by (simp add: SerialPortReadRegister_def MmioRead8_def Let_def)

lemma fst_read [simp]:
  "fst (SerialPortReadRegister p hw B r s) = ucast (hw (length (trace s)) (reg p B r))"
  by (simp add: SerialPortReadRegister_def MmioRead8_def Let_def)

subsection \<open>The busy-wait loops end on hardware that answers\<close>

lemma WaitTransmitEmpty_returns:
  "TransmitterEmptyAt p hw (length (trace s) + k) \<Longrightarrow>
   \<exists>s'. WaitTransmitEmpty p hw (MINI_UART_REGISTER_BASE p) s = Some s' \<and> quiet s s'"
proof (induction k arbitrary: s)
  case 0
  then show ?case
    by (subst WaitTransmitEmpty.simps) (simp add: TransmitterEmptyAt_def rd8_def mini_def split_beta)
next
  case (Suc k)
  let ?r = "SerialPortReadRegister p hw (MINI_UART_REGISTER_BASE p) R_UART_LSR s"
  show ?case
  proof (cases "TransmitterEmptyAt p hw (length (trace s))")
    case True
    then show ?thesis
      by (subst WaitTransmitEmpty.simps) (simp add: TransmitterEmptyAt_def rd8_def mini_def split_beta)
  next
    case False
    from Suc.prems have "TransmitterEmptyAt p hw (length (trace (snd ?r)) + k)" by simp
    from Suc.IH [OF this] obtain s' where
      "WaitTransmitEmpty p hw (MINI_UART_REGISTER_BASE p) (snd ?r) = Some s'" "quiet (snd ?r) s'"
      by blast
    with False show ?thesis
      by (subst WaitTransmitEmpty.simps)
         (auto simp: TransmitterEmptyAt_def rd8_def mini_def split_beta intro: quiet_trans [OF quiet_read])
  qed
qed

lemma fst_writable:
  "fst (SerialPortWritable p hw (MINI_UART_REGISTER_BASE p) s) = WritableAt p hw (length (trace s))"
  by (simp add: SerialPortWritable_def WritableAt_def rd8_def mini_def split_beta Let_def)

lemma length_writable:
  "length (trace (snd (SerialPortWritable p hw B s))) =
     (if PcdSerialUseHardwareFlowControl p then Suc (length (trace s)) else length (trace s))"
  by (simp add: SerialPortWritable_def split_beta Let_def)

lemma WaitWritable_returns:
  "WritableAt p hw (length (trace s) + k) \<Longrightarrow>
   \<exists>s'. WaitWritable p hw (MINI_UART_REGISTER_BASE p) s = Some s' \<and> quiet s s'"
proof (induction k arbitrary: s)
  case 0
  then show ?case
    by (subst WaitWritable.simps) (simp add: fst_writable split_beta)
next
  case (Suc k)
  let ?r = "SerialPortWritable p hw (MINI_UART_REGISTER_BASE p) s"
  show ?case
  proof (cases "WritableAt p hw (length (trace s))")
    case True
    then show ?thesis
      by (subst WaitWritable.simps) (simp add: fst_writable split_beta)
  next
    case False
    then have fc: "PcdSerialUseHardwareFlowControl p" by (auto simp: WritableAt_def Let_def split: if_splits)
    from Suc.prems fc have "WritableAt p hw (length (trace (snd ?r)) + k)"
      by (simp add: length_writable)
    from Suc.IH [OF this] obtain s' where
      "WaitWritable p hw (MINI_UART_REGISTER_BASE p) (snd ?r) = Some s'" "quiet (snd ?r) s'"
      by blast
    with False show ?thesis
      by (subst WaitWritable.simps)
         (auto simp: fst_writable split_beta intro: quiet_trans [OF quiet_writable])
  qed
qed

subsection \<open>The transmit loops\<close>

lemma TxBytes_0 [simp]: "TxBytes p Buffer 0 = []" by (simp add: TxBytes_def)

lemma TxBytes_Suc:
  "TxBytes p Buffer (Suc n) =
     (mini p R_UART_TXBUF, Buffer 0) # TxBytes p (\<lambda>i. Buffer (i + 1)) n"
  by (simp add: TxBytes_def map_upt_Suc del: upt_Suc)

lemma TxBytes_add:
  "TxBytes p Buffer (m + k) = TxBytes p Buffer m @ TxBytes p (\<lambda>i. Buffer (i + m)) k"
proof (induction m arbitrary: Buffer)
  case 0 show ?case by simp
next
  case (Suc m)
  show ?case using Suc [of "\<lambda>i. Buffer (i + 1)"] by (simp add: TxBytes_Suc)
qed

lemma FillTxFifo_returns:
  assumes live: "recurs (WritableAt p hw)"
  shows "\<exists>s'. FillTxFifo p hw (MINI_UART_REGISTER_BASE p) Size Index n Buffer s =
            Some (n - min (Size - Index) n, (\<lambda>i. Buffer (i + min (Size - Index) n)), s') \<and>
          extends s s' \<and>
          writes (trace s') = writes (trace s) @ TxBytes p Buffer (min (Size - Index) n)"
proof (induction n arbitrary: Index Buffer s)
  case 0
  show ?case by (subst FillTxFifo.simps) simp
next
  case (Suc n)
  show ?case
  proof (cases "Index < Size")
    case False
    then show ?thesis by (subst FillTxFifo.simps) simp
  next
    case True
    from live obtain k where "WritableAt p hw (length (trace s) + k)"
      by (auto simp: recurs_def)
    from WaitWritable_returns [OF this] obtain s1 where
      w: "WaitWritable p hw (MINI_UART_REGISTER_BASE p) s = Some s1" and q: "quiet s s1"
      by blast
    let ?s2 = "SerialPortWriteRegister p (MINI_UART_REGISTER_BASE p) R_UART_TXBUF (Buffer 0) s1"
    from Suc [of "Index + 1" "\<lambda>i. Buffer (i + 1)" ?s2] obtain s' where
      f: "FillTxFifo p hw (MINI_UART_REGISTER_BASE p) Size (Index + 1) n (\<lambda>i. Buffer (i + 1)) ?s2 =
            Some (n - min (Size - (Index + 1)) n,
                  (\<lambda>i. Buffer (i + min (Size - (Index + 1)) n + 1)), s')"
      and e: "extends ?s2 s'"
      and t: "writes (trace s') = writes (trace ?s2) @
                TxBytes p (\<lambda>i. Buffer (i + 1)) (min (Size - (Index + 1)) n)"
      by auto
    have m: "min (Size - Index) (Suc n) = Suc (min (Size - (Index + 1)) n)"
      using True by arith
    have w2: "writes (trace ?s2) =
        writes (trace s) @ [(mini p R_UART_TXBUF, Buffer 0)]"
      using q by (simp add: quiet_def SerialPortWriteRegister_def MmioWrite8_def mini_def)
    have "extends s ?s2" using q by (auto simp: quiet_def intro: extends_trans)
    then have "extends s s'" using e by (rule extends_trans)
    moreover have "writes (trace s') = writes (trace s) @ TxBytes p Buffer (min (Size - Index) (Suc n))"
      by (simp add: t w2 m TxBytes_Suc)
    moreover have "FillTxFifo p hw (MINI_UART_REGISTER_BASE p) Size Index (Suc n) Buffer s =
            Some (Suc n - min (Size - Index) (Suc n),
                  (\<lambda>i. Buffer (i + min (Size - Index) (Suc n))), s')"
      using True w f by (subst FillTxFifo.simps) (simp add: m add.assoc)
    ultimately show ?thesis by blast
  qed
qed

lemma WriteLoop_returns:
  assumes tx: "recurs (TransmitterEmptyAt p hw)" and wr: "recurs (WritableAt p hw)"
    and size: "0 < Size"
  shows "\<exists>s'. WriteLoop p hw (MINI_UART_REGISTER_BASE p) Size n Buffer s = Some s' \<and>
          extends s s' \<and> writes (trace s') = writes (trace s) @ TxBytes p Buffer n"
proof (induction n arbitrary: Buffer s rule: less_induct)
  case (less n)
  show ?case
  proof (cases "n = 0")
    case True
    then show ?thesis by (subst WriteLoop.simps) simp
  next
    case False
    define m where "m = min Size n"
    have m: "0 < m" "m \<le> n" using False size by (simp_all add: m_def)
    from tx obtain k where "TransmitterEmptyAt p hw (length (trace s) + k)"
      by (auto simp: recurs_def)
    from WaitTransmitEmpty_returns [OF this] obtain s1 where
      w: "WaitTransmitEmpty p hw (MINI_UART_REGISTER_BASE p) s = Some s1" and q: "quiet s s1"
      by blast
    from FillTxFifo_returns [OF wr, of Size 0 n Buffer s1] obtain s2 where
      f: "FillTxFifo p hw (MINI_UART_REGISTER_BASE p) Size 0 n Buffer s1 =
            Some (n - m, (\<lambda>i. Buffer (i + m)), s2)"
      and e2: "extends s1 s2"
      and t2: "writes (trace s2) = writes (trace s1) @ TxBytes p Buffer m"
      by (auto simp: m_def)
    have "n - m < n" using m by simp
    from less [OF this, of "\<lambda>i. Buffer (i + m)" s2] obtain s' where
      l: "WriteLoop p hw (MINI_UART_REGISTER_BASE p) Size (n - m) (\<lambda>i. Buffer (i + m)) s2 = Some s'"
      and e3: "extends s2 s'"
      and t3: "writes (trace s') = writes (trace s2) @ TxBytes p (\<lambda>i. Buffer (i + m)) (n - m)"
      by blast
    have "extends s s'" using q e2 e3 by (auto simp: quiet_def intro: extends_trans)
    moreover have "writes (trace s') = writes (trace s) @ TxBytes p Buffer n"
      using q t2 t3 TxBytes_add [of p Buffer m "n - m"] m by (simp add: quiet_def)
    moreover have "WriteLoop p hw (MINI_UART_REGISTER_BASE p) Size n Buffer s = Some s'"
      using False w f l by (subst WriteLoop.simps) simp
    ultimately show ?thesis by blast
  qed
qed

lemma WriteLoop_spins:
  assumes "WriteLoop p hw B Size n Buffer s = Some s'"
  shows "Size = 0 \<longrightarrow> n = 0"
proof (rule WriteLoop.raw_induct [where P = "\<lambda>p hw B Size n Buffer s s'. Size = 0 \<longrightarrow> n = 0", OF _ assms], goal_cases)
  case (1 f p hw B Size n Buffer s s')
  show ?case
  proof (rule impI, rule ccontr)
    assume z: "Size = 0" and n: "n \<noteq> 0"
    have g: "FillTxFifo p hw B 0 0 n Buffer s1 = Some (n, Buffer, s1)" for s1
      by (subst FillTxFifo.simps) simp
    from 1(2) n z obtain s1 where "f p hw B 0 n Buffer s1 = Some s'"
      by (auto simp: g split: option.splits)
    from 1(1) [OF this] n show False by simp
  qed
qed

subsection \<open>The run of SerialPortInitialize on the mini UART\<close>

lemma GetDivisor_snd:
  "snd (SerialPortGetDivisor p hw b s) =
     s\<lparr>trace := trace s @ [Rd32 (VpuClockDivisor p) (hw (length (trace s)) (VpuClockDivisor p))]\<rparr>"
  by (simp add: SerialPortGetDivisor_def MmioRead32_def Let_def VpuClockDivisor_def split_beta)


lemma Initialize_mini:
  assumes mini: "\<not> UsePl011Uart (DetectUart p hw s)"
    and d: "fst (SerialPortGetDivisor p hw (PcdSerialBaudRate p) (DetectUart p hw s)) = Some Divisor"
  shows "SerialPortInitialize p hw s =
     (if AlreadyInitialized p hw (length (trace (DetectUart p hw s))) Divisor
      then Some (Returned RETURN_SUCCESS, PreChecked p hw (DetectUart p hw s))
      else (case WaitTransmitEmpty p hw (MINI_UART_REGISTER_BASE p) (PreChecked p hw (DetectUart p hw s)) of
              None \<Rightarrow> None
            | Some s' \<Rightarrow> Some (Returned RETURN_SUCCESS,
                s'\<lparr>trace := trace s' @ map (\<lambda>(a, v). Wr8 a v) (ProgramWrites p Divisor)\<rparr>)))"
proof -
  define s0 where "s0 = DetectUart p hw s"
  have g: "SerialPortGetDivisor p hw (PcdSerialBaudRate p) s0 =
      (Some Divisor, s0\<lparr>trace := trace s0 @ [Rd32 (VpuClockDivisor p) (hw (length (trace s0)) (VpuClockDivisor p))]\<rparr>)"
    using d GetDivisor_snd [of p hw "PcdSerialBaudRate p" s0]
    by (cases "SerialPortGetDivisor p hw (PcdSerialBaudRate p) s0") (simp add: s0_def)
  show ?thesis
    using mini unfolding s0_def [symmetric]
    apply (simp add: SerialPortInitialize_def Let_def s0_def [symmetric] g)
    apply (simp add: SerialPortReadRegister_def SerialPortWriteRegister_def MmioRead8_def MmioWrite8_def
        Let_def PreChecked_def PreCheckTrace_def AlreadyInitialized_def ProgramWrites_def
        mini_def rd8_def eval_nat_numeral split: option.split)
    done
qed

subsection \<open>Bytes, bit by bit\<close>

lemma byte_eq_iff:
  "x = y \<longleftrightarrow> (bit x 0 = bit y 0) \<and> (bit x 1 = bit y 1) \<and> (bit x 2 = bit y 2) \<and> (bit x 3 = bit y 3)
     \<and> (bit x 4 = bit y 4) \<and> (bit x 5 = bit y 5) \<and> (bit x 6 = bit y 6) \<and> (bit x 7 = bit y 7)"
  (is "_ \<longleftrightarrow> ?R") for x y :: UINT8
proof
  assume ?R
  show "x = y"
  proof (rule bit_word_eqI)
    fix n assume "n < LENGTH(8)"
    then have "n \<in> {0, 1, 2, 3, 4, 5, 6, 7}" by auto
    with \<open>?R\<close> show "bit x n = bit y n" by auto
  qed
qed simp

lemma and_30_eq_30: "(x AND 0x30 = 0x30) \<longleftrightarrow> bit x 5 \<and> bit x 4" for x :: UINT8
  by (auto simp: byte_eq_iff bit_and_iff)

lemma and_30_eq_20: "(x AND 0x30 = 0x20) \<longleftrightarrow> bit x 5 \<and> \<not> bit x 4" for x :: UINT8
  by (auto simp: byte_eq_iff bit_and_iff)

lemma repack: "(push_bit 3 (drop_bit 3 x AND 0x7) OR push_bit 2 (drop_bit 2 x AND 0x1) OR (x AND 0x3)) AND 0x3F
   = x AND 0x3F" for x :: UINT8
  by (simp add: byte_eq_iff bit_and_iff bit_or_iff bit_push_bit_iff bit_drop_bit_eq)


lemma ucast_drop_bit8: "(ucast (drop_bit 8 (ucast d :: UINTN)) :: UINT8) = ucast (drop_bit 8 d)"
  for d :: UINT32
  by (rule bit_word_eqI) (simp add: bit_ucast_iff bit_drop_bit_eq)

lemma ucast_and_ff: "(ucast ((ucast d :: UINTN) AND 0xff) :: UINT8) = ucast (d AND 0xff)"
  for d :: UINT32
  by (rule bit_word_eqI) (simp add: bit_ucast_iff bit_and_iff)

subsection \<open>The divisor arithmetic on naturals\<close>

lemma unat_ucast: "unat (ucast w :: 'c::len word) = unat w mod 2 ^ LENGTH('c)"
  for w :: "'b::len word"
  by (simp add: unsigned_ucast_eq take_bit_eq_mod)

lemma unat_clock: "unat ((ucast (c :: UINT32) :: UINT64) * 4) = unat c * 4"
proof -
  have "unat c < 2 ^ 32" using unsigned_less [of c] by simp
  then show ?thesis by (simp add: unat_word_ariths unat_ucast)
qed

lemma unat_scaled:
  "unat (if (v :: UINT32) AND 0xFFFFFF \<noteq> 0
         then push_bit 12 ((ucast (c :: UINT32) :: UINT64) * 4) div ucast (v AND 0xFFFFFF)
         else (ucast c :: UINT64) * 4)
   = ScaledClock (unat c) (unat (v AND 0xFFFFFF))"
proof -
  have c: "unat c < 2 ^ 32" using unsigned_less [of c] by simp
  have d: "unat (v AND 0xFFFFFF) < 2 ^ 32" using unsigned_less [of "v AND 0xFFFFFF"] by simp
  have p: "unat (push_bit 12 ((ucast c :: UINT64) * 4)) = unat c * 4 * 2 ^ 12"
    using c by (simp add: push_bit_eq_mult unat_word_ariths unat_ucast)
  show ?thesis
    using d by (simp add: ScaledClock_def unat_clock unat_div p unat_ucast unat_eq_0)
qed

subsection \<open>Validation in SerialPortSetAttributes and SerialPortSetControl\<close>

lemma ResolveDataBits_None:
  "ResolveDataBits p a = None \<longleftrightarrow> DataBits a \<noteq> 0 \<and> (DataBits a < 5 \<or> 8 < DataBits a)"
  by (simp add: ResolveDataBits_def Let_def)

lemma ResolveParity_None: "ResolveParity p a = None \<longleftrightarrow> Parity a = ParityOutOfRange"
  by (cases "Parity a") (simp_all add: ResolveParity_def Let_def)

lemma ResolveStopBits_None: "ResolveStopBits p a = None \<longleftrightarrow> StopBits a = StopBitsOutOfRange"
  by (cases "StopBits a") (simp_all add: ResolveStopBits_def Let_def)

lemma ResolveDataBits_keeps:
  "ResolveDataBits p a = Some (c, a') \<Longrightarrow> Parity a' = Parity a \<and> StopBits a' = StopBits a"
  by (auto simp: ResolveDataBits_def Let_def split: if_splits)

lemma ResolveParity_keeps:
  "ResolveParity p a = Some (c, a') \<Longrightarrow> StopBits a' = StopBits a"
  by (cases "Parity a") (auto simp: ResolveParity_def Let_def split: if_splits)

lemma GetDivisor_pair:
  "SerialPortGetDivisor p hw b s = (fst (SerialPortGetDivisor p hw b s), AfterClockRead p hw s)"
  using GetDivisor_snd [of p hw b s] by (simp add: AfterClockRead_def prod_eq_iff)

lemma GetDivisor_None_iff:
  "fst (SerialPortGetDivisor p hw B s) = None \<longleftrightarrow> B * 16 = 0"
  by (simp add: SerialPortGetDivisor_def Let_def split_beta)

lemma SetAttributes_unfold:
  assumes "\<not> UsePl011Uart s"
  shows "SerialPortSetAttributes p hw a s =
    (case ResolveDataBits p (DefaultedBaudRate p a) of
       None \<Rightarrow> (Returned (RETURN_INVALID_PARAMETER, DefaultedBaudRate p a), s)
     | Some (LcrData, a1) \<Rightarrow>
    (case ResolveParity p a1 of
       None \<Rightarrow> (Returned (RETURN_INVALID_PARAMETER, a1), s)
     | Some (LcrParity, a2) \<Rightarrow>
    (case ResolveStopBits p a2 of
       None \<Rightarrow> (Returned (RETURN_INVALID_PARAMETER, a2), s)
     | Some (LcrStop, a3) \<Rightarrow>
    (case fst (SerialPortGetDivisor p hw (ucast (BaudRate (DefaultedBaudRate p a))) s) of
       None \<Rightarrow> (DivisionByZero, AfterClockRead p hw s)
     | Some d \<Rightarrow>
        (Returned (RETURN_SUCCESS, a3),
         (AfterClockRead p hw s)\<lparr>trace := trace (AfterClockRead p hw s) @
            map (\<lambda>(a, v). Wr8 a v)
              (SetAttributesWrites p d
                 ((push_bit 3 LcrParity OR push_bit 2 LcrStop OR LcrData) AND 0x3F))\<rparr>)))))"
  using assms
  apply (simp only: SerialPortSetAttributes_def Let_def DefaultedBaudRate_def [symmetric] if_False)
  apply (subst GetDivisor_pair)
  apply (cases "ResolveDataBits p (DefaultedBaudRate p a)")
   apply simp
  apply (rename_tac x1, case_tac x1)
  apply (rename_tac c1 a1)
  apply (case_tac "ResolveParity p a1")
   apply simp
  apply (rename_tac x2, case_tac x2)
  apply (rename_tac c2 a2)
  apply (case_tac "ResolveStopBits p a2")
   apply simp
  apply (rename_tac x3, case_tac x3)
  apply (rename_tac c3 a3)
  apply (case_tac "fst (SerialPortGetDivisor p hw (ucast (BaudRate (DefaultedBaudRate p a))) s)")
   apply simp
  apply (simp add: SetAttributesWrites_def mini_def SerialPortWriteRegister_def MmioWrite8_def
      ucast_drop_bit8 ucast_and_ff)
  done

lemma Resolve_valid:
  assumes "\<not> InvalidAttributes a"
  shows "\<exists>c1 a1 c2 a2 c3 a3.
     ResolveDataBits p (DefaultedBaudRate p a) = Some (c1, a1) \<and>
     ResolveParity p a1 = Some (c2, a2) \<and> ResolveStopBits p a2 = Some (c3, a3)"
proof -
  let ?a0 = "DefaultedBaudRate p a"
  have a0: "DataBits ?a0 = DataBits a" "Parity ?a0 = Parity a" "StopBits ?a0 = StopBits a"
    by (simp_all add: DefaultedBaudRate_def)
  from assms have "ResolveDataBits p ?a0 \<noteq> None"
    by (simp add: ResolveDataBits_None a0 InvalidAttributes_def)
  then obtain c1 a1 where 1: "ResolveDataBits p ?a0 = Some (c1, a1)" by auto
  from assms ResolveDataBits_keeps [OF 1] have "ResolveParity p a1 \<noteq> None"
    by (simp add: ResolveParity_None a0 InvalidAttributes_def)
  then obtain c2 a2 where 2: "ResolveParity p a1 = Some (c2, a2)" by auto
  from assms ResolveDataBits_keeps [OF 1] ResolveParity_keeps [OF 2]
  have "ResolveStopBits p a2 \<noteq> None"
    by (simp add: ResolveStopBits_None a0 InvalidAttributes_def)
  then obtain c3 a3 where 3: "ResolveStopBits p a2 = Some (c3, a3)" by auto
  from 1 2 3 show ?thesis by blast
qed

lemma Resolve_invalid:
  assumes "InvalidAttributes a"
  shows "ResolveDataBits p (DefaultedBaudRate p a) = None \<or>
     (\<exists>c1 a1. ResolveDataBits p (DefaultedBaudRate p a) = Some (c1, a1) \<and>
        (ResolveParity p a1 = None \<or>
         (\<exists>c2 a2. ResolveParity p a1 = Some (c2, a2) \<and> ResolveStopBits p a2 = None)))"
proof -
  let ?a0 = "DefaultedBaudRate p a"
  have a0: "DataBits ?a0 = DataBits a" "Parity ?a0 = Parity a" "StopBits ?a0 = StopBits a"
    by (simp_all add: DefaultedBaudRate_def)
  show ?thesis
  proof (cases "ResolveDataBits p ?a0")
    case None then show ?thesis by simp
  next
    case (Some x)
    then obtain c1 a1 where 1: "ResolveDataBits p ?a0 = Some (c1, a1)" by (cases x) auto
    then have d: "\<not> (DataBits a \<noteq> 0 \<and> (DataBits a < 5 \<or> 8 < DataBits a))"
      using ResolveDataBits_None [of p ?a0] by (simp add: a0)
    show ?thesis
    proof (cases "ResolveParity p a1")
      case None with 1 show ?thesis by simp
    next
      case (Some y)
      then obtain c2 a2 where 2: "ResolveParity p a1 = Some (c2, a2)" by (cases y) auto
      then have "Parity a \<noteq> ParityOutOfRange"
        using ResolveParity_None [of p a1] ResolveDataBits_keeps [OF 1] by (simp add: a0)
      with assms d have "StopBits a = StopBitsOutOfRange" by (simp add: InvalidAttributes_def)
      then have "ResolveStopBits p a2 = None"
        using ResolveDataBits_keeps [OF 1] ResolveParity_keeps [OF 2]
        by (simp add: ResolveStopBits_None a0)
      with 1 2 show ?thesis by simp
    qed
  qed
qed

lemma SetAttributes_invalid:
  assumes mini: "\<not> UsePl011Uart s"
  shows "(\<exists>a'. fst (SerialPortSetAttributes p hw a s) = Returned (RETURN_INVALID_PARAMETER, a'))
           \<longleftrightarrow> InvalidAttributes a" (is "?L \<longleftrightarrow> _")
    and "InvalidAttributes a \<Longrightarrow> snd (SerialPortSetAttributes p hw a s) = s"
proof -
  show "?L \<longleftrightarrow> InvalidAttributes a"
  proof
    assume ?L
    show "InvalidAttributes a"
    proof (rule ccontr)
      assume "\<not> InvalidAttributes a"
      from Resolve_valid [OF this, of p] \<open>?L\<close> show False
        by (auto simp: SetAttributes_unfold [OF mini] split: option.splits)
    qed
  next
    assume "InvalidAttributes a"
    from Resolve_invalid [OF this, of p] show ?L
      by (auto simp: SetAttributes_unfold [OF mini])
  qed
  assume "InvalidAttributes a"
  from Resolve_invalid [OF this, of p] show "snd (SerialPortSetAttributes p hw a s) = s"
    by (auto simp: SetAttributes_unfold [OF mini])
qed

lemma SetControl_unsupported:
  assumes "\<not> UsePl011Uart s"
  shows "fst (SerialPortSetControl p b hw Control s) = Returned RETURN_UNSUPPORTED \<longleftrightarrow>
         Control AND NOT (EFI_SERIAL_REQUEST_TO_SEND b OR EFI_SERIAL_DATA_TERMINAL_READY b OR
                          EFI_SERIAL_HARDWARE_FLOW_CONTROL_ENABLE b) \<noteq> 0"
    and "fst (SerialPortSetControl p b hw Control s) = Returned RETURN_UNSUPPORTED \<Longrightarrow>
         snd (SerialPortSetControl p b hw Control s) = s"
  using assms by (auto simp: SerialPortSetControl_def Let_def split_beta)

subsection \<open>Accesses confined to a set\<close>

lemma within_refl [simp]: "within A s s" by (simp add: within_def)

lemma within_trans: "within A s s' \<Longrightarrow> within A s' s'' \<Longrightarrow> within A s s''"
  by (auto simp: within_def)

lemma within_read: "Load8 (reg p B r) \<subseteq> A \<Longrightarrow> within A s (snd (SerialPortReadRegister p hw B r s))"
  by (auto simp: within_def SerialPortReadRegister_def MmioRead8_def Let_def Load8_def)

lemma within_write: "Store8 (reg p B r) \<subseteq> A \<Longrightarrow> within A s (SerialPortWriteRegister p B r v s)"
  by (auto simp: within_def SerialPortWriteRegister_def MmioWrite8_def Store8_def)

lemma within_writable:
  "Load8 (reg p B R_UART_MSR) \<subseteq> A \<Longrightarrow> within A s (snd (SerialPortWritable p hw B s))"
  by (simp add: SerialPortWritable_def split_beta Let_def within_read)

lemma WaitTransmitEmpty_within:
  assumes "WaitTransmitEmpty p hw B s = Some s'" and "Load8 (reg p B R_UART_LSR) \<subseteq> A"
  shows "within A s s'"
proof -
  have "Load8 (reg p B R_UART_LSR) \<subseteq> A \<longrightarrow> within A s s'"
  proof (rule WaitTransmitEmpty.raw_induct
      [where P = "\<lambda>p hw B s s'. Load8 (reg p B R_UART_LSR) \<subseteq> A \<longrightarrow> within A s s'", OF _ assms(1)],
      goal_cases)
    case (1 f p hw B s s')
    let ?r = "SerialPortReadRegister p hw B R_UART_LSR s"
    show ?case
    proof (rule impI)
      assume A: "Load8 (reg p B R_UART_LSR) \<subseteq> A"
      show "within A s s'"
      proof (cases "fst ?r AND (B_UART_LSR_TEMT OR B_UART_LSR_TXRDY)
          \<noteq> B_UART_LSR_TEMT OR B_UART_LSR_TXRDY")
        case True
        with 1(2) have "f p hw B (snd ?r) = Some s'" by (simp add: split_beta)
        from 1(1) [OF this] A have "within A (snd ?r) s'" by simp
        then show ?thesis by (rule within_trans [OF within_read [OF A]])
      next
        case False
        with 1(2) have "s' = snd ?r" by (simp add: split_beta)
        then show ?thesis by (simp add: within_read [OF A])
      qed
    qed
  qed
  with assms(2) show ?thesis by simp
qed

lemma WaitWritable_within:
  assumes "WaitWritable p hw B s = Some s'" and "Load8 (reg p B R_UART_MSR) \<subseteq> A"
  shows "within A s s'"
proof -
  have "Load8 (reg p B R_UART_MSR) \<subseteq> A \<longrightarrow> within A s s'"
  proof (rule WaitWritable.raw_induct
      [where P = "\<lambda>p hw B s s'. Load8 (reg p B R_UART_MSR) \<subseteq> A \<longrightarrow> within A s s'", OF _ assms(1)],
      goal_cases)
    case (1 f p hw B s s')
    let ?r = "SerialPortWritable p hw B s"
    show ?case
    proof (rule impI)
      assume A: "Load8 (reg p B R_UART_MSR) \<subseteq> A"
      show "within A s s'"
      proof (cases "fst ?r")
        case False
        with 1(2) have "f p hw B (snd ?r) = Some s'" by (simp add: split_beta)
        from 1(1) [OF this] A have "within A (snd ?r) s'" by simp
        then show ?thesis by (rule within_trans [OF within_writable [OF A]])
      next
        case True
        with 1(2) have "s' = snd ?r" by (simp add: split_beta)
        then show ?thesis by (simp add: within_writable [OF A])
      qed
    qed
  qed
  with assms(2) show ?thesis by simp
qed

lemma WaitReceiveReady_within:
  assumes "WaitReceiveReady p hw B Mcr s = Some s'"
    and "Load8 (reg p B R_UART_LSR) \<subseteq> A" and "Store8 (reg p B R_UART_MCR) \<subseteq> A"
  shows "within A s s'"
proof -
  have "Load8 (reg p B R_UART_LSR) \<subseteq> A \<and> Store8 (reg p B R_UART_MCR) \<subseteq> A \<longrightarrow> within A s s'"
  proof (rule WaitReceiveReady.raw_induct
      [where P = "\<lambda>p hw B Mcr s s'.
         Load8 (reg p B R_UART_LSR) \<subseteq> A \<and> Store8 (reg p B R_UART_MCR) \<subseteq> A \<longrightarrow> within A s s'",
       OF _ assms(1)], goal_cases)
    case (1 f p hw B Mcr s s')
    let ?r = "SerialPortReadRegister p hw B R_UART_LSR s"
    show ?case
    proof (rule impI)
      assume A: "Load8 (reg p B R_UART_LSR) \<subseteq> A \<and> Store8 (reg p B R_UART_MCR) \<subseteq> A"
      then have L: "Load8 (reg p B R_UART_LSR) \<subseteq> A" and S: "Store8 (reg p B R_UART_MCR) \<subseteq> A"
        by simp_all
      show "within A s s'"
      proof (cases "fst ?r AND B_UART_LSR_RXRDY = 0")
        case True
        let ?s1 = "if PcdSerialUseHardwareFlowControl p
                  then SerialPortWriteRegister p B R_UART_MCR (Mcr OR B_UART_MCR_RTS) (snd ?r)
                  else snd ?r"
        from True 1(2) have "f p hw B Mcr ?s1 = Some s'" by (simp add: split_beta)
        from 1(1) [OF this] A have "within A ?s1 s'" by simp
        moreover have "within A s ?s1"
          using within_read [OF L, of s hw] within_write [OF S, of "snd ?r"]
          by (auto intro: within_trans)
        ultimately show ?thesis by (rule within_trans [rotated])
      next
        case False
        with 1(2) have "s' = snd ?r" by (simp add: split_beta)
        then show ?thesis by (simp add: within_read [OF L])
      qed
    qed
  qed
  with assms(2,3) show ?thesis by simp
qed

lemma FillTxFifo_within:
  assumes "FillTxFifo p hw B Size Index n Buffer s = Some r"
    and "Load8 (reg p B R_UART_MSR) \<subseteq> A" and "Store8 (reg p B R_UART_TXBUF) \<subseteq> A"
  shows "within A s (snd (snd r))"
proof -
  have "Load8 (reg p B R_UART_MSR) \<subseteq> A \<and> Store8 (reg p B R_UART_TXBUF) \<subseteq> A
          \<longrightarrow> within A s (snd (snd r))"
  proof (rule FillTxFifo.raw_induct
      [where P = "\<lambda>p hw B Size Index n Buffer s r.
         Load8 (reg p B R_UART_MSR) \<subseteq> A \<and> Store8 (reg p B R_UART_TXBUF) \<subseteq> A
           \<longrightarrow> within A s (snd (snd r))", OF _ assms(1)], goal_cases)
    case (1 f p hw B Size Index n Buffer s r)
    show ?case
    proof (rule impI)
      assume A: "Load8 (reg p B R_UART_MSR) \<subseteq> A \<and> Store8 (reg p B R_UART_TXBUF) \<subseteq> A"
      then have L: "Load8 (reg p B R_UART_MSR) \<subseteq> A" and S: "Store8 (reg p B R_UART_TXBUF) \<subseteq> A"
        by simp_all
      show "within A s (snd (snd r))"
      proof (cases "Index < Size \<and> n \<noteq> 0")
        case True
        with 1(2) obtain s1 where w: "WaitWritable p hw B s = Some s1"
          and f: "f p hw B Size (Index + 1) (n - 1) (\<lambda>i. Buffer (i + 1))
                    (SerialPortWriteRegister p B R_UART_TXBUF (Buffer 0) s1) = Some r"
          by (auto split: option.splits)
        have "within A s s1" using w L by (rule WaitWritable_within)
        then have "within A s (SerialPortWriteRegister p B R_UART_TXBUF (Buffer 0) s1)"
          by (rule within_trans) (rule within_write [OF S])
        moreover from 1(1) [OF f] A
        have "within A (SerialPortWriteRegister p B R_UART_TXBUF (Buffer 0) s1) (snd (snd r))"
          by simp
        ultimately show ?thesis by (rule within_trans)
      next
        case False
        with 1(2) show ?thesis by auto
      qed
    qed
  qed
  with assms(2,3) show ?thesis by simp
qed

lemma WriteLoop_within:
  assumes "WriteLoop p hw B Size n Buffer s = Some s'"
    and "Load8 (reg p B R_UART_LSR) \<subseteq> A" and "Load8 (reg p B R_UART_MSR) \<subseteq> A"
    and "Store8 (reg p B R_UART_TXBUF) \<subseteq> A"
  shows "within A s s'"
proof -
  have "Load8 (reg p B R_UART_LSR) \<subseteq> A \<and> Load8 (reg p B R_UART_MSR) \<subseteq> A \<and>
        Store8 (reg p B R_UART_TXBUF) \<subseteq> A \<longrightarrow> within A s s'"
  proof (rule WriteLoop.raw_induct
      [where P = "\<lambda>p hw B Size n Buffer s s'.
         Load8 (reg p B R_UART_LSR) \<subseteq> A \<and> Load8 (reg p B R_UART_MSR) \<subseteq> A \<and>
         Store8 (reg p B R_UART_TXBUF) \<subseteq> A \<longrightarrow> within A s s'", OF _ assms(1)], goal_cases)
    case (1 f p hw B Size n Buffer s s')
    show ?case
    proof (rule impI)
      assume A: "Load8 (reg p B R_UART_LSR) \<subseteq> A \<and> Load8 (reg p B R_UART_MSR) \<subseteq> A \<and>
        Store8 (reg p B R_UART_TXBUF) \<subseteq> A"
      then have L: "Load8 (reg p B R_UART_LSR) \<subseteq> A" and M: "Load8 (reg p B R_UART_MSR) \<subseteq> A"
        and S: "Store8 (reg p B R_UART_TXBUF) \<subseteq> A" by simp_all
      show "within A s s'"
      proof (cases "n \<noteq> 0")
        case True
        with 1(2) obtain s1 n' Buffer' s2 where w: "WaitTransmitEmpty p hw B s = Some s1"
          and g: "FillTxFifo p hw B Size 0 n Buffer s1 = Some (n', Buffer', s2)"
          and f: "f p hw B Size n' Buffer' s2 = Some s'"
          by (auto split: option.splits)
        have "within A s s1" using w L by (rule WaitTransmitEmpty_within)
        moreover have "within A s1 s2" using FillTxFifo_within [OF g M S] by simp
        moreover have "within A s2 s'" using 1(1) [OF f] A by simp
        ultimately show ?thesis by (blast intro: within_trans)
      next
        case False
        with 1(2) show ?thesis by auto
      qed
    qed
  qed
  with assms(2,3,4) show ?thesis by simp
qed

lemma ReadLoop_within:
  assumes "ReadLoop p hw B Mcr n Result Buffer s = Some r"
    and "Load8 (reg p B R_UART_LSR) \<subseteq> A" and "Load8 (reg p B R_UART_RXBUF) \<subseteq> A"
    and "Store8 (reg p B R_UART_MCR) \<subseteq> A"
  shows "within A s (snd (snd r))"
proof -
  have "Load8 (reg p B R_UART_LSR) \<subseteq> A \<and> Load8 (reg p B R_UART_RXBUF) \<subseteq> A \<and>
        Store8 (reg p B R_UART_MCR) \<subseteq> A \<longrightarrow> within A s (snd (snd r))"
  proof (rule ReadLoop.raw_induct
      [where P = "\<lambda>p hw B Mcr n Result Buffer s r.
         Load8 (reg p B R_UART_LSR) \<subseteq> A \<and> Load8 (reg p B R_UART_RXBUF) \<subseteq> A \<and>
         Store8 (reg p B R_UART_MCR) \<subseteq> A \<longrightarrow> within A s (snd (snd r))", OF _ assms(1)], goal_cases)
    case (1 f p hw B Mcr n Result Buffer s r)
    show ?case
    proof (rule impI)
      assume A: "Load8 (reg p B R_UART_LSR) \<subseteq> A \<and> Load8 (reg p B R_UART_RXBUF) \<subseteq> A \<and>
        Store8 (reg p B R_UART_MCR) \<subseteq> A"
      then have L: "Load8 (reg p B R_UART_LSR) \<subseteq> A" and R: "Load8 (reg p B R_UART_RXBUF) \<subseteq> A"
        and S: "Store8 (reg p B R_UART_MCR) \<subseteq> A" by simp_all
      show "within A s (snd (snd r))"
      proof (cases "n \<noteq> 0")
        case True
        with 1(2) obtain s1 where w: "WaitReceiveReady p hw B Mcr s = Some s1"
          by (auto split: option.splits)
        let ?s2 = "if PcdSerialUseHardwareFlowControl p
                   then SerialPortWriteRegister p B R_UART_MCR Mcr s1 else s1"
        let ?r = "SerialPortReadRegister p hw B R_UART_RXBUF ?s2"
        from True 1(2) w
        have f: "f p hw B Mcr (n - 1) (Result + 1) (Buffer(Result := fst ?r)) (snd ?r) = Some r"
          by (simp add: split_beta Let_def)
        have "within A s s1" using w L S by (rule WaitReceiveReady_within)
        moreover have "within A s1 ?s2" by (simp add: within_write [OF S])
        moreover have "within A ?s2 (snd ?r)" by (rule within_read [OF R])
        moreover have "within A (snd ?r) (snd (snd r))" using 1(1) [OF f] A by simp
        ultimately show ?thesis by (blast intro: within_trans)
      next
        case False
        with 1(2) show ?thesis by auto
      qed
    qed
  qed
  with assms(2,3,4) show ?thesis by simp
qed




subsection \<open>The accesses of a busy-wait, one by one\<close>

lemma Polls_0 [simp]: "Polls hw a t 0 = []" by (simp add: Polls_def)

lemma Polls_Suc: "Polls hw a t (Suc m) = Rd8 a (rd8 hw t a) # Polls hw a (Suc t) m"
  by (simp add: Polls_def map_upt_Suc del: upt_Suc)

lemma FirstAt_0: "P t \<Longrightarrow> FirstAt P t 0" by (simp add: FirstAt_def)

lemma FirstAt_Suc: "\<not> P t \<Longrightarrow> FirstAt P (Suc t) j \<Longrightarrow> FirstAt P t (Suc j)"
  by (auto simp: FirstAt_def less_Suc_eq_0_disj)

lemma snd_read:
  "snd (SerialPortReadRegister p hw (MINI_UART_REGISTER_BASE p) r s) =
     s\<lparr>trace := trace s @ [Rd8 (mini p r) (rd8 hw (length (trace s)) (mini p r))]\<rparr>"
  by (simp add: SerialPortReadRegister_def MmioRead8_def Let_def mini_def rd8_def)

lemma WaitTransmitEmpty_polls:
  "TransmitterEmptyAt p hw (length (trace s) + k) \<Longrightarrow>
   \<exists>j. FirstAt (TransmitterEmptyAt p hw) (length (trace s)) j \<and>
       WaitTransmitEmpty p hw (MINI_UART_REGISTER_BASE p) s =
         Some (s\<lparr>trace := trace s @ Polls hw (mini p R_UART_LSR) (length (trace s)) (Suc j)\<rparr>)"
proof (induction k arbitrary: s)
  case 0
  then have "FirstAt (TransmitterEmptyAt p hw) (length (trace s)) 0" by (simp add: FirstAt_0)
  moreover from 0 have "WaitTransmitEmpty p hw (MINI_UART_REGISTER_BASE p) s =
         Some (s\<lparr>trace := trace s @ Polls hw (mini p R_UART_LSR) (length (trace s)) (Suc 0)\<rparr>)"
    by (subst WaitTransmitEmpty.simps)
       (simp add: TransmitterEmptyAt_def rd8_def mini_def split_beta Polls_Suc
          SerialPortReadRegister_def MmioRead8_def Let_def)
  ultimately show ?case by blast
next
  case (Suc k)
  let ?r = "SerialPortReadRegister p hw (MINI_UART_REGISTER_BASE p) R_UART_LSR s"
  show ?case
  proof (cases "TransmitterEmptyAt p hw (length (trace s))")
    case True
    then have "FirstAt (TransmitterEmptyAt p hw) (length (trace s)) 0" by (simp add: FirstAt_0)
    moreover from True have "WaitTransmitEmpty p hw (MINI_UART_REGISTER_BASE p) s =
         Some (s\<lparr>trace := trace s @ Polls hw (mini p R_UART_LSR) (length (trace s)) (Suc 0)\<rparr>)"
      by (subst WaitTransmitEmpty.simps)
         (simp add: TransmitterEmptyAt_def rd8_def mini_def split_beta Polls_Suc
            SerialPortReadRegister_def MmioRead8_def Let_def)
    ultimately show ?thesis by blast
  next
    case False
    from Suc.prems have "TransmitterEmptyAt p hw (length (trace (snd ?r)) + k)" by simp
    from Suc.IH [OF this] obtain j where
      j: "FirstAt (TransmitterEmptyAt p hw) (length (trace (snd ?r))) j"
      and w: "WaitTransmitEmpty p hw (MINI_UART_REGISTER_BASE p) (snd ?r) =
         Some ((snd ?r)\<lparr>trace := trace (snd ?r) @
            Polls hw (mini p R_UART_LSR) (length (trace (snd ?r))) (Suc j)\<rparr>)"
      by blast
    from False j have "FirstAt (TransmitterEmptyAt p hw) (length (trace s)) (Suc j)"
      by (simp add: FirstAt_Suc)
    moreover have "WaitTransmitEmpty p hw (MINI_UART_REGISTER_BASE p) s =
         Some (s\<lparr>trace := trace s @ Polls hw (mini p R_UART_LSR) (length (trace s)) (Suc (Suc j))\<rparr>)"
    proof -
      have n: "fst ?r AND (B_UART_LSR_TEMT OR B_UART_LSR_TXRDY) \<noteq> B_UART_LSR_TEMT OR B_UART_LSR_TXRDY"
        using False by (simp add: TransmitterEmptyAt_def rd8_def mini_def)
      have "WaitTransmitEmpty p hw (MINI_UART_REGISTER_BASE p) s =
          WaitTransmitEmpty p hw (MINI_UART_REGISTER_BASE p) (snd ?r)"
        using n by (subst WaitTransmitEmpty.simps) (simp add: split_beta)
      also note w
      finally show ?thesis by (simp add: snd_read Polls_Suc [of hw _ "length (trace s)"])
    qed
    ultimately show ?thesis by blast
  qed
qed

lemma Writable_no_flow:
  "\<not> PcdSerialUseHardwareFlowControl p \<Longrightarrow> SerialPortWritable p hw B s = (True, s)"
  by (simp add: SerialPortWritable_def)

lemma snd_writable_flow:
  "PcdSerialUseHardwareFlowControl p \<Longrightarrow>
   snd (SerialPortWritable p hw (MINI_UART_REGISTER_BASE p) s) =
     s\<lparr>trace := trace s @ [Rd8 (mini p R_UART_MSR) (rd8 hw (length (trace s)) (mini p R_UART_MSR))]\<rparr>"
  by (simp add: SerialPortWritable_def split_beta snd_read)

lemma WaitWritable_no_flow:
  "\<not> PcdSerialUseHardwareFlowControl p \<Longrightarrow> WaitWritable p hw B s = Some s"
  by (subst WaitWritable.simps) (simp add: Writable_no_flow)

lemma WaitWritable_polls:
  "PcdSerialUseHardwareFlowControl p \<Longrightarrow> WritableAt p hw (length (trace s) + k) \<Longrightarrow>
   \<exists>j. FirstAt (WritableAt p hw) (length (trace s)) j \<and>
       WaitWritable p hw (MINI_UART_REGISTER_BASE p) s =
         Some (s\<lparr>trace := trace s @ Polls hw (mini p R_UART_MSR) (length (trace s)) (Suc j)\<rparr>)"
proof (induction k arbitrary: s)
  case 0
  then have "FirstAt (WritableAt p hw) (length (trace s)) 0" by (simp add: FirstAt_0)
  moreover from 0 have "WaitWritable p hw (MINI_UART_REGISTER_BASE p) s =
         Some (s\<lparr>trace := trace s @ Polls hw (mini p R_UART_MSR) (length (trace s)) (Suc 0)\<rparr>)"
    by (subst WaitWritable.simps) (simp add: fst_writable split_beta snd_writable_flow Polls_Suc)
  ultimately show ?case by blast
next
  case (Suc k)
  let ?r = "SerialPortWritable p hw (MINI_UART_REGISTER_BASE p) s"
  show ?case
  proof (cases "WritableAt p hw (length (trace s))")
    case True
    then have "FirstAt (WritableAt p hw) (length (trace s)) 0" by (simp add: FirstAt_0)
    moreover from True Suc.prems(1) have "WaitWritable p hw (MINI_UART_REGISTER_BASE p) s =
         Some (s\<lparr>trace := trace s @ Polls hw (mini p R_UART_MSR) (length (trace s)) (Suc 0)\<rparr>)"
      by (subst WaitWritable.simps) (simp add: fst_writable split_beta snd_writable_flow Polls_Suc)
    ultimately show ?thesis by blast
  next
    case False
    from Suc.prems have "WritableAt p hw (length (trace (snd ?r)) + k)"
      by (simp add: length_writable)
    from Suc.IH [OF Suc.prems(1) this] obtain j where
      j: "FirstAt (WritableAt p hw) (length (trace (snd ?r))) j"
      and w: "WaitWritable p hw (MINI_UART_REGISTER_BASE p) (snd ?r) =
         Some ((snd ?r)\<lparr>trace := trace (snd ?r) @
            Polls hw (mini p R_UART_MSR) (length (trace (snd ?r))) (Suc j)\<rparr>)"
      by blast
    from False j Suc.prems(1) have "FirstAt (WritableAt p hw) (length (trace s)) (Suc j)"
      by (simp add: FirstAt_Suc length_writable)
    moreover have "WaitWritable p hw (MINI_UART_REGISTER_BASE p) s =
         Some (s\<lparr>trace := trace s @ Polls hw (mini p R_UART_MSR) (length (trace s)) (Suc (Suc j))\<rparr>)"
    proof -
      have "WaitWritable p hw (MINI_UART_REGISTER_BASE p) s =
          WaitWritable p hw (MINI_UART_REGISTER_BASE p) (snd ?r)"
        using False by (subst WaitWritable.simps) (simp add: split_beta fst_writable)
      also note w
      finally show ?thesis
        by (simp add: snd_writable_flow [OF Suc.prems(1)] Polls_Suc [of hw _ "length (trace s)"])
    qed
    ultimately show ?thesis by blast
  qed
qed

subsection \<open>The receive loops end on hardware with bytes waiting\<close>

lemma WaitReceiveReady_ready:
  "ReceiveReadyAt p hw (length (trace s)) \<Longrightarrow>
   WaitReceiveReady p hw (MINI_UART_REGISTER_BASE p) Mcr s =
     Some (snd (SerialPortReadRegister p hw (MINI_UART_REGISTER_BASE p) R_UART_LSR s))"
  by (subst WaitReceiveReady.simps) (simp add: ReceiveReadyAt_def rd8_def mini_def split_beta)

lemma ReadLoop_returns:
  assumes "\<forall>t. ReceiveReadyAt p hw t"
  shows "\<exists>Bytes s'. ReadLoop p hw (MINI_UART_REGISTER_BASE p) Mcr n Result Buffer s
           = Some (Result + n, Bytes, s')"
proof (induction n arbitrary: Result Buffer s)
  case 0
  show ?case by (subst ReadLoop.simps) simp
next
  case (Suc n)
  let ?s1 = "snd (SerialPortReadRegister p hw (MINI_UART_REGISTER_BASE p) R_UART_LSR s)"
  let ?s2 = "if PcdSerialUseHardwareFlowControl p
             then SerialPortWriteRegister p (MINI_UART_REGISTER_BASE p) R_UART_MCR Mcr ?s1 else ?s1"
  let ?r = "SerialPortReadRegister p hw (MINI_UART_REGISTER_BASE p) R_UART_RXBUF ?s2"
  from assms have w: "WaitReceiveReady p hw (MINI_UART_REGISTER_BASE p) Mcr s = Some ?s1"
    by (simp add: WaitReceiveReady_ready)
  from Suc [of "Result + 1" "Buffer(Result := fst ?r)" "snd ?r"] obtain Bytes s' where
    "ReadLoop p hw (MINI_UART_REGISTER_BASE p) Mcr n (Result + 1) (Buffer(Result := fst ?r)) (snd ?r)
       = Some (Result + 1 + n, Bytes, s')" by blast
  then have "ReadLoop p hw (MINI_UART_REGISTER_BASE p) Mcr (Suc n) Result Buffer s
       = Some (Result + Suc n, Bytes, s')"
    by (subst ReadLoop.simps) (simp add: w split_beta Let_def)
  then show ?case by blast
qed

section \<open>The claims\<close>

lemma and_20_neq_0: "(x AND 0x20 \<noteq> 0) \<longleftrightarrow> bit x 5" for x :: UINT8
  by (auto simp: byte_eq_iff bit_and_iff)

lemma and_10_neq_0: "(x AND 0x10 \<noteq> 0) \<longleftrightarrow> bit x 4" for x :: UINT8
  by (auto simp: byte_eq_iff bit_and_iff)

text \<open>
  C6. \<^verbatim>\<open>SerialPortWritable\<close> returns \<^verbatim>\<open>TRUE\<close> exactly when hardware flow control is
  configured off, or cable detection is on and the modem status register shows both DSR
  and CTS, or cable detection is off and the register does not show DSR without CTS.
\<close>

theorem SerialPortWritable_iff:
  "fst (SerialPortWritable p hw Base s) \<longleftrightarrow>
     (let Msr = rd8 hw (length (trace s)) (reg p Base R_UART_MSR);
          DSR = (Msr AND B_UART_MSR_DSR \<noteq> 0);
          CTS = (Msr AND B_UART_MSR_CTS \<noteq> 0)
      in \<not> PcdSerialUseHardwareFlowControl p \<or>
         (PcdSerialDetectCable p \<and> DSR \<and> CTS) \<or>
         (\<not> PcdSerialDetectCable p \<and> \<not> (DSR \<and> \<not> CTS)))"
  by (simp add: SerialPortWritable_def SerialPortReadRegister_def MmioRead8_def Let_def rd8_def
      B_UART_MSR_DSR_def B_UART_MSR_CTS_def and_30_eq_30 and_30_eq_20 and_20_neq_0 and_10_neq_0)

theorem SerialPortWritable_iff_witness:
  "fst (SerialPortWritable rpi3_flow idle_mini_uart (MINI_UART_REGISTER_BASE rpi3_flow) on_mini_uart) \<and>
   rd8 idle_mini_uart 0 (reg rpi3_flow (MINI_UART_REGISTER_BASE rpi3_flow) R_UART_MSR) = 0x30 \<and>
   PcdSerialUseHardwareFlowControl rpi3_flow \<and> PcdSerialDetectCable rpi3_flow"
proof -
  have msr: "rd8 idle_mini_uart 0 (reg rpi3_flow (MINI_UART_REGISTER_BASE rpi3_flow) R_UART_MSR) = 0x30"
    by (simp add: rd8_def idle_mini_uart_def reg_def MINI_UART_REGISTER_BASE_def rpi3_flow_def
        rpi3_def R_UART_MSR_def)
  have cfg: "PcdSerialUseHardwareFlowControl rpi3_flow" "PcdSerialDetectCable rpi3_flow"
    by (simp_all add: rpi3_flow_def)
  have t: "length (trace on_mini_uart) = 0" by (simp add: on_mini_uart_def)
  show ?thesis
    using SerialPortWritable_iff [of rpi3_flow idle_mini_uart "MINI_UART_REGISTER_BASE rpi3_flow" on_mini_uart]
    by (simp add: t msr cfg Let_def B_UART_MSR_DSR_def B_UART_MSR_CTS_def)
qed

text \<open>
  C3, as amended. Let \<open>C\<close> be the configured clock rate times 4, scaled to
  \<open>(C << 12) / D\<close> when the clock divider register, masked to 24 bits, reads a nonzero
  \<open>D\<close>. For a baud rate \<open>B\<close> with \<open>0 < B < 2^28\<close>, and when \<open>C < 2^32\<close>,
  \<^verbatim>\<open>SerialPortGetDivisor\<close> returns \<open>C / (16 B)\<close> rounded to nearest, ties up. (The
  code divides the low 32 bits of \<open>C\<close> by the 32-bit product \<open>16 B\<close>; outside these
  bounds one of the two is not the number the claim means.)
\<close>

theorem SerialPortGetDivisor_rounds:
  assumes "0 < unat B" and "unat B < 2 ^ 28"
    and "ScaledClock (unat (PcdSerialClockRate p))
           (unat (hw (length (trace s)) (VpuClockDivisor p) AND 0xFFFFFF)) < 2 ^ 32"
  shows "map_option unat (fst (SerialPortGetDivisor p hw B s)) =
     Some (RoundedDivisor
            (ScaledClock (unat (PcdSerialClockRate p))
               (unat (hw (length (trace s)) (VpuClockDivisor p) AND 0xFFFFFF)))
            (unat B))"
proof -
  define v where "v = hw (length (trace s)) (VpuClockDivisor p)"
  define X :: UINT64 where "X = (if v AND 0xFFFFFF \<noteq> 0
         then push_bit 12 ((ucast (PcdSerialClockRate p) :: UINT64) * 4) div ucast (v AND 0xFFFFFF)
         else (ucast (PcdSerialClockRate p) :: UINT64) * 4)"
  define Cn where "Cn = ScaledClock (unat (PcdSerialClockRate p)) (unat (v AND 0xFFFFFF))"
  have X: "unat X = Cn" unfolding X_def Cn_def by (rule unat_scaled)
  have Cn: "Cn < 2 ^ 32" using assms(3) unfolding Cn_def v_def .
  have X32: "unat (ucast X :: UINT32) = Cn" using X Cn by (simp add: unat_ucast)
  have b16: "unat (B * 16) = 16 * unat B" using assms(2) by (simp add: unat_word_ariths)
  have b8: "unat (B * 8) = 8 * unat B" using assms(2) by (simp add: unat_word_ariths)
  have nz: "B * 16 \<noteq> 0" using b16 assms(1) by (metis mult_is_0 not_less_zero unat_eq_0 zero_neq_numeral)
  have q: "unat ((ucast X :: UINT32) div (B * 16)) = Cn div (16 * unat B)"
    by (simp add: unat_div X32 b16)
  have r: "unat ((ucast X :: UINT32) mod (B * 16)) = Cn mod (16 * unat B)"
    by (simp add: unat_mod X32 b16)
  have cmp: "(B * 8 \<le> (ucast X :: UINT32) mod (B * 16)) \<longleftrightarrow> 8 * unat B \<le> Cn mod (16 * unat B)"
    by (simp add: word_le_nat_alt r b8)
  have small: "Cn div (16 * unat B) + 1 < 2 ^ 32"
  proof -
    have "Cn div (16 * unat B) \<le> Cn div 16" using assms(1) by (simp add: div_le_mono2)
    also have "\<dots> < 2 ^ 28" using Cn by simp
    finally show ?thesis by simp
  qed
  have q1: "unat ((ucast X :: UINT32) div (B * 16) + 1) = Cn div (16 * unat B) + 1"
    using small q by (simp add: unat_word_ariths)
  have eq: "fst (SerialPortGetDivisor p hw B s) =
     (if B * 8 \<le> (ucast X :: UINT32) mod (B * 16)
      then Some ((ucast X :: UINT32) div (B * 16) + 1) else Some ((ucast X :: UINT32) div (B * 16)))"
    using nz
    by (simp add: SerialPortGetDivisor_def MmioRead32_def Let_def X_def v_def VpuClockDivisor_def)
  show ?thesis
    unfolding eq v_def [symmetric] Cn_def [symmetric]
    by (simp add: cmp RoundedDivisor_def q q1)
qed

theorem SerialPortGetDivisor_rounds_witness:
  "0 < unat (115200 :: UINT32) \<and> unat (115200 :: UINT32) < 2 ^ 28 \<and>
   ScaledClock (unat (PcdSerialClockRate rpi3))
     (unat (idle_mini_uart (length (trace on_mini_uart)) (VpuClockDivisor rpi3) AND 0xFFFFFF)) < 2 ^ 32 \<and>
   map_option unat (fst (SerialPortGetDivisor rpi3 idle_mini_uart 115200 on_mini_uart)) = Some 217"
proof -
  have v: "idle_mini_uart (length (trace on_mini_uart)) (VpuClockDivisor rpi3) AND 0xFFFFFF = 0x5000"
    by (simp add: idle_mini_uart_def VpuClockDivisor_def rpi3_def)
  have c: "unat (PcdSerialClockRate rpi3) = 500000000" by (simp add: rpi3_def)
  have h1: "0 < unat (115200 :: UINT32)" by simp
  have h2: "unat (115200 :: UINT32) < 2 ^ 28" by simp
  have h3: "ScaledClock (unat (PcdSerialClockRate rpi3))
     (unat (idle_mini_uart (length (trace on_mini_uart)) (VpuClockDivisor rpi3) AND 0xFFFFFF)) < 2 ^ 32"
    by (simp add: v c ScaledClock_def)
  have r: "RoundedDivisor (ScaledClock 500000000 (unat (0x5000 :: UINT32))) (unat (115200 :: UINT32)) = 217"
    by (simp add: ScaledClock_def RoundedDivisor_def)
  show ?thesis
    using SerialPortGetDivisor_rounds [where B = 115200 and p = rpi3 and hw = idle_mini_uart
        and s = on_mini_uart, OF h1 h2 h3] h1 h2 h3 r
    by (simp add: v c)
qed

theorem SerialPortGetDivisor_truncates_counterexample:
  "map_option unat (fst (SerialPortGetDivisor rpi3 quarter_divider 115200 on_mini_uart)) = Some 2010 \<and>
   RoundedDivisor
     (ScaledClock (unat (PcdSerialClockRate rpi3))
        (unat (quarter_divider (length (trace on_mini_uart)) (VpuClockDivisor rpi3) AND 0xFFFFFF)))
     (unat (115200 :: UINT32)) = 4340"
proof -
  have v: "quarter_divider (length (trace on_mini_uart)) (VpuClockDivisor rpi3) AND 0xFFFFFF = 0x400"
    by (simp add: quarter_divider_def VpuClockDivisor_def rpi3_def)
  have c: "PcdSerialClockRate rpi3 = 500000000" by (simp add: rpi3_def)
  have a: "BCM2836_CM_BASE rpi3 + BCM2836_CM_VPU_CLOCK_DIVISOR rpi3 = 0x3F101008"
    by (simp add: rpi3_def)
  have "fst (SerialPortGetDivisor rpi3 quarter_divider 115200 on_mini_uart) = Some 2010"
    by (simp add: SerialPortGetDivisor_def MmioRead32_def Let_def a c quarter_divider_def)
  moreover have "RoundedDivisor (ScaledClock 500000000 (unat (0x400 :: UINT32))) (unat (115200 :: UINT32)) = 4340"
    by (simp add: ScaledClock_def RoundedDivisor_def)
  ultimately show ?thesis by (simp add: v c)
qed

lemma DetectUart_writes [simp]: "writes (trace (DetectUart p hw s)) = writes (trace s)"
  by (simp add: DetectUart_def MmioRead32_def Let_def)

lemma DetectUart_unprobed:
  "\<not> UsePl011UartSet s \<Longrightarrow>
   DetectUart p hw s =
     s\<lparr>UsePl011Uart := Pl011Selected p hw (length (trace s)), UsePl011UartSet := True,
       trace := trace s @
         [Rd32 (GpioFunctionSelect p) (hw (length (trace s)) (GpioFunctionSelect p))]\<rparr>"
  by (simp add: DetectUart_def MmioRead32_def Let_def Pl011Selected_def GpioFunctionSelect_def)

lemma DetectUart_probed [simp]: "UsePl011UartSet s \<Longrightarrow> DetectUart p hw s = s"
  by (simp add: DetectUart_def)

lemma idle_is_mini: "\<not> UsePl011Uart (DetectUart rpi3 idle_mini_uart unprobed)"
  by (simp add: DetectUart_def MmioRead32_def Let_def unprobed_def idle_mini_uart_def rpi3_def)

text \<open>
  C9. On the mini UART path, \<^verbatim>\<open>SerialPortWrite\<close> with a \<^verbatim>\<open>NULL\<close> buffer returns 0 for
  every byte count and stores to no register: it ends in the state the variant detection
  left. \<^verbatim>\<open>SerialPortRead\<close> with a \<^verbatim>\<open>NULL\<close> buffer returns 0 in the state it was
  called in, so without any access. Both results are plain return values.
\<close>

theorem null_buffer_returns_zero:
  "(\<not> UsePl011Uart (DetectUart p hw s) \<longrightarrow>
      SerialPortWrite p hw None n s = Some (Returned 0, DetectUart p hw s) \<and>
      writes (trace (DetectUart p hw s)) = writes (trace s)) \<and>
   (\<not> UsePl011Uart s \<longrightarrow>
      SerialPortRead p hw None n s = Some (Returned (0, None), s))"
  by (simp add: SerialPortWrite_def SerialPortRead_def Let_def)

theorem null_buffer_returns_zero_witness:
  "\<not> UsePl011Uart (DetectUart rpi3 idle_mini_uart unprobed) \<and>
   SerialPortWrite rpi3 idle_mini_uart None 7 unprobed =
     Some (Returned 0, DetectUart rpi3 idle_mini_uart unprobed) \<and>
   writes (trace (DetectUart rpi3 idle_mini_uart unprobed)) = writes (trace unprobed) \<and>
   \<not> UsePl011Uart on_mini_uart \<and>
   SerialPortRead rpi3 idle_mini_uart None 7 on_mini_uart = Some (Returned (0, None), on_mini_uart)"
proof -
  have m: "\<not> UsePl011Uart on_mini_uart" by (simp add: on_mini_uart_def)
  show ?thesis
    using null_buffer_returns_zero [where p = rpi3 and hw = idle_mini_uart and s = unprobed and n = 7]
      null_buffer_returns_zero [where p = rpi3 and hw = idle_mini_uart and s = on_mini_uart and n = 7]
      idle_is_mini m
    by simp
qed

text \<open>
  C4. On the mini UART path, \<^verbatim>\<open>SerialPortSetAttributes\<close> returns
  \<^verbatim>\<open>RETURN_INVALID_PARAMETER\<close> exactly for data bits that are neither the sentinel nor
  within 5..8, or a parity or stop bits value outside the enumeration, and
  \<^verbatim>\<open>SerialPortSetControl\<close> returns \<^verbatim>\<open>RETURN_UNSUPPORTED\<close> exactly for a mask with a
  bit outside request-to-send, data-terminal-ready and hardware-flow-control-enable. In
  both cases the state after the call is the state before it: no register was accessed.
\<close>

theorem failed_validation_leaves_device:
  assumes "\<not> UsePl011Uart s"
  shows "((\<exists>a'. fst (SerialPortSetAttributes p hw a s) = Returned (RETURN_INVALID_PARAMETER, a'))
            \<longleftrightarrow> InvalidAttributes a) \<and>
         (InvalidAttributes a \<longrightarrow> snd (SerialPortSetAttributes p hw a s) = s) \<and>
         (fst (SerialPortSetControl p b hw Control s) = Returned RETURN_UNSUPPORTED
            \<longleftrightarrow> Control AND NOT (EFI_SERIAL_REQUEST_TO_SEND b OR EFI_SERIAL_DATA_TERMINAL_READY b OR
                                   EFI_SERIAL_HARDWARE_FLOW_CONTROL_ENABLE b) \<noteq> 0) \<and>
         (Control AND NOT (EFI_SERIAL_REQUEST_TO_SEND b OR EFI_SERIAL_DATA_TERMINAL_READY b OR
                           EFI_SERIAL_HARDWARE_FLOW_CONTROL_ENABLE b) \<noteq> 0
            \<longrightarrow> snd (SerialPortSetControl p b hw Control s) = s)"
  using SetAttributes_invalid [OF assms, where p = p and hw = hw and a = a]
    SetControl_unsupported [OF assms, where p = p and b = b and hw = hw and Control = Control]
  by blast

theorem failed_validation_leaves_device_witness:
  "\<not> UsePl011Uart on_mini_uart \<and>
   InvalidAttributes (explicit_8n1\<lparr>DataBits := 9\<rparr>) \<and>
   snd (SerialPortSetAttributes rpi3 idle_mini_uart (explicit_8n1\<lparr>DataBits := 9\<rparr>) on_mini_uart)
     = on_mini_uart \<and>
   (\<exists>a'. fst (SerialPortSetAttributes rpi3 idle_mini_uart (explicit_8n1\<lparr>DataBits := 9\<rparr>) on_mini_uart)
     = Returned (RETURN_INVALID_PARAMETER, a')) \<and>
   fst (SerialPortSetControl rpi3 uefi_bits idle_mini_uart 0x80000000 on_mini_uart)
     = Returned RETURN_UNSUPPORTED \<and>
   snd (SerialPortSetControl rpi3 uefi_bits idle_mini_uart 0x80000000 on_mini_uart) = on_mini_uart"
proof -
  have m: "\<not> UsePl011Uart on_mini_uart" by (simp add: on_mini_uart_def)
  have i: "InvalidAttributes (explicit_8n1\<lparr>DataBits := 9\<rparr>)"
    by (simp add: InvalidAttributes_def explicit_8n1_def)
  have c: "(0x80000000 :: UINT32) AND NOT (EFI_SERIAL_REQUEST_TO_SEND uefi_bits OR
       EFI_SERIAL_DATA_TERMINAL_READY uefi_bits OR EFI_SERIAL_HARDWARE_FLOW_CONTROL_ENABLE uefi_bits) \<noteq> 0"
    by (simp add: uefi_bits_def)
  show ?thesis
    using failed_validation_leaves_device [OF m, where p = rpi3 and hw = idle_mini_uart
        and a = "explicit_8n1\<lparr>DataBits := 9\<rparr>" and b = uefi_bits and Control = "0x80000000"] m i c
    by blast
qed

lemma idle_transmitter_empty: "recurs (TransmitterEmptyAt rpi3 idle_mini_uart)"
  by (simp add: recurs_def TransmitterEmptyAt_def rd8_def mini_def reg_def
      MINI_UART_REGISTER_BASE_def rpi3_def idle_mini_uart_def R_UART_LSR_def
      B_UART_LSR_TEMT_def B_UART_LSR_TXRDY_def)

lemma idle_writable: "recurs (WritableAt rpi3 idle_mini_uart)"
  by (simp add: recurs_def WritableAt_def rpi3_def)

lemma FifoSize_rpi3: "FifoSize rpi3 = 8"
  by (simp add: FifoSize_def rpi3_def B_UART_FCR_FIFOE_def B_UART_FCR_FIFO64_def)

lemma Write_mini_sends:
  assumes mini: "\<not> UsePl011Uart (DetectUart p hw s)"
    and tx: "recurs (TransmitterEmptyAt p hw)" and wr: "recurs (WritableAt p hw)"
    and size: "n = 0 \<or> 0 < FifoSize p"
  shows "\<exists>s'. SerialPortWrite p hw (Some Buffer) n s = Some (Returned n, s') \<and>
           writes (trace s') = writes (trace s) @ TxBytes p Buffer n"
proof (cases "n = 0")
  case True
  let ?s0 = "DetectUart p hw s"
  from tx obtain k where "TransmitterEmptyAt p hw (length (trace ?s0) + k)"
    by (auto simp: recurs_def)
  from WaitTransmitEmpty_returns [OF this] obtain s1 where
    1: "WaitTransmitEmpty p hw (MINI_UART_REGISTER_BASE p) ?s0 = Some s1" "quiet ?s0 s1"
    by blast
  from wr obtain j where "WritableAt p hw (length (trace s1) + j)"
    by (auto simp: recurs_def)
  from WaitWritable_returns [OF this] obtain s2 where
    2: "WaitWritable p hw (MINI_UART_REGISTER_BASE p) s1 = Some s2" "quiet s1 s2"
    by blast
  have "SerialPortWrite p hw (Some Buffer) n s = Some (Returned n, s2)"
    using mini True 1 2 by (simp add: SerialPortWrite_def Let_def)
  moreover have "writes (trace s2) = writes (trace s) @ TxBytes p Buffer n"
    using True 1 2 by (simp add: quiet_def)
  ultimately show ?thesis by blast
next
  case False
  with size have "0 < FifoSize p" by simp
  from WriteLoop_returns [OF tx wr this, of n Buffer "DetectUart p hw s"] obtain s' where
    "WriteLoop p hw (MINI_UART_REGISTER_BASE p) (FifoSize p) n Buffer (DetectUart p hw s) = Some s'"
    "writes (trace s') = writes (trace (DetectUart p hw s)) @ TxBytes p Buffer n"
    by blast
  with mini False show ?thesis by (simp add: SerialPortWrite_def Let_def)
qed

lemma writes_map_Wr8 [simp]: "writes (map (\<lambda>(a, v). Wr8 a v) ws) = ws"
  by (induction ws) auto

lemma writes_PreChecked:
  "writes (trace (PreChecked p hw s)) =
     writes (trace s) @
       [(mini p R_UART_LCR, rd8 hw (length (trace s) + 2) (mini p R_UART_LCR) OR B_UART_LCR_DLAB),
        (mini p R_UART_LCR, rd8 hw (length (trace s) + 6) (mini p R_UART_LCR) AND NOT B_UART_LCR_DLAB)]"
  by (simp add: PreChecked_def PreCheckTrace_def)

lemma Initialize_pl011:
  "UsePl011Uart (DetectUart p hw s) \<Longrightarrow>
   \<exists>c. SerialPortInitialize p hw s = Some (Forwarded c, DetectUart p hw s)"
  by (simp add: SerialPortInitialize_def Let_def)

lemma Initialize_div0:
  assumes "\<not> UsePl011Uart (DetectUart p hw s)"
    and "fst (SerialPortGetDivisor p hw (PcdSerialBaudRate p) (DetectUart p hw s)) = None"
  shows "SerialPortInitialize p hw s = Some (DivisionByZero, AfterClockRead p hw (DetectUart p hw s))"
proof -
  have "SerialPortGetDivisor p hw (PcdSerialBaudRate p) (DetectUart p hw s) =
      (None, AfterClockRead p hw (DetectUart p hw s))"
    using assms(2) GetDivisor_pair [of p hw "PcdSerialBaudRate p" "DetectUart p hw s"] by simp
  with assms(1) show ?thesis by (simp add: SerialPortInitialize_def Let_def)
qed

lemma Initialize_returns:
  assumes tx: "recurs (TransmitterEmptyAt p hw)"
  shows "\<exists>r. SerialPortInitialize p hw s = Some r"
proof (cases "UsePl011Uart (DetectUart p hw s)")
  case True
  from Initialize_pl011 [OF this] show ?thesis by blast
next
  case False
  show ?thesis
  proof (cases "fst (SerialPortGetDivisor p hw (PcdSerialBaudRate p) (DetectUart p hw s))")
    case None
    from Initialize_div0 [OF False this] show ?thesis by blast
  next
    case (Some Divisor)
    let ?s1 = "PreChecked p hw (DetectUart p hw s)"
    from tx obtain k where "TransmitterEmptyAt p hw (length (trace ?s1) + k)"
      by (auto simp: recurs_def)
    from WaitTransmitEmpty_returns [OF this] obtain s2 where
      "WaitTransmitEmpty p hw (MINI_UART_REGISTER_BASE p) ?s1 = Some s2" by blast
    then show ?thesis by (simp add: Initialize_mini [OF False Some])
  qed
qed

lemma two_bytes_of_divisor:
  "push_bit 8 (ucast (ucast (drop_bit 8 d) :: UINT8) :: UINT32) OR ucast (ucast (d AND 0xff) :: UINT8)
     = take_bit 16 d" for d :: UINT32
proof -
  have m: "(0xff :: UINT32) = mask 8" by (simp add: mask_eq_exp_minus_1)
  show ?thesis
    unfolding m
    by (rule bit_word_eqI)
       (auto simp: bit_or_iff bit_push_bit_iff bit_ucast_iff bit_drop_bit_eq bit_and_iff
          bit_mask_iff bit_take_bit_iff)
qed

text \<open>
  After the stores of lines 260-268 a device that reads back what was stored passes the
  check, provided the divisor fits the two bytes of the latch.
\<close>

lemma AlreadyInitialized_after_programming:
  assumes "rd8 hw (t + 1) (mini p R_UART_LCR) = PcdSerialLineControl p AND 0x3F"
    and "rd8 hw (t + 4) (mini p R_UART_BAUD_HIGH) = ucast (drop_bit 8 Divisor)"
    and "rd8 hw (t + 5) (mini p R_UART_BAUD_LOW) = ucast (Divisor AND 0xff)"
    and "Divisor < 2 ^ 16"
  shows "AlreadyInitialized p hw t Divisor"
proof -
  from assms(4) have "take_bit 16 Divisor = Divisor"
    using less_mask_eq [of Divisor 16] by (simp add: take_bit_eq_mask)
  with assms(1-3) show ?thesis
    by (simp add: AlreadyInitialized_def two_bytes_of_divisor)
qed

lemma SetAttributes_returned_success:
  assumes mini: "\<not> UsePl011Uart s"
    and ret: "SerialPortSetAttributes p hw a s = (Returned (RETURN_SUCCESS, a'), s')"
  shows "\<exists>Divisor Lcr. writes (trace s') = writes (trace s) @ SetAttributesWrites p Divisor (Lcr AND 0x3F)"
  using ret unfolding SetAttributes_unfold [OF mini]
  apply (auto simp: AfterClockRead_def split: option.splits)
  apply (intro exI)
  apply (rule refl)
  done

lemma idle_divisor:
  "fst (SerialPortGetDivisor rpi3 idle_mini_uart 115200 s) = Some 217"
  by (simp add: SerialPortGetDivisor_def MmioRead32_def Let_def rpi3_def idle_mini_uart_def)

lemma mini_rpi3:
  "mini rpi3 R_UART_LCR = 0x3F21504C" "mini rpi3 R_UART_BAUD_HIGH = 0x3F215044"
  "mini rpi3 R_UART_BAUD_LOW = 0x3F215040" "mini rpi3 R_UART_LSR = 0x3F215054"
  "mini rpi3 R_UART_FCR = 0x3F215048" "mini rpi3 R_UART_IER = 0x3F215044"
  "mini rpi3 R_UART_MCR = 0x3F215050" "mini rpi3 R_UART_TXBUF = 0x3F215040"
  "mini rpi3 R_UART_MSR = 0x3F215058"
  by (simp_all add: mini_def reg_def MINI_UART_REGISTER_BASE_def rpi3_def R_UART_LCR_def
      R_UART_BAUD_HIGH_def R_UART_BAUD_LOW_def R_UART_LSR_def R_UART_FCR_def R_UART_IER_def
      R_UART_MCR_def R_UART_TXBUF_def R_UART_MSR_def)


lemma SetAttributes_succeeds:
  assumes mini: "\<not> UsePl011Uart s" and ok: "\<not> InvalidAttributes a"
    and d: "fst (SerialPortGetDivisor p hw (ucast (BaudRate (DefaultedBaudRate p a))) s) = Some Divisor"
  shows "\<exists>a' s'. SerialPortSetAttributes p hw a s = (Returned (RETURN_SUCCESS, a'), s')"
  using Resolve_valid [OF ok, of p] d
  by (auto simp: SetAttributes_unfold [OF mini])




lemma explicit_8n1_valid: "\<not> InvalidAttributes explicit_8n1"
  by (simp add: InvalidAttributes_def explicit_8n1_def)

lemma Initialize_precheck_hit:
  assumes "\<not> UsePl011Uart (DetectUart p hw s)"
    and "fst (SerialPortGetDivisor p hw (PcdSerialBaudRate p) (DetectUart p hw s)) = Some Divisor"
    and "AlreadyInitialized p hw (length (trace (DetectUart p hw s))) Divisor"
  shows "SerialPortInitialize p hw s =
           Some (Returned RETURN_SUCCESS, PreChecked p hw (DetectUart p hw s)) \<and>
         writes (trace (PreChecked p hw (DetectUart p hw s))) =
           writes (trace s) @
             [(mini p R_UART_LCR,
               rd8 hw (length (trace (DetectUart p hw s)) + 2) (mini p R_UART_LCR) OR B_UART_LCR_DLAB),
              (mini p R_UART_LCR,
               rd8 hw (length (trace (DetectUart p hw s)) + 6) (mini p R_UART_LCR)
                 AND NOT B_UART_LCR_DLAB)]"
  using assms(3) by (simp add: Initialize_mini [OF assms(1,2)] writes_PreChecked)

lemma DetectUart_set [simp]: "UsePl011UartSet (DetectUart p hw s)"
  by (simp add: DetectUart_def MmioRead32_def Let_def)

lemma extends_AfterClockRead [simp]: "extends s (AfterClockRead p hw s)"
  by (simp add: extends_def AfterClockRead_def)

lemma extends_PreChecked [simp]: "extends s (PreChecked p hw s)"
  by (simp add: extends_def PreChecked_def)

lemma extends_append [simp]: "extends s (s\<lparr>trace := trace s @ es\<rparr>)"
  by (simp add: extends_def)

lemma Initialize_extends:
  assumes "SerialPortInitialize p hw s = Some (r, s')"
  shows "extends (DetectUart p hw s) s'"
proof (cases "UsePl011Uart (DetectUart p hw s)")
  case True
  from Initialize_pl011 [OF this] assms show ?thesis by auto
next
  case False
  show ?thesis
  proof (cases "fst (SerialPortGetDivisor p hw (PcdSerialBaudRate p) (DetectUart p hw s))")
    case None
    from Initialize_div0 [OF False this] assms show ?thesis by auto
  next
    case (Some Divisor)
    let ?s1 = "PreChecked p hw (DetectUart p hw s)"
    show ?thesis
    proof (cases "AlreadyInitialized p hw (length (trace (DetectUart p hw s))) Divisor")
      case True
      with assms show ?thesis by (auto simp: Initialize_mini [OF False Some])
    next
      case no: False
      with assms obtain s2 where w: "WaitTransmitEmpty p hw (MINI_UART_REGISTER_BASE p) ?s1 = Some s2"
        and s': "s' = s2\<lparr>trace := trace s2 @ map (\<lambda>(a, v). Wr8 a v) (ProgramWrites p Divisor)\<rparr>"
        by (auto simp: Initialize_mini [OF False Some] split: option.splits)
      have "extends (DetectUart p hw s) ?s1" by simp
      moreover have "extends ?s1 s2" using WaitTransmitEmpty_extends [OF w] .
      moreover have "extends s2 s'" unfolding s' by simp
      ultimately show ?thesis by (blast intro: extends_trans)
    qed
  qed
qed

lemma taking_stores_is_mini: "\<not> UsePl011Uart (DetectUart rpi3 mini_uart_taking_stores unprobed)"
  by (simp add: DetectUart_def MmioRead32_def Let_def unprobed_def mini_uart_taking_stores_def
      fresh_mini_uart_def idle_mini_uart_def rpi3_def)

lemma taking_stores_divisor:
  "fst (SerialPortGetDivisor rpi3 mini_uart_taking_stores 115200 s) = Some 217"
  by (simp add: SerialPortGetDivisor_def MmioRead32_def Let_def rpi3_def
      mini_uart_taking_stores_def fresh_mini_uart_def idle_mini_uart_def)

lemma length_DetectUart_unprobed: "length (trace (DetectUart p hw unprobed)) = 1"
  by (simp add: DetectUart_def MmioRead32_def Let_def unprobed_def)

lemma length_PreChecked: "length (trace (PreChecked p hw s)) = length (trace s) + 8"
  by (simp add: PreChecked_def PreCheckTrace_def)

lemma first_Initialize_taking_stores:
  "\<exists>s1. SerialPortInitialize rpi3 mini_uart_taking_stores unprobed = Some (Returned RETURN_SUCCESS, s1) \<and>
        length (trace s1) = 18"
proof -
  let ?hw = mini_uart_taking_stores
  let ?s0 = "DetectUart rpi3 ?hw unprobed"
  let ?s1 = "PreChecked rpi3 ?hw ?s0"
  have b: "PcdSerialBaudRate rpi3 = 115200" and lc: "PcdSerialLineControl rpi3 = 0x03"
    by (simp_all add: rpi3_def)
  have d: "fst (SerialPortGetDivisor rpi3 ?hw (PcdSerialBaudRate rpi3) ?s0) = Some 217"
    by (simp add: b taking_stores_divisor)
  have no: "\<not> AlreadyInitialized rpi3 ?hw (length (trace ?s0)) 217"
    by (simp add: AlreadyInitialized_def length_DetectUart_unprobed mini_rpi3 rd8_def lc
        mini_uart_taking_stores_def fresh_mini_uart_def)
  have l: "length (trace ?s1) = 9"
    by (simp add: length_PreChecked length_DetectUart_unprobed)
  have lsr: "reg rpi3 (MINI_UART_REGISTER_BASE rpi3) R_UART_LSR = 0x3F215054"
    using mini_rpi3(4) by (simp add: mini_def)
  have w: "WaitTransmitEmpty rpi3 ?hw (MINI_UART_REGISTER_BASE rpi3) ?s1 =
        Some (snd (SerialPortReadRegister rpi3 ?hw (MINI_UART_REGISTER_BASE rpi3) R_UART_LSR ?s1))"
    by (subst WaitTransmitEmpty.simps)
       (simp add: split_beta l lsr mini_uart_taking_stores_def fresh_mini_uart_def
          idle_mini_uart_def B_UART_LSR_TEMT_def B_UART_LSR_TXRDY_def)
  show ?thesis
    using no by (simp add: Initialize_mini [OF taking_stores_is_mini d] w l ProgramWrites_def)
qed

lemma Initialize_reprograms:
  assumes mini: "\<not> UsePl011Uart (DetectUart p hw s)"
    and d: "fst (SerialPortGetDivisor p hw (PcdSerialBaudRate p) (DetectUart p hw s)) = Some Divisor"
    and no: "\<not> AlreadyInitialized p hw (length (trace (DetectUart p hw s))) Divisor"
    and ready: "TransmitterEmptyAt p hw (length (trace (DetectUart p hw s)) + 8)"
  shows "\<exists>s'. SerialPortInitialize p hw s = Some (Returned RETURN_SUCCESS, s') \<and>
     UsePl011UartSet s' \<and> \<not> UsePl011Uart s' \<and>
     length (trace s') = length (trace (DetectUart p hw s)) + 17 \<and>
     writes (trace s') = writes (trace (PreChecked p hw (DetectUart p hw s))) @ ProgramWrites p Divisor"
proof -
  let ?s1 = "PreChecked p hw (DetectUart p hw s)"
  let ?s2 = "snd (SerialPortReadRegister p hw (MINI_UART_REGISTER_BASE p) R_UART_LSR ?s1)"
  have w: "WaitTransmitEmpty p hw (MINI_UART_REGISTER_BASE p) ?s1 = Some ?s2"
    using ready
    by (subst WaitTransmitEmpty.simps)
       (simp add: split_beta length_PreChecked TransmitterEmptyAt_def rd8_def mini_def)
  have f: "UsePl011UartSet ?s2" "\<not> UsePl011Uart ?s2"
    using mini
    by (simp_all add: SerialPortReadRegister_def MmioRead8_def Let_def PreChecked_def)
  have q: "writes (trace ?s2) = writes (trace ?s1)"
    using quiet_read [of ?s1 p hw "MINI_UART_REGISTER_BASE p" R_UART_LSR] by (simp add: quiet_def)
  show ?thesis
    using no f q
    by (simp add: Initialize_mini [OF mini d] w length_PreChecked ProgramWrites_def)
qed

text \<open>
  C7, as amended. On the mini UART path, when the first load of the line control register
  agrees with the configured byte on bits 0-5, and the divisor read under the latch, high
  byte then low byte, equals the computed target, \<^verbatim>\<open>SerialPortInitialize\<close> returns
  \<^verbatim>\<open>RETURN_SUCCESS\<close> right after its check: its accesses are the variant detection
  and the eight of the check, with no load of the line status register, and its only
  stores are the two that raise and lower the divisor latch. Hence a second call in a
  row does no programming either, when the device then reads back the line control byte
  and the two divisor bytes that lines 261-268 store, the target divisor is the same,
  and it is below \<open>2^16\<close>: the latch holds two bytes of it.
\<close>

theorem Initialize_skips_programmed_port:
  "(\<not> UsePl011Uart (DetectUart p hw s) \<and>
    fst (SerialPortGetDivisor p hw (PcdSerialBaudRate p) (DetectUart p hw s)) = Some Divisor \<and>
    AlreadyInitialized p hw (length (trace (DetectUart p hw s))) Divisor \<longrightarrow>
      SerialPortInitialize p hw s =
        Some (Returned RETURN_SUCCESS, PreChecked p hw (DetectUart p hw s)) \<and>
      writes (trace (PreChecked p hw (DetectUart p hw s))) =
        writes (trace s) @
          [(mini p R_UART_LCR,
            rd8 hw (length (trace (DetectUart p hw s)) + 2) (mini p R_UART_LCR) OR B_UART_LCR_DLAB),
           (mini p R_UART_LCR,
            rd8 hw (length (trace (DetectUart p hw s)) + 6) (mini p R_UART_LCR)
              AND NOT B_UART_LCR_DLAB)]) \<and>
   (\<not> UsePl011Uart (DetectUart p hw s) \<and>
    SerialPortInitialize p hw s = Some (r, s1) \<and>
    fst (SerialPortGetDivisor p hw (PcdSerialBaudRate p) s1) = Some Divisor' \<and>
    Divisor' < 2 ^ 16 \<and>
    rd8 hw (length (trace s1) + 1) (mini p R_UART_LCR) = PcdSerialLineControl p AND 0x3F \<and>
    rd8 hw (length (trace s1) + 4) (mini p R_UART_BAUD_HIGH) = ucast (drop_bit 8 Divisor') \<and>
    rd8 hw (length (trace s1) + 5) (mini p R_UART_BAUD_LOW) = ucast (Divisor' AND 0xff) \<longrightarrow>
      SerialPortInitialize p hw s1 = Some (Returned RETURN_SUCCESS, PreChecked p hw s1) \<and>
      writes (trace (PreChecked p hw s1)) =
        writes (trace s1) @
          [(mini p R_UART_LCR, rd8 hw (length (trace s1) + 2) (mini p R_UART_LCR) OR B_UART_LCR_DLAB),
           (mini p R_UART_LCR,
            rd8 hw (length (trace s1) + 6) (mini p R_UART_LCR) AND NOT B_UART_LCR_DLAB)])"
proof (intro conjI impI)
  assume h: "\<not> UsePl011Uart (DetectUart p hw s) \<and>
    fst (SerialPortGetDivisor p hw (PcdSerialBaudRate p) (DetectUart p hw s)) = Some Divisor \<and>
    AlreadyInitialized p hw (length (trace (DetectUart p hw s))) Divisor"
  then show "SerialPortInitialize p hw s =
        Some (Returned RETURN_SUCCESS, PreChecked p hw (DetectUart p hw s))"
    using Initialize_precheck_hit [of p hw s Divisor] by simp
  from h show "writes (trace (PreChecked p hw (DetectUart p hw s))) =
        writes (trace s) @
          [(mini p R_UART_LCR,
            rd8 hw (length (trace (DetectUart p hw s)) + 2) (mini p R_UART_LCR) OR B_UART_LCR_DLAB),
           (mini p R_UART_LCR,
            rd8 hw (length (trace (DetectUart p hw s)) + 6) (mini p R_UART_LCR)
              AND NOT B_UART_LCR_DLAB)]"
    using Initialize_precheck_hit [of p hw s Divisor] by simp
next
  assume h: "\<not> UsePl011Uart (DetectUart p hw s) \<and>
    SerialPortInitialize p hw s = Some (r, s1) \<and>
    fst (SerialPortGetDivisor p hw (PcdSerialBaudRate p) s1) = Some Divisor' \<and>
    Divisor' < 2 ^ 16 \<and>
    rd8 hw (length (trace s1) + 1) (mini p R_UART_LCR) = PcdSerialLineControl p AND 0x3F \<and>
    rd8 hw (length (trace s1) + 4) (mini p R_UART_BAUD_HIGH) = ucast (drop_bit 8 Divisor') \<and>
    rd8 hw (length (trace s1) + 5) (mini p R_UART_BAUD_LOW) = ucast (Divisor' AND 0xff)"
  then have "extends (DetectUart p hw s) s1" using Initialize_extends by blast
  with h have f: "UsePl011UartSet s1" "\<not> UsePl011Uart s1" by (simp_all add: extends_def)
  then have s1: "DetectUart p hw s1 = s1" by simp
  from h have ai: "AlreadyInitialized p hw (length (trace s1)) Divisor'"
    by (simp add: AlreadyInitialized_after_programming)
  from h f ai Initialize_precheck_hit [of p hw s1 Divisor']
  have both: "SerialPortInitialize p hw s1 = Some (Returned RETURN_SUCCESS, PreChecked p hw s1) \<and>
      writes (trace (PreChecked p hw s1)) =
        writes (trace s1) @
          [(mini p R_UART_LCR, rd8 hw (length (trace s1) + 2) (mini p R_UART_LCR) OR B_UART_LCR_DLAB),
           (mini p R_UART_LCR,
            rd8 hw (length (trace s1) + 6) (mini p R_UART_LCR) AND NOT B_UART_LCR_DLAB)]"
    by (simp add: s1)
  from both show "SerialPortInitialize p hw s1 = Some (Returned RETURN_SUCCESS, PreChecked p hw s1)"
    by simp
  from both show "writes (trace (PreChecked p hw s1)) =
        writes (trace s1) @
          [(mini p R_UART_LCR, rd8 hw (length (trace s1) + 2) (mini p R_UART_LCR) OR B_UART_LCR_DLAB),
           (mini p R_UART_LCR,
            rd8 hw (length (trace s1) + 6) (mini p R_UART_LCR) AND NOT B_UART_LCR_DLAB)]"
    by simp
qed

theorem Initialize_skips_programmed_port_witness:
  "\<not> UsePl011Uart (DetectUart rpi3 idle_mini_uart unprobed) \<and>
   fst (SerialPortGetDivisor rpi3 idle_mini_uart (PcdSerialBaudRate rpi3)
          (DetectUart rpi3 idle_mini_uart unprobed)) = Some 217 \<and>
   AlreadyInitialized rpi3 idle_mini_uart (length (trace (DetectUart rpi3 idle_mini_uart unprobed))) 217 \<and>
   SerialPortInitialize rpi3 idle_mini_uart unprobed =
     Some (Returned RETURN_SUCCESS, PreChecked rpi3 idle_mini_uart (DetectUart rpi3 idle_mini_uart unprobed)) \<and>
   writes (trace (PreChecked rpi3 idle_mini_uart (DetectUart rpi3 idle_mini_uart unprobed))) =
     [(0x3F21504C, 0x83), (0x3F21504C, 0x03)] \<and>
   \<not> UsePl011Uart (DetectUart rpi3 mini_uart_taking_stores unprobed) \<and>
   (\<exists>s1. SerialPortInitialize rpi3 mini_uart_taking_stores unprobed = Some (Returned RETURN_SUCCESS, s1) \<and>
      fst (SerialPortGetDivisor rpi3 mini_uart_taking_stores (PcdSerialBaudRate rpi3) s1) = Some 217 \<and>
      (217 :: UINT32) < 2 ^ 16 \<and>
      rd8 mini_uart_taking_stores (length (trace s1) + 1) (mini rpi3 R_UART_LCR)
        = PcdSerialLineControl rpi3 AND 0x3F \<and>
      rd8 mini_uart_taking_stores (length (trace s1) + 4) (mini rpi3 R_UART_BAUD_HIGH)
        = ucast (drop_bit 8 (217 :: UINT32)) \<and>
      rd8 mini_uart_taking_stores (length (trace s1) + 5) (mini rpi3 R_UART_BAUD_LOW)
        = ucast ((217 :: UINT32) AND 0xff) \<and>
      SerialPortInitialize rpi3 mini_uart_taking_stores s1 =
        Some (Returned RETURN_SUCCESS, PreChecked rpi3 mini_uart_taking_stores s1) \<and>
      writes (trace (PreChecked rpi3 mini_uart_taking_stores s1)) =
        writes (trace s1) @ [(0x3F21504C, 0x83), (0x3F21504C, 0x03)])"
proof -
  have b: "PcdSerialBaudRate rpi3 = 115200" and lc: "PcdSerialLineControl rpi3 = 0x03"
    by (simp_all add: rpi3_def)
  have d: "fst (SerialPortGetDivisor rpi3 idle_mini_uart (PcdSerialBaudRate rpi3)
          (DetectUart rpi3 idle_mini_uart unprobed)) = Some 217"
    by (simp add: b idle_divisor)
  have i: "AlreadyInitialized rpi3 idle_mini_uart
             (length (trace (DetectUart rpi3 idle_mini_uart unprobed))) 217"
    by (simp add: AlreadyInitialized_def mini_rpi3 rd8_def idle_mini_uart_def lc)
  have w: "writes (trace unprobed) = []" by (simp add: unprobed_def)
  have A: "SerialPortInitialize rpi3 idle_mini_uart unprobed =
     Some (Returned RETURN_SUCCESS, PreChecked rpi3 idle_mini_uart (DetectUart rpi3 idle_mini_uart unprobed)) \<and>
   writes (trace (PreChecked rpi3 idle_mini_uart (DetectUart rpi3 idle_mini_uart unprobed))) =
     [(0x3F21504C, 0x83), (0x3F21504C, 0x03)]"
    using Initialize_skips_programmed_port [where p = rpi3 and hw = idle_mini_uart and s = unprobed
        and Divisor = 217] idle_is_mini d i
    by (simp add: w mini_rpi3 rd8_def idle_mini_uart_def B_UART_LCR_DLAB_def)
  from first_Initialize_taking_stores obtain s1 where
    f: "SerialPortInitialize rpi3 mini_uart_taking_stores unprobed = Some (Returned RETURN_SUCCESS, s1)"
    and l: "length (trace s1) = 18" by blast
  have d1: "fst (SerialPortGetDivisor rpi3 mini_uart_taking_stores (PcdSerialBaudRate rpi3) s1) = Some 217"
    by (simp add: b taking_stores_divisor)
  have r1: "rd8 mini_uart_taking_stores (length (trace s1) + 1) (mini rpi3 R_UART_LCR)
        = PcdSerialLineControl rpi3 AND 0x3F"
    by (simp add: l lc mini_rpi3 rd8_def mini_uart_taking_stores_def idle_mini_uart_def)
  have r4: "rd8 mini_uart_taking_stores (length (trace s1) + 4) (mini rpi3 R_UART_BAUD_HIGH)
        = ucast (drop_bit 8 (217 :: UINT32))"
    by (simp add: l mini_rpi3 rd8_def mini_uart_taking_stores_def idle_mini_uart_def drop_bit_eq_div)
  have r5: "rd8 mini_uart_taking_stores (length (trace s1) + 5) (mini rpi3 R_UART_BAUD_LOW)
        = ucast ((217 :: UINT32) AND 0xff)"
    by (simp add: l mini_rpi3 rd8_def mini_uart_taking_stores_def idle_mini_uart_def)
  have lt: "(217 :: UINT32) < 2 ^ 16" by simp
  have B: "SerialPortInitialize rpi3 mini_uart_taking_stores s1 =
        Some (Returned RETURN_SUCCESS, PreChecked rpi3 mini_uart_taking_stores s1) \<and>
      writes (trace (PreChecked rpi3 mini_uart_taking_stores s1)) =
        writes (trace s1) @ [(0x3F21504C, 0x83), (0x3F21504C, 0x03)]"
    using Initialize_skips_programmed_port [where p = rpi3 and hw = mini_uart_taking_stores
        and s = unprobed and r = "Returned RETURN_SUCCESS" and ?s1.0 = s1 and Divisor' = 217]
      taking_stores_is_mini f d1 lt r1 r4 r5
    by (simp add: l mini_rpi3 rd8_def mini_uart_taking_stores_def idle_mini_uart_def
        B_UART_LCR_DLAB_def)
  from A B idle_is_mini d i taking_stores_is_mini f d1 lt r1 r4 r5 show ?thesis by blast
qed

lemma writes_unprobed: "writes (trace unprobed) = []"
  by (simp add: unprobed_def)

lemma taking_stores_300_is_mini:
  "\<not> UsePl011Uart (DetectUart rpi3_300 mini_uart_taking_stores_300 unprobed)"
  by (simp add: DetectUart_def MmioRead32_def Let_def unprobed_def mini_uart_taking_stores_300_def
      fresh_mini_uart_def idle_mini_uart_def rpi3_300_def rpi3_def)

lemma taking_stores_300_divisor:
  "fst (SerialPortGetDivisor rpi3_300 mini_uart_taking_stores_300 300 s) = Some 0x14585"
  by (simp add: SerialPortGetDivisor_def MmioRead32_def Let_def rpi3_300_def rpi3_def
      mini_uart_taking_stores_300_def fresh_mini_uart_def idle_mini_uart_def)

lemma mini_rpi3_300: "mini rpi3_300 r = mini rpi3 r"
  by (simp add: mini_def reg_def MINI_UART_REGISTER_BASE_def rpi3_300_def)

theorem Initialize_twice_wide_divisor_counterexample:
  "fst (SerialPortGetDivisor rpi3_300 mini_uart_taking_stores_300 (PcdSerialBaudRate rpi3_300) unprobed)
     = Some 0x14585 \<and>
   rd8 mini_uart_taking_stores_300 19 (mini rpi3_300 R_UART_LCR) = PcdSerialLineControl rpi3_300 AND 0x3F \<and>
   rd8 mini_uart_taking_stores_300 22 (mini rpi3_300 R_UART_BAUD_HIGH) = ucast (drop_bit 8 (0x14585 :: UINT32)) \<and>
   rd8 mini_uart_taking_stores_300 23 (mini rpi3_300 R_UART_BAUD_LOW) = ucast ((0x14585 :: UINT32) AND 0xff) \<and>
   map_option (writes \<circ> trace \<circ> snd) (InitializeTwice rpi3_300 mini_uart_taking_stores_300 unprobed) =
     Some [(0x3F21504C, 0x80), (0x3F21504C, 0x00),
           (0x3F21504C, 0x80), (0x3F215044, 0x45), (0x3F215040, 0x85), (0x3F21504C, 0x03),
           (0x3F215048, 0x00), (0x3F215048, 0x21), (0x3F215044, 0x00), (0x3F215050, 0x00),
           (0x3F21504C, 0x83), (0x3F21504C, 0x03),
           (0x3F21504C, 0x80), (0x3F215044, 0x45), (0x3F215040, 0x85), (0x3F21504C, 0x03),
           (0x3F215048, 0x00), (0x3F215048, 0x21), (0x3F215044, 0x00), (0x3F215050, 0x00)]"
proof -
  let ?p = rpi3_300 and ?hw = mini_uart_taking_stores_300
  have b: "PcdSerialBaudRate ?p = 300" and lc: "PcdSerialLineControl ?p = 0x03"
    and fc: "PcdSerialFifoControl ?p = 0x27"
    by (simp_all add: rpi3_300_def rpi3_def)
  have hi: "(ucast (drop_bit 8 (0x14585 :: UINT32)) :: UINT8) = 0x45"
    by (simp add: drop_bit_eq_div)
  have lo: "(ucast ((0x14585 :: UINT32) AND 0xff) :: UINT8) = 0x85" by simp
  have prog: "ProgramWrites ?p 0x14585 =
     [(0x3F21504C, 0x80), (0x3F215044, 0x45), (0x3F215040, 0x85), (0x3F21504C, 0x03),
      (0x3F215048, 0x00), (0x3F215048, 0x21), (0x3F215044, 0x00), (0x3F215050, 0x00)]"
    by (simp add: ProgramWrites_def mini_rpi3_300 mini_rpi3 hi lo lc fc B_UART_LCR_DLAB_def
        B_UART_FCR_FIFOE_def B_UART_FCR_FIFO64_def)
  have d0: "fst (SerialPortGetDivisor ?p ?hw (PcdSerialBaudRate ?p) s) = Some 0x14585" for s
    by (simp add: b taking_stores_300_divisor)
  have l0: "length (trace (DetectUart ?p ?hw unprobed)) = 1" by (rule length_DetectUart_unprobed)
  have no0: "\<not> AlreadyInitialized ?p ?hw (length (trace (DetectUart ?p ?hw unprobed))) 0x14585"
    by (simp add: AlreadyInitialized_def l0 mini_rpi3_300 mini_rpi3 rd8_def lc
        mini_uart_taking_stores_300_def fresh_mini_uart_def)
  have ready: "TransmitterEmptyAt ?p ?hw t" for t
    by (simp add: TransmitterEmptyAt_def mini_rpi3_300 mini_rpi3 rd8_def
        mini_uart_taking_stores_300_def fresh_mini_uart_def idle_mini_uart_def
        B_UART_LSR_TEMT_def B_UART_LSR_TXRDY_def)
  from Initialize_reprograms [OF taking_stores_300_is_mini d0 no0 ready] obtain s1 where
    1: "SerialPortInitialize ?p ?hw unprobed = Some (Returned RETURN_SUCCESS, s1)"
    and f1: "UsePl011UartSet s1" "\<not> UsePl011Uart s1" and l1: "length (trace s1) = 18"
    and w1: "writes (trace s1) =
       writes (trace (PreChecked ?p ?hw (DetectUart ?p ?hw unprobed))) @ ProgramWrites ?p 0x14585"
    by (auto simp: l0)
  have s1: "DetectUart ?p ?hw s1 = s1" using f1 by simp
  have r19: "rd8 ?hw 19 (mini ?p R_UART_LCR) = PcdSerialLineControl ?p AND 0x3F"
    by (simp add: lc mini_rpi3_300 mini_rpi3 rd8_def mini_uart_taking_stores_300_def
        idle_mini_uart_def)
  have r22: "rd8 ?hw 22 (mini ?p R_UART_BAUD_HIGH) = 0x45"
    by (simp add: mini_rpi3_300 mini_rpi3 rd8_def mini_uart_taking_stores_300_def)
  have r23: "rd8 ?hw 23 (mini ?p R_UART_BAUD_LOW) = 0x85"
    by (simp add: mini_rpi3_300 mini_rpi3 rd8_def mini_uart_taking_stores_300_def)
  have no1: "\<not> AlreadyInitialized ?p ?hw (length (trace (DetectUart ?p ?hw s1))) 0x14585"
    by (simp add: AlreadyInitialized_def s1 l1 r22 r23)
  from Initialize_reprograms [OF _ d0 no1 ready] f1 obtain s2 where
    2: "SerialPortInitialize ?p ?hw s1 = Some (Returned RETURN_SUCCESS, s2)"
    and w2: "writes (trace s2) =
       writes (trace (PreChecked ?p ?hw (DetectUart ?p ?hw s1))) @ ProgramWrites ?p 0x14585"
    by (auto simp: s1)
  have pre0: "writes (trace (PreChecked ?p ?hw (DetectUart ?p ?hw unprobed))) =
      [(0x3F21504C, 0x80), (0x3F21504C, 0x00)]"
    using writes_unprobed
    by (simp add: writes_PreChecked l0 mini_rpi3_300 mini_rpi3 rd8_def
        mini_uart_taking_stores_300_def fresh_mini_uart_def B_UART_LCR_DLAB_def)
  have pre1: "writes (trace (PreChecked ?p ?hw s1)) =
      writes (trace s1) @ [(0x3F21504C, 0x83), (0x3F21504C, 0x03)]"
    by (simp add: writes_PreChecked l1 mini_rpi3_300 mini_rpi3 rd8_def
        mini_uart_taking_stores_300_def idle_mini_uart_def B_UART_LCR_DLAB_def)
  have "map_option (writes \<circ> trace \<circ> snd) (InitializeTwice ?p ?hw unprobed) = Some (writes (trace s2))"
    by (simp add: InitializeTwice_def 1 2)
  then show ?thesis
    by (simp add: w2 s1 pre1 w1 pre0 prog d0 r19 r22 r23 hi lo)
qed

lemma and_1_cases: "x AND 1 = 0 \<or> x AND 1 = 1" for x :: UINT8
  by (auto simp: byte_eq_iff bit_and_iff bit_1_iff)

lemma and_3_plus_5: "(x AND 3) + 5 = 5 \<longleftrightarrow> x AND 3 = 0" for x :: UINT8
  by simp

lemma ResolveDataBits_default:
  "DataBits a = 0 \<Longrightarrow>
   ResolveDataBits p a =
     Some (PcdSerialLineControl p AND 0x3, a\<lparr>DataBits := (PcdSerialLineControl p AND 0x3) + 5\<rparr>)"
  by (simp add: ResolveDataBits_def Let_def)

lemma ResolveParity_default:
  "Parity a = DefaultParity \<Longrightarrow>
   ResolveParity p a =
     Some (drop_bit 3 (PcdSerialLineControl p) AND 0x7,
           a\<lparr>Parity :=
               (let c = drop_bit 3 (PcdSerialLineControl p) AND 0x7
                in if c = 0 then NoParity else if c = 1 then OddParity
                   else if c = 3 then EvenParity else if c = 5 then MarkParity
                   else if c = 7 then SpaceParity else DefaultParity)\<rparr>)"
  by (simp add: ResolveParity_def Let_def)

lemma ResolveStopBits_default:
  "StopBits a = DefaultStopBits \<Longrightarrow>
   ResolveStopBits p a =
     Some (drop_bit 2 (PcdSerialLineControl p) AND 0x1,
           a\<lparr>StopBits :=
               (if drop_bit 2 (PcdSerialLineControl p) AND 0x1 = 0 then OneStopBit
                else if DataBits a = 5 then OneFiveStopBits else TwoStopBits)\<rparr>)"
  using and_1_cases [of "drop_bit 2 (PcdSerialLineControl p)"]
  by (auto simp: ResolveStopBits_def Let_def)

lemma ucast_ucast_baud: "(ucast (ucast b :: UINT64) :: UINT32) = b" for b :: UINT32
  by (rule bit_word_eqI) (simp add: bit_ucast_iff)

lemma SetAttributes_all_defaults:
  assumes mini: "\<not> UsePl011Uart s"
    and sentinels: "BaudRate a = 0" "DataBits a = 0" "Parity a = DefaultParity"
      "StopBits a = DefaultStopBits"
    and d: "fst (SerialPortGetDivisor p hw (PcdSerialBaudRate p) s) = Some Divisor"
  shows "SerialPortSetAttributes p hw a s =
     (Returned (RETURN_SUCCESS, ConfiguredAttributes p a),
      s\<lparr>trace := trace s @
           Rd32 (VpuClockDivisor p) (hw (length (trace s)) (VpuClockDivisor p)) #
           map (\<lambda>(a, v). Wr8 a v)
             (SetAttributesWrites p Divisor (PcdSerialLineControl p AND 0x3F))\<rparr>)"
proof -
  let ?a0 = "DefaultedBaudRate p a"
  let ?a1 = "?a0\<lparr>DataBits := (PcdSerialLineControl p AND 0x3) + 5\<rparr>"
  have a0: "?a0 = a\<lparr>BaudRate := ucast (PcdSerialBaudRate p)\<rparr>"
    using sentinels by (simp add: DefaultedBaudRate_def)
  have b: "(ucast (BaudRate ?a0) :: UINT32) = PcdSerialBaudRate p"
    by (simp add: a0 ucast_ucast_baud)
  have 1: "ResolveDataBits p ?a0 = Some (PcdSerialLineControl p AND 0x3, ?a1)"
    using sentinels by (simp add: ResolveDataBits_default a0)
  have p1: "Parity ?a1 = DefaultParity" using sentinels by (simp add: a0)
  note 2 = ResolveParity_default [OF p1, of p]
  let ?a2 = "?a1\<lparr>Parity :=
               (let c = drop_bit 3 (PcdSerialLineControl p) AND 0x7
                in if c = 0 then NoParity else if c = 1 then OddParity
                   else if c = 3 then EvenParity else if c = 5 then MarkParity
                   else if c = 7 then SpaceParity else DefaultParity)\<rparr>"
  have s2: "StopBits ?a2 = DefaultStopBits" using sentinels by (simp add: a0)
  note 3 = ResolveStopBits_default [OF s2, of p]
  show ?thesis
    apply (simp only: SetAttributes_unfold [OF mini] 1 2 3 b d option.case prod.case repack)
    apply (simp add: repack AfterClockRead_def ConfiguredAttributes_def a0 and_3_plus_5)
    done
qed

text \<open>
  C2, as amended. On the mini UART path, \<^verbatim>\<open>SerialPortSetAttributes\<close> with every
  parameter at its sentinel takes the values from the configuration, not from the device:
  it returns the baud rate PCD and what the line control PCD encodes (the parity stays
  \<^verbatim>\<open>DefaultParity\<close> when the configured parity code is 2, 4 or 6), it loads no UART
  register, and it programs the device with them: \<open>0x80\<close> to the line control register,
  the two divisor bytes, and the low six bits of the line control PCD to the line
  control register. This for a baud rate PCD whose product with 16 is not zero in 32 bits.
\<close>

theorem SetAttributes_defaults_apply_configuration:
  assumes "\<not> UsePl011Uart s"
    and "BaudRate a = 0" and "DataBits a = 0" and "Parity a = DefaultParity"
    and "StopBits a = DefaultStopBits"
    and "fst (SerialPortGetDivisor p hw (PcdSerialBaudRate p) s) = Some Divisor"
  shows "SerialPortSetAttributes p hw a s =
     (Returned (RETURN_SUCCESS, ConfiguredAttributes p a),
      s\<lparr>trace := trace s @
           Rd32 (VpuClockDivisor p) (hw (length (trace s)) (VpuClockDivisor p)) #
           map (\<lambda>(a, v). Wr8 a v)
             (SetAttributesWrites p Divisor (PcdSerialLineControl p AND 0x3F))\<rparr>)"
  using assms by (rule SetAttributes_all_defaults)

lemma all_defaults_sentinels:
  "BaudRate all_defaults = 0" "DataBits all_defaults = 0" "Parity all_defaults = DefaultParity"
  "StopBits all_defaults = DefaultStopBits"
  by (simp_all add: all_defaults_def)

lemma on_mini_uart_mini: "\<not> UsePl011Uart on_mini_uart" "trace on_mini_uart = []"
  by (simp_all add: on_mini_uart_def)

lemma Configured_rpi3:
  "ConfiguredAttributes rpi3 all_defaults =
     \<lparr>BaudRate = 115200, ReceiveFifoDepth = 0, Timeout = 0, Parity = NoParity, DataBits = 8,
      StopBits = OneStopBit\<rparr>"
  by (simp add: ConfiguredAttributes_def rpi3_def all_defaults_def drop_bit_eq_div)

lemma SetAttributesWrites_rpi3:
  "SetAttributesWrites rpi3 217 (PcdSerialLineControl rpi3 AND 0x3F) =
     [(0x3F21504C, 0x80), (0x3F215044, 0x00), (0x3F215040, 0xD9), (0x3F21504C, 0x03)]"
proof -
  have "PcdSerialLineControl rpi3 = 0x03" by (simp add: rpi3_def)
  then show ?thesis
    by (simp add: SetAttributesWrites_def mini_rpi3 B_UART_LCR_DLAB_def drop_bit_eq_div)
qed

theorem SetAttributes_defaults_apply_configuration_witness:
  "\<not> UsePl011Uart on_mini_uart \<and>
   BaudRate all_defaults = 0 \<and> DataBits all_defaults = 0 \<and> Parity all_defaults = DefaultParity \<and>
   StopBits all_defaults = DefaultStopBits \<and>
   fst (SerialPortGetDivisor rpi3 idle_mini_uart (PcdSerialBaudRate rpi3) on_mini_uart) = Some 217 \<and>
   fst (SerialPortSetAttributes rpi3 idle_mini_uart all_defaults on_mini_uart) =
     Returned (RETURN_SUCCESS,
       \<lparr>BaudRate = 115200, ReceiveFifoDepth = 0, Timeout = 0, Parity = NoParity, DataBits = 8,
        StopBits = OneStopBit\<rparr>) \<and>
   writes (trace (snd (SerialPortSetAttributes rpi3 idle_mini_uart all_defaults on_mini_uart))) =
     [(0x3F21504C, 0x80), (0x3F215044, 0x00), (0x3F215040, 0xD9), (0x3F21504C, 0x03)]"
proof -
  have b: "PcdSerialBaudRate rpi3 = 115200" by (simp add: rpi3_def)
  have d: "fst (SerialPortGetDivisor rpi3 idle_mini_uart (PcdSerialBaudRate rpi3) on_mini_uart) = Some 217"
    by (simp add: b idle_divisor)
  show ?thesis
    using SetAttributes_defaults_apply_configuration [OF on_mini_uart_mini(1) all_defaults_sentinels d]
      on_mini_uart_mini all_defaults_sentinels d
    by (simp add: Configured_rpi3 SetAttributesWrites_rpi3)
qed

theorem SetAttributes_defaults_write_counterexample:
  "rd8 mini_uart_7e2 0 (mini rpi3 R_UART_LCR) = 0x1E \<and>
   fst (SerialPortSetAttributes rpi3 mini_uart_7e2 all_defaults on_mini_uart) =
     Returned (RETURN_SUCCESS,
       \<lparr>BaudRate = 115200, ReceiveFifoDepth = 0, Timeout = 0, Parity = NoParity, DataBits = 8,
        StopBits = OneStopBit\<rparr>) \<and>
   writes (trace (snd (SerialPortSetAttributes rpi3 mini_uart_7e2 all_defaults on_mini_uart))) =
     [(0x3F21504C, 0x80), (0x3F215044, 0x00), (0x3F215040, 0xD9), (0x3F21504C, 0x03)]"
proof -
  have b: "PcdSerialBaudRate rpi3 = 115200" by (simp add: rpi3_def)
  have d: "fst (SerialPortGetDivisor rpi3 mini_uart_7e2 (PcdSerialBaudRate rpi3) on_mini_uart) = Some 217"
    by (simp add: b SerialPortGetDivisor_def MmioRead32_def Let_def rpi3_def mini_uart_7e2_def
        idle_mini_uart_def)
  have r: "rd8 mini_uart_7e2 0 (mini rpi3 R_UART_LCR) = 0x1E"
    by (simp add: rd8_def mini_rpi3 mini_uart_7e2_def)
  show ?thesis
    using SetAttributes_all_defaults [OF on_mini_uart_mini(1) all_defaults_sentinels d] r
    by (simp add: Configured_rpi3 SetAttributesWrites_rpi3 on_mini_uart_mini(2))
qed

lemma ResolveStopBits_keeps_parity:
  "ResolveStopBits p a = Some (c, a') \<Longrightarrow> Parity a' = Parity a"
  by (cases "StopBits a") (auto simp: ResolveStopBits_def Let_def split: if_splits)

lemma DefaultedBaudRate_keeps [simp]:
  "Parity (DefaultedBaudRate p a) = Parity a" "DataBits (DefaultedBaudRate p a) = DataBits a"
  "StopBits (DefaultedBaudRate p a) = StopBits a"
  by (simp_all add: DefaultedBaudRate_def)

lemma extends_Detected:
  assumes "\<not> UsePl011UartSet s" and "extends (DetectUart p hw s) s'"
  shows "Detected p hw s s'"
  using assms(2) unfolding DetectUart_unprobed [OF assms(1)]
  by (auto simp: extends_def Detected_def)

lemma Write_extends:
  assumes "SerialPortWrite p hw Buffer n s = Some (r, s')"
  shows "extends (DetectUart p hw s) s'"
proof (cases "UsePl011Uart (DetectUart p hw s) \<or> Buffer = None")
  case True
  with assms show ?thesis by (auto simp: SerialPortWrite_def Let_def split: if_splits)
next
  case False
  then obtain Bytes where B: "Buffer = Some Bytes" and mini: "\<not> UsePl011Uart (DetectUart p hw s)"
    by auto
  show ?thesis
  proof (cases "n = 0")
    case True
    with assms B mini obtain s1 where
      1: "WaitTransmitEmpty p hw (MINI_UART_REGISTER_BASE p) (DetectUart p hw s) = Some s1"
      and 2: "WaitWritable p hw (MINI_UART_REGISTER_BASE p) s1 = Some s'"
      by (auto simp: SerialPortWrite_def Let_def split: option.splits)
    from WaitTransmitEmpty_extends [OF 1] WaitWritable_extends [OF 2] show ?thesis
      by (rule extends_trans)
  next
    case False
    with assms B mini have
      "WriteLoop p hw (MINI_UART_REGISTER_BASE p) (FifoSize p) n Bytes (DetectUart p hw s) = Some s'"
      by (auto simp: SerialPortWrite_def Let_def split: option.splits)
    then show ?thesis by (rule WriteLoop_extends)
  qed
qed

lemma Write_returns:
  assumes tx: "recurs (TransmitterEmptyAt p hw)" and wr: "recurs (WritableAt p hw)"
    and size: "0 < FifoSize p"
  shows "\<exists>r s'. SerialPortWrite p hw Buffer n s = Some (r, s')"
proof (cases "UsePl011Uart (DetectUart p hw s)")
  case True
  then show ?thesis by (simp add: SerialPortWrite_def Let_def)
next
  case False
  show ?thesis
  proof (cases Buffer)
    case None
    with False show ?thesis by (simp add: SerialPortWrite_def Let_def)
  next
    case (Some Bytes)
    from size have "n = 0 \<or> 0 < FifoSize p" by simp
    from Write_mini_sends [OF False tx wr this, of Bytes] Some show ?thesis by blast
  qed
qed

section \<open>What each operation accesses\<close>

lemma Load8_no_store [simp]: "Wr8 a v \<notin> Load8 x" "Rd32 a w \<notin> Load8 x"
  by (simp_all add: Load8_def)

lemma Store8_iff [simp]: "Wr8 a v \<in> Store8 x \<longleftrightarrow> a = x" "Rd32 a w \<notin> Store8 x"
  by (auto simp: Store8_def)

lemma mini_reg: "reg p (MINI_UART_REGISTER_BASE p) r = mini p r" by (simp add: mini_def)

subsection \<open>SerialPortWrite\<close>



lemma Write_mini_run:
  assumes mini: "\<not> UsePl011Uart (DetectUart p hw s)"
    and tx: "recurs (TransmitterEmptyAt p hw)" and wr: "recurs (WritableAt p hw)"
    and size: "n = 0 \<or> 0 < FifoSize p"
  shows "\<exists>s' j es.
      SerialPortWrite p hw (Some Buffer) n s = Some (Returned n, s') \<and>
      writes (trace s') = writes (trace s) @ TxBytes p Buffer n \<and>
      FirstAt (TransmitterEmptyAt p hw) (length (trace (DetectUart p hw s))) j \<and>
      trace s' = trace (DetectUart p hw s) @
        Polls hw (mini p R_UART_LSR) (length (trace (DetectUart p hw s))) (Suc j) @ es \<and>
      set es \<subseteq> WriteAccesses p \<and>
      (n = 0 \<longrightarrow>
         (if PcdSerialUseHardwareFlowControl p
          then \<exists>k. FirstAt (WritableAt p hw) (length (trace (DetectUart p hw s)) + Suc j) k \<and>
                 es = Polls hw (mini p R_UART_MSR) (length (trace (DetectUart p hw s)) + Suc j) (Suc k)
          else es = []))"
proof -
  let ?s0 = "DetectUart p hw s"
  let ?t0 = "length (trace ?s0)"
  from Write_mini_sends [OF assms, of Buffer] obtain s' where
    ret: "SerialPortWrite p hw (Some Buffer) n s = Some (Returned n, s')"
    and st: "writes (trace s') = writes (trace s) @ TxBytes p Buffer n" by blast
  from tx obtain k0 where "TransmitterEmptyAt p hw (?t0 + k0)" by (auto simp: recurs_def)
  from WaitTransmitEmpty_polls [OF this] obtain j where
    j: "FirstAt (TransmitterEmptyAt p hw) ?t0 j"
    and w1: "WaitTransmitEmpty p hw (MINI_UART_REGISTER_BASE p) ?s0 =
       Some (?s0\<lparr>trace := trace ?s0 @ Polls hw (mini p R_UART_LSR) ?t0 (Suc j)\<rparr>)"
    by blast
  let ?s1 = "?s0\<lparr>trace := trace ?s0 @ Polls hw (mini p R_UART_LSR) ?t0 (Suc j)\<rparr>"
  have len1: "length (trace ?s1) = ?t0 + Suc j" by (simp add: Polls_def)
  have M: "Load8 (reg p (MINI_UART_REGISTER_BASE p) R_UART_MSR) \<subseteq> WriteAccesses p"
    and L: "Load8 (reg p (MINI_UART_REGISTER_BASE p) R_UART_LSR) \<subseteq> WriteAccesses p"
    and S: "Store8 (reg p (MINI_UART_REGISTER_BASE p) R_UART_TXBUF) \<subseteq> WriteAccesses p"
    by (auto simp: WriteAccesses_def mini_reg)
  show ?thesis
  proof (cases "n = 0")
    case True
    show ?thesis
    proof (cases "PcdSerialUseHardwareFlowControl p")
      case False
      have "SerialPortWrite p hw (Some Buffer) n s = Some (Returned n, ?s1)"
        using mini True w1 by (simp add: SerialPortWrite_def Let_def WaitWritable_no_flow [OF False])
      with ret have "s' = ?s1" by simp
      with ret st j True False show ?thesis by auto
    next
      case fc: True
      from wr obtain k1 where "WritableAt p hw (length (trace ?s1) + k1)" by (auto simp: recurs_def)
      from WaitWritable_polls [OF fc this] obtain k where
        k: "FirstAt (WritableAt p hw) (length (trace ?s1)) k"
        and w2: "WaitWritable p hw (MINI_UART_REGISTER_BASE p) ?s1 =
          Some (?s1\<lparr>trace := trace ?s1 @ Polls hw (mini p R_UART_MSR) (length (trace ?s1)) (Suc k)\<rparr>)"
        by blast
      let ?es = "Polls hw (mini p R_UART_MSR) (?t0 + Suc j) (Suc k)"
      have "SerialPortWrite p hw (Some Buffer) n s =
          Some (Returned n, ?s1\<lparr>trace := trace ?s1 @ Polls hw (mini p R_UART_MSR) (length (trace ?s1)) (Suc k)\<rparr>)"
        using mini True w1 w2 by (simp add: SerialPortWrite_def Let_def)
      with ret have s': "trace s' = trace ?s0 @ Polls hw (mini p R_UART_LSR) ?t0 (Suc j) @ ?es"
        unfolding len1 by auto
      have "set ?es \<subseteq> WriteAccesses p"
        by (auto simp: Polls_def WriteAccesses_def Load8_def)
      moreover from k have "FirstAt (WritableAt p hw) (?t0 + Suc j) k" unfolding len1 .
      ultimately show ?thesis using ret st j s' True fc by auto
    qed
  next
    case False
    from ret mini False have
      l: "WriteLoop p hw (MINI_UART_REGISTER_BASE p) (FifoSize p) n Buffer ?s0 = Some s'"
      by (auto simp: SerialPortWrite_def Let_def split: option.splits)
    from l False w1 obtain n' Buffer' s2 where
      g: "FillTxFifo p hw (MINI_UART_REGISTER_BASE p) (FifoSize p) 0 n Buffer ?s1 = Some (n', Buffer', s2)"
      and l': "WriteLoop p hw (MINI_UART_REGISTER_BASE p) (FifoSize p) n' Buffer' s2 = Some s'"
      by (subst (asm) WriteLoop.simps) (auto split: option.splits)
    have "within (WriteAccesses p) ?s1 s2" using FillTxFifo_within [OF g M S] by simp
    moreover have "within (WriteAccesses p) s2 s'" using l' L M S by (rule WriteLoop_within)
    ultimately have "within (WriteAccesses p) ?s1 s'" by (rule within_trans)
    then obtain es where "trace s' = trace ?s1 @ es" "set es \<subseteq> WriteAccesses p"
      by (auto simp: within_def)
    with ret st j False show ?thesis by auto
  qed
qed

subsection \<open>SerialPortRead\<close>

lemma Read_pl011:
  "UsePl011Uart s \<Longrightarrow>
   SerialPortRead p hw Buffer n s =
     Some (Forwarded (PL011UartRead (PL011_UART_REGISTER_BASE p) Buffer n), s)"
  by (simp add: SerialPortRead_def)

lemma Read_mini:
  assumes mini: "\<not> UsePl011Uart s" and ret: "SerialPortRead p hw Buffer n s = Some (r, s')"
  shows "(\<exists>x. r = Returned x) \<and> within (ReadAccesses p) s s'"
proof (cases Buffer)
  case None
  with mini ret show ?thesis by (auto simp: SerialPortRead_def)
next
  case (Some Bytes)
  let ?r = "SerialPortReadRegister p hw (MINI_UART_REGISTER_BASE p) R_UART_MCR s"
  from ret Some mini obtain x where
    l: "ReadLoop p hw (MINI_UART_REGISTER_BASE p) (fst ?r AND NOT B_UART_MCR_RTS) n 0 Bytes (snd ?r)
          = Some x" and s': "s' = snd (snd x)" and r: "r = Returned (fst x, Some (fst (snd x)))"
    by (auto simp: SerialPortRead_def Let_def split_beta split: option.splits)
  have C: "Load8 (reg p (MINI_UART_REGISTER_BASE p) R_UART_MCR) \<subseteq> ReadAccesses p"
    and L: "Load8 (reg p (MINI_UART_REGISTER_BASE p) R_UART_LSR) \<subseteq> ReadAccesses p"
    and R: "Load8 (reg p (MINI_UART_REGISTER_BASE p) R_UART_RXBUF) \<subseteq> ReadAccesses p"
    and S: "Store8 (reg p (MINI_UART_REGISTER_BASE p) R_UART_MCR) \<subseteq> ReadAccesses p"
    by (auto simp: ReadAccesses_def mini_reg)
  have "within (ReadAccesses p) s (snd ?r)" by (rule within_read [OF C])
  moreover have "within (ReadAccesses p) (snd ?r) s'" unfolding s' using l L R S by (rule ReadLoop_within)
  ultimately have "within (ReadAccesses p) s s'" by (rule within_trans)
  with r show ?thesis by blast
qed

lemma Read_returns:
  assumes "\<forall>t. ReceiveReadyAt p hw t"
  shows "\<exists>r s'. SerialPortRead p hw Buffer n s = Some (r, s')"
proof (cases "UsePl011Uart s \<or> Buffer = None")
  case True
  then show ?thesis by (auto simp: SerialPortRead_def)
next
  case False
  then obtain Bytes where B: "Buffer = Some Bytes" and mini: "\<not> UsePl011Uart s" by auto
  let ?r = "SerialPortReadRegister p hw (MINI_UART_REGISTER_BASE p) R_UART_MCR s"
  from ReadLoop_returns [OF assms, of "fst ?r AND NOT B_UART_MCR_RTS" n 0 Bytes "snd ?r"]
  obtain Bytes' s' where
    "ReadLoop p hw (MINI_UART_REGISTER_BASE p) (fst ?r AND NOT B_UART_MCR_RTS) n 0 Bytes (snd ?r)
       = Some (0 + n, Bytes', s')" by blast
  with B mini show ?thesis by (simp add: SerialPortRead_def Let_def split_beta)
qed


subsection \<open>SerialPortPoll, SerialPortGetControl, SerialPortSetControl\<close>

lemma Poll_mini:
  assumes "\<not> UsePl011Uart s"
  shows "(\<exists>x. fst (SerialPortPoll p hw s) = Returned x) \<and>
         within (PollAccesses p) s (snd (SerialPortPoll p hw s))"
proof -
  have L: "Load8 (reg p (MINI_UART_REGISTER_BASE p) R_UART_LSR) \<subseteq> PollAccesses p"
    and C: "Load8 (reg p (MINI_UART_REGISTER_BASE p) R_UART_MCR) \<subseteq> PollAccesses p"
    and S: "Store8 (reg p (MINI_UART_REGISTER_BASE p) R_UART_MCR) \<subseteq> PollAccesses p"
    by (auto simp: PollAccesses_def mini_reg)
  note 1 = within_read [OF L, where hw = hw]
  note 2 = within_trans [OF within_read [OF C, where hw = hw] within_write [OF S]]
  show ?thesis
    using assms by (auto simp: SerialPortPoll_def Let_def split_beta intro: 1 within_trans [OF 1 2])
qed

lemma GetControl_mini:
  assumes "\<not> UsePl011Uart s"
  shows "(\<exists>x. fst (SerialPortGetControl p b hw s) = Returned x) \<and>
         within (GetControlAccesses p) s (snd (SerialPortGetControl p b hw s))"
proof -
  have L: "Load8 (reg p (MINI_UART_REGISTER_BASE p) R_UART_LSR) \<subseteq> GetControlAccesses p"
    and C: "Load8 (reg p (MINI_UART_REGISTER_BASE p) R_UART_MCR) \<subseteq> GetControlAccesses p"
    and M: "Load8 (reg p (MINI_UART_REGISTER_BASE p) R_UART_MSR) \<subseteq> GetControlAccesses p"
    by (auto simp: GetControlAccesses_def mini_reg)
  note 1 = within_trans [OF within_read [OF M, where hw = hw]
      within_trans [OF within_read [OF C, where hw = hw] within_read [OF L, where hw = hw]]]
  show ?thesis
    using assms by (simp add: SerialPortGetControl_def Let_def split_beta 1)
qed

lemma SetControl_mini:
  assumes "\<not> UsePl011Uart s"
  shows "(\<exists>x. fst (SerialPortSetControl p b hw Control s) = Returned x) \<and>
         within (SetControlAccesses p) s (snd (SerialPortSetControl p b hw Control s))"
proof -
  have C: "Load8 (reg p (MINI_UART_REGISTER_BASE p) R_UART_MCR) \<subseteq> SetControlAccesses p"
    and S: "Store8 (reg p (MINI_UART_REGISTER_BASE p) R_UART_MCR) \<subseteq> SetControlAccesses p"
    by (auto simp: SetControlAccesses_def mini_reg)
  note 1 = within_trans [OF within_read [OF C, where hw = hw] within_write [OF S]]
  show ?thesis
    using assms by (simp add: SerialPortSetControl_def Let_def split_beta 1)
qed




lemma no_probe_in_accesses:
  "Rd32 a v \<notin> ReadAccesses p \<union> PollAccesses p \<union> GetControlAccesses p \<union> SetControlAccesses p"
  by (simp add: ReadAccesses_def PollAccesses_def GetControlAccesses_def SetControlAccesses_def)

subsection \<open>SerialPortSetAttributes\<close>

lemma SetAttributes_mini:
  assumes "\<not> UsePl011Uart s"
  shows "(\<forall>c. fst (SerialPortSetAttributes p hw a s) \<noteq> Forwarded c) \<and>
         (snd (SerialPortSetAttributes p hw a s) = s \<or>
          (\<exists>ws. snd (SerialPortSetAttributes p hw a s) =
             (AfterClockRead p hw s)\<lparr>trace := trace (AfterClockRead p hw s) @
                map (\<lambda>(a, v). Wr8 a v) ws\<rparr>))"
proof -
  have e: "AfterClockRead p hw s =
      (AfterClockRead p hw s)\<lparr>trace := trace (AfterClockRead p hw s) @ map (\<lambda>(a, v). Wr8 a v) []\<rparr>"
    by simp
  show ?thesis
    unfolding SetAttributes_unfold [OF assms]
    by (auto split: option.splits intro: exI [of _ "[]"])
qed

subsection \<open>The fields of the packed line control byte\<close>

lemma byte_5_to_8: "\<not> (d < 5 \<or> 8 < d) \<Longrightarrow> d = 5 \<or> d = 6 \<or> d = 7 \<or> d = 8" for d :: UINT8
proof -
  assume "\<not> (d < 5 \<or> 8 < d)"
  then have b: "5 \<le> unat d" "unat d \<le> 8" by (simp_all add: word_less_nat_alt not_less)
  define n where "n = unat d"
  have d: "d = of_nat n" by (simp add: n_def)
  from b have "5 \<le> n" "n \<le> 8" by (simp_all add: n_def)
  then have "n = 5 \<or> n = 6 \<or> n = 7 \<or> n = 8" by presburger
  then show ?thesis unfolding d by auto
qed

lemma ResolveDataBits_field:
  "ResolveDataBits p a = Some (c, a') \<Longrightarrow> c AND 0xFC = 0"
proof -
  assume r: "ResolveDataBits p a = Some (c, a')"
  show ?thesis
  proof (cases "DataBits a = 0")
    case True
    with r have "c = PcdSerialLineControl p AND 0x3" by (auto simp: ResolveDataBits_def Let_def)
    then show ?thesis by (simp add: byte_eq_iff bit_and_iff)
  next
    case False
    with r have n: "\<not> (DataBits a < 5 \<or> 8 < DataBits a)" and c: "c = DataBits a - 5"
      by (auto simp: ResolveDataBits_def Let_def split: if_splits)
    from byte_5_to_8 [OF n] c show ?thesis by auto
  qed
qed

lemma ResolveStopBits_field:
  "ResolveStopBits p a = Some (c, a') \<Longrightarrow> c AND 0xFE = 0"
proof -
  assume r: "ResolveStopBits p a = Some (c, a')"
  have m: "(x AND 0x1) AND 0xFE = 0" for x :: UINT8 by (simp add: byte_eq_iff bit_and_iff)
  from r show ?thesis
    by (cases "StopBits a") (auto simp: ResolveStopBits_def Let_def m split: if_splits)
qed

lemma parity_field:
  fixes c1 c2 c3 :: UINT8
  assumes "c1 AND 0xFC = 0" and "c3 AND 0xFE = 0"
  shows "drop_bit 3 ((push_bit 3 c2 OR push_bit 2 c3 OR c1) AND 0x3F) = c2 AND 0x7"
proof -
  from assms(1) have 1: "\<not> bit c1 3" "\<not> bit c1 4" "\<not> bit c1 5"
    by (simp_all add: byte_eq_iff bit_and_iff)
  from assms(2) have 3: "\<not> bit c3 (Suc 0)" "\<not> bit c3 2" "\<not> bit c3 3"
    by (simp_all add: byte_eq_iff bit_and_iff)
  show ?thesis
    by (simp add: byte_eq_iff bit_and_iff bit_or_iff bit_push_bit_iff bit_drop_bit_eq 1 3)
qed

lemma and_7_7: "(x AND 0x7) AND 0x7 = x AND 0x7" for x :: UINT8
  by (simp add: byte_eq_iff bit_and_iff)

lemma SetAttributes_default_parity_field:
  assumes mini: "\<not> UsePl011Uart s" and par: "Parity a = DefaultParity"
    and code: "drop_bit 3 (PcdSerialLineControl p) AND 0x7 \<in> {2, 4, 6}"
    and ok: "\<not> InvalidAttributes a"
    and d: "fst (SerialPortGetDivisor p hw (ucast (BaudRate (DefaultedBaudRate p a))) s) = Some Divisor"
  shows "\<exists>a' Lcr.
      SerialPortSetAttributes p hw a s =
        (Returned (RETURN_SUCCESS, a'),
         (AfterClockRead p hw s)\<lparr>trace := trace (AfterClockRead p hw s) @
            map (\<lambda>(a, v). Wr8 a v) (SetAttributesWrites p Divisor Lcr)\<rparr>) \<and>
      Parity a' = DefaultParity \<and>
      drop_bit 3 Lcr = drop_bit 3 (PcdSerialLineControl p) AND 0x7"
proof -
  from Resolve_valid [OF ok, of p] obtain c1 a1 c2 a2 c3 a3 where
    1: "ResolveDataBits p (DefaultedBaudRate p a) = Some (c1, a1)"
    and 2: "ResolveParity p a1 = Some (c2, a2)"
    and 3: "ResolveStopBits p a2 = Some (c3, a3)" by blast
  have p1: "Parity a1 = DefaultParity" using ResolveDataBits_keeps [OF 1] par by simp
  from 2 have c2: "c2 = drop_bit 3 (PcdSerialLineControl p) AND 0x7"
    unfolding ResolveParity_default [OF p1, of p] by (auto simp: Let_def)
  from code have "Parity a2 = DefaultParity"
    using 2 unfolding ResolveParity_default [OF p1, of p] by (auto simp: Let_def p1)
  then have p3: "Parity a3 = DefaultParity" using ResolveStopBits_keeps_parity [OF 3] by simp
  let ?Lcr = "(push_bit 3 c2 OR push_bit 2 c3 OR c1) AND 0x3F"
  have "drop_bit 3 ?Lcr = c2 AND 0x7"
    using ResolveDataBits_field [OF 1] ResolveStopBits_field [OF 3] by (rule parity_field)
  then have f: "drop_bit 3 ?Lcr = drop_bit 3 (PcdSerialLineControl p) AND 0x7"
    by (simp only: c2 and_7_7)
  have "SerialPortSetAttributes p hw a s =
        (Returned (RETURN_SUCCESS, a3),
         (AfterClockRead p hw s)\<lparr>trace := trace (AfterClockRead p hw s) @
            map (\<lambda>(a, v). Wr8 a v) (SetAttributesWrites p Divisor ?Lcr)\<rparr>)"
    by (simp add: SetAttributes_unfold [OF mini] 1 2 3 d)
  with p3 f show ?thesis by blast
qed

lemma SetAttributes_nine_data_bits:
  "SerialPortSetAttributes rpi3_parity_code2 idle_mini_uart nine_data_bits on_mini_uart =
     (Returned (RETURN_INVALID_PARAMETER, nine_data_bits), on_mini_uart)"
proof -
  have "DefaultedBaudRate rpi3_parity_code2 nine_data_bits = nine_data_bits"
    by (simp add: DefaultedBaudRate_def nine_data_bits_def)
  moreover have "ResolveDataBits rpi3_parity_code2 nine_data_bits = None"
    by (simp add: ResolveDataBits_None nine_data_bits_def)
  ultimately show ?thesis by (simp add: SetAttributes_unfold [OF on_mini_uart_mini(1)])
qed

subsection \<open>All stores of SerialPortInitialize and SerialPortSetAttributes\<close>

lemma writes_AfterClockRead [simp]: "writes (trace (AfterClockRead p hw s)) = writes (trace s)"
  by (simp add: AfterClockRead_def)




subsection \<open>The registers of the mini UART lie at different addresses\<close>



section \<open>The remaining claims\<close>

text \<open>
  C10, as amended. On the mini UART path, when \<^verbatim>\<open>SerialPortSetAttributes\<close> is called with the
  parity sentinel and the parity field of the line control PCD holds 2, 4 or 6, codes that no
  parity value encodes to, and when the other parameters pass their own checks (the data
  bits are the sentinel or within 5..8, the stop bits are a value of the enumeration, and
  the baud rate times 16 is not zero in 32 bits), the call returns \<^verbatim>\<open>RETURN_SUCCESS\<close>
  and makes its four stores, the line control byte stored carrying that parity code, and
  \<^verbatim>\<open>*Parity\<close> is still \<^verbatim>\<open>DefaultParity\<close> on return.
\<close>

theorem default_parity_without_inverse:
  assumes "\<not> UsePl011Uart s" and "Parity a = DefaultParity"
    and "drop_bit 3 (PcdSerialLineControl p) AND 0x7 \<in> {2, 4, 6}"
    and "\<not> InvalidAttributes a"
    and "fst (SerialPortGetDivisor p hw (ucast (BaudRate (DefaultedBaudRate p a))) s) = Some Divisor"
  shows "\<exists>a' Lcr.
      SerialPortSetAttributes p hw a s =
        (Returned (RETURN_SUCCESS, a'),
         (AfterClockRead p hw s)\<lparr>trace := trace (AfterClockRead p hw s) @
            map (\<lambda>(a, v). Wr8 a v) (SetAttributesWrites p Divisor Lcr)\<rparr>) \<and>
      Parity a' = DefaultParity \<and>
      drop_bit 3 Lcr = drop_bit 3 (PcdSerialLineControl p) AND 0x7"
  using assms by (rule SetAttributes_default_parity_field)

theorem default_parity_without_inverse_witness:
  "\<not> UsePl011Uart on_mini_uart \<and> Parity all_defaults = DefaultParity \<and>
   drop_bit 3 (PcdSerialLineControl rpi3_parity_code2) AND 0x7 = 2 \<and>
   \<not> InvalidAttributes all_defaults \<and>
   fst (SerialPortGetDivisor rpi3_parity_code2 idle_mini_uart
          (ucast (BaudRate (DefaultedBaudRate rpi3_parity_code2 all_defaults))) on_mini_uart) = Some 217 \<and>
   (\<exists>a' Lcr.
      SerialPortSetAttributes rpi3_parity_code2 idle_mini_uart all_defaults on_mini_uart =
        (Returned (RETURN_SUCCESS, a'),
         (AfterClockRead rpi3_parity_code2 idle_mini_uart on_mini_uart)
           \<lparr>trace := trace (AfterClockRead rpi3_parity_code2 idle_mini_uart on_mini_uart) @
              map (\<lambda>(a, v). Wr8 a v) (SetAttributesWrites rpi3_parity_code2 217 Lcr)\<rparr>) \<and>
      Parity a' = DefaultParity \<and> drop_bit 3 Lcr = 2)"
proof -
  have c: "drop_bit 3 (PcdSerialLineControl rpi3_parity_code2) AND 0x7 = 2"
    by (simp add: rpi3_parity_code2_def drop_bit_eq_div)
  then have c': "drop_bit 3 (PcdSerialLineControl rpi3_parity_code2) AND 0x7 \<in> {2, 4, 6}"
    by simp
  have v: "\<not> InvalidAttributes all_defaults"
    by (simp add: InvalidAttributes_def all_defaults_def)
  have "(ucast (BaudRate (DefaultedBaudRate rpi3_parity_code2 all_defaults)) :: UINT32) = 115200"
    by (simp add: DefaultedBaudRate_def all_defaults_def rpi3_parity_code2_def rpi3_def)
  then have d: "fst (SerialPortGetDivisor rpi3_parity_code2 idle_mini_uart
          (ucast (BaudRate (DefaultedBaudRate rpi3_parity_code2 all_defaults))) on_mini_uart) = Some 217"
    by (simp add: SerialPortGetDivisor_def MmioRead32_def Let_def rpi3_parity_code2_def rpi3_def
        idle_mini_uart_def)
  show ?thesis
    using default_parity_without_inverse [OF on_mini_uart_mini(1) all_defaults_sentinels(3) c' v d]
      on_mini_uart_mini(1) all_defaults_sentinels(3) v d
    unfolding c by blast
qed

theorem default_parity_nine_data_bits_counterexample:
  "\<not> UsePl011Uart on_mini_uart \<and> Parity nine_data_bits = DefaultParity \<and>
   DataBits nine_data_bits = 9 \<and>
   drop_bit 3 (PcdSerialLineControl rpi3_parity_code2) AND 0x7 = 2 \<and>
   SerialPortSetAttributes rpi3_parity_code2 idle_mini_uart nine_data_bits on_mini_uart =
     (Returned (RETURN_INVALID_PARAMETER, nine_data_bits), on_mini_uart) \<and>
   trace on_mini_uart = []"
proof -
  have c: "drop_bit 3 (PcdSerialLineControl rpi3_parity_code2) AND 0x7 = 2"
    by (simp add: rpi3_parity_code2_def drop_bit_eq_div)
  have "Parity nine_data_bits = DefaultParity" "DataBits nine_data_bits = 9"
    by (simp_all add: nine_data_bits_def)
  with c show ?thesis
    by (simp add: SetAttributes_nine_data_bits on_mini_uart_mini)
qed

subsection \<open>Facts about the concrete boards\<close>

lemma FirstAt_unique: "FirstAt P t j \<Longrightarrow> FirstAt P t k \<Longrightarrow> j = k"
  by (metis FirstAt_def linorder_neqE_nat)

lemma busy_is_mini: "\<not> UsePl011Uart (DetectUart rpi3 busy_then_idle unprobed)"
  by (simp add: DetectUart_def MmioRead32_def Let_def unprobed_def busy_then_idle_def
      idle_mini_uart_def rpi3_def)

lemma busy_transmitter: "TransmitterEmptyAt rpi3 busy_then_idle t \<longleftrightarrow> 3 \<le> t"
  by (simp add: TransmitterEmptyAt_def rd8_def mini_rpi3 busy_then_idle_def idle_mini_uart_def
      B_UART_LSR_TEMT_def B_UART_LSR_TXRDY_def)

lemma busy_transmitter_empty: "recurs (TransmitterEmptyAt rpi3 busy_then_idle)"
proof -
  have "\<exists>k. 3 \<le> t + k" for t :: nat by (rule exI [of _ 3]) simp
  then show ?thesis by (simp add: recurs_def busy_transmitter)
qed

lemma busy_writable: "recurs (WritableAt rpi3 busy_then_idle)"
  by (simp add: recurs_def WritableAt_def rpi3_def)

lemma trace_DetectUart_unprobed:
  "trace (DetectUart p hw unprobed) = [Rd32 (GpioFunctionSelect p) (hw 0 (GpioFunctionSelect p))]"
  by (simp add: DetectUart_def MmioRead32_def Let_def unprobed_def GpioFunctionSelect_def)

lemma Gpio_rpi3: "GpioFunctionSelect rpi3 = 0x3F200004"
  by (simp add: GpioFunctionSelect_def rpi3_def)

lemma flow_rpi3: "\<not> PcdSerialUseHardwareFlowControl rpi3" by (simp add: rpi3_def)

lemma mini_rpi3_flow: "mini rpi3_flow r = mini rpi3 r"
  by (simp add: mini_def reg_def MINI_UART_REGISTER_BASE_def rpi3_flow_def)

lemma flow_is_mini: "\<not> UsePl011Uart (DetectUart rpi3_flow idle_mini_uart unprobed)"
  by (simp add: DetectUart_def MmioRead32_def Let_def unprobed_def idle_mini_uart_def
      rpi3_flow_def rpi3_def)

lemma flow_transmitter: "TransmitterEmptyAt rpi3_flow idle_mini_uart t"
  by (simp add: TransmitterEmptyAt_def rd8_def mini_rpi3_flow mini_rpi3 idle_mini_uart_def
      B_UART_LSR_TEMT_def B_UART_LSR_TXRDY_def)

lemma flow_rpi3_flow:
  "PcdSerialUseHardwareFlowControl rpi3_flow" "GpioFunctionSelect rpi3_flow = 0x3F200004"
  "PcdSerialDetectCable rpi3_flow"
  by (simp_all add: rpi3_flow_def GpioFunctionSelect_def rpi3_def)

lemma flow_writable_at: "WritableAt rpi3_flow idle_mini_uart t"
  by (simp add: WritableAt_def rd8_def mini_rpi3_flow mini_rpi3 idle_mini_uart_def flow_rpi3_flow
      B_UART_MSR_DSR_def B_UART_MSR_CTS_def)

lemma flow_transmitter_empty: "recurs (TransmitterEmptyAt rpi3_flow idle_mini_uart)"
  by (simp add: recurs_def flow_transmitter)

lemma flow_writable: "recurs (WritableAt rpi3_flow idle_mini_uart)"
  by (simp add: recurs_def flow_writable_at)

lemma idle_transmitter: "TransmitterEmptyAt rpi3 idle_mini_uart t"
  by (simp add: TransmitterEmptyAt_def rd8_def mini_rpi3 idle_mini_uart_def
      B_UART_LSR_TEMT_def B_UART_LSR_TXRDY_def)

subsection \<open>Runs on the concrete boards\<close>

lemma run_Write_letters:
  "map_option (\<lambda>r. trace (snd r)) (SerialPortWrite rpi3 idle_mini_uart (Some letters) 3 unprobed) =
     Some [Rd32 0x3F200004 0x12000, Rd8 0x3F215054 0x60,
           Wr8 0x3F215040 0x55, Wr8 0x3F215040 0x55, Wr8 0x3F215040 0x55]"
  by code_simp

lemma run_Read_two:
  "map_option (\<lambda>r. trace (snd r))
     (SerialPortRead rpi3 receiving_mini_uart (Some letters) 2 unprobed) =
     Some [Rd8 0x3F215050 0, Rd8 0x3F215054 0x61, Rd8 0x3F215040 0x41,
           Rd8 0x3F215054 0x61, Rd8 0x3F215040 0x41]"
  by code_simp


lemma run_Poll: "trace (snd (SerialPortPoll rpi3 idle_mini_uart unprobed)) = [Rd8 0x3F215054 0x60]"
  by code_simp


lemma run_SetControl:
  "trace (snd (SerialPortSetControl rpi3 uefi_bits idle_mini_uart 0x0002 unprobed)) =
     [Rd8 0x3F215050 0, Wr8 0x3F215050 0x02]"
  "trace (snd (SerialPortSetControl rpi3 uefi_bits idle_mini_uart 0x0002 on_mini_uart)) =
     [Rd8 0x3F215050 0, Wr8 0x3F215050 0x02]"
  by code_simp+

lemma run_GetControl:
  "trace (snd (SerialPortGetControl rpi3 uefi_bits idle_mini_uart unprobed)) =
     [Rd8 0x3F215058 0x30, Rd8 0x3F215050 0, Rd8 0x3F215054 0x60]"
  "trace (snd (SerialPortGetControl rpi3 uefi_bits idle_mini_uart on_mini_uart)) =
     [Rd8 0x3F215058 0x30, Rd8 0x3F215050 0, Rd8 0x3F215054 0x60]"
  by code_simp+

lemma run_SetAttributes:
  "trace (snd (SerialPortSetAttributes rpi3 idle_mini_uart explicit_8n1 unprobed)) =
     [Rd32 0x3F101008 0x5000, Wr8 0x3F21504C 0x80, Wr8 0x3F215044 0, Wr8 0x3F215040 0xD9,
      Wr8 0x3F21504C 0x03]"
  by code_simp


text \<open>
  C5, as amended. On the mini UART path with a buffer that is not \<^verbatim>\<open>NULL\<close>, on hardware
  that keeps reporting an empty transmitter and a writable line, and for \<open>n > 0\<close> with
  a transmit FIFO size that is not zero: \<^verbatim>\<open>SerialPortWrite (Buffer, n)\<close> returns \<open>n\<close>, and
  its stores are the first \<open>n\<close> bytes of the buffer, in order, each to the transmit buffer
  register. After the variant detection the call first loads the line status register
  until the load that shows the transmitter empty, and everything it does after that is
  a load of the line status register, a load of the modem status register, or a store to
  the transmit buffer register. For \<open>n = 0\<close> it returns 0 and stores nothing: after the
  line status loads it makes no access without hardware flow control, and with it loads
  the modem status register until the load that shows the line writable.
\<close>

theorem SerialPortWrite_sends_buffer:
  assumes mini: "\<not> UsePl011Uart (DetectUart p hw s)"
    and tx: "recurs (TransmitterEmptyAt p hw)" and wr: "recurs (WritableAt p hw)"
    and size: "n = 0 \<or> 0 < FifoSize p"
  shows "\<exists>s' j es.
      SerialPortWrite p hw (Some Buffer) n s = Some (Returned n, s') \<and>
      writes (trace s') = writes (trace s) @ TxBytes p Buffer n \<and>
      FirstAt (TransmitterEmptyAt p hw) (length (trace (DetectUart p hw s))) j \<and>
      trace s' = trace (DetectUart p hw s) @
        Polls hw (mini p R_UART_LSR) (length (trace (DetectUart p hw s))) (Suc j) @ es \<and>
      set es \<subseteq> WriteAccesses p \<and>
      (n = 0 \<longrightarrow>
         (if PcdSerialUseHardwareFlowControl p
          then \<exists>k. FirstAt (WritableAt p hw) (length (trace (DetectUart p hw s)) + Suc j) k \<and>
                 es = Polls hw (mini p R_UART_MSR) (length (trace (DetectUart p hw s)) + Suc j) (Suc k)
          else es = []))"
  using assms by (rule Write_mini_run)

theorem SerialPortWrite_sends_buffer_witness:
  "\<not> UsePl011Uart (DetectUart rpi3 idle_mini_uart unprobed) \<and>
   recurs (TransmitterEmptyAt rpi3 idle_mini_uart) \<and> recurs (WritableAt rpi3 idle_mini_uart) \<and>
   0 < FifoSize rpi3 \<and>
   (\<exists>s' es. SerialPortWrite rpi3 idle_mini_uart (Some letters) 3 unprobed = Some (Returned 3, s') \<and>
      writes (trace s') = [(0x3F215040, 0x55), (0x3F215040, 0x55), (0x3F215040, 0x55)] \<and>
      trace s' = [Rd32 0x3F200004 0x12000, Rd8 0x3F215054 0x60] @ es \<and>
      set es \<subseteq> WriteAccesses rpi3 \<and>
      es = [Wr8 0x3F215040 0x55, Wr8 0x3F215040 0x55, Wr8 0x3F215040 0x55]) \<and>
   \<not> UsePl011Uart (DetectUart rpi3 busy_then_idle unprobed) \<and>
   recurs (TransmitterEmptyAt rpi3 busy_then_idle) \<and> recurs (WritableAt rpi3 busy_then_idle) \<and>
   \<not> PcdSerialUseHardwareFlowControl rpi3 \<and>
   (\<exists>s'. SerialPortWrite rpi3 busy_then_idle (Some letters) 0 unprobed = Some (Returned 0, s') \<and>
      trace s' = [Rd32 0x3F200004 0x12000, Rd8 0x3F215054 0, Rd8 0x3F215054 0, Rd8 0x3F215054 0x60]) \<and>
   \<not> UsePl011Uart (DetectUart rpi3_flow idle_mini_uart unprobed) \<and>
   recurs (TransmitterEmptyAt rpi3_flow idle_mini_uart) \<and>
   recurs (WritableAt rpi3_flow idle_mini_uart) \<and>
   PcdSerialUseHardwareFlowControl rpi3_flow \<and>
   (\<exists>s'. SerialPortWrite rpi3_flow idle_mini_uart (Some letters) 0 unprobed = Some (Returned 0, s') \<and>
      trace s' = [Rd32 0x3F200004 0x12000, Rd8 0x3F215054 0x60, Rd8 0x3F215058 0x30])"
proof -
  have f: "(3::nat) = 0 \<or> 0 < FifoSize rpi3" by (simp add: FifoSize_rpi3)
  have z: "(0::nat) = 0 \<or> 0 < FifoSize q" for q by simp
  have t: "TxBytes rpi3 letters 3 = [(0x3F215040, 0x55), (0x3F215040, 0x55), (0x3F215040, 0x55)]"
    by (simp add: TxBytes_def letters_def mini_def reg_def MINI_UART_REGISTER_BASE_def rpi3_def
        R_UART_TXBUF_def upt_rec)
  have i0: "idle_mini_uart 0 0x3F200004 = 0x12000" by (simp add: idle_mini_uart_def)
  have b0: "busy_then_idle 0 0x3F200004 = 0x12000"
    by (simp add: busy_then_idle_def idle_mini_uart_def)
  have 1: "\<exists>s' es. SerialPortWrite rpi3 idle_mini_uart (Some letters) 3 unprobed = Some (Returned 3, s') \<and>
      writes (trace s') = [(0x3F215040, 0x55), (0x3F215040, 0x55), (0x3F215040, 0x55)] \<and>
      trace s' = [Rd32 0x3F200004 0x12000, Rd8 0x3F215054 0x60] @ es \<and>
      set es \<subseteq> WriteAccesses rpi3 \<and>
      es = [Wr8 0x3F215040 0x55, Wr8 0x3F215040 0x55, Wr8 0x3F215040 0x55]"
  proof -
    from SerialPortWrite_sends_buffer [OF idle_is_mini idle_transmitter_empty idle_writable f,
        where Buffer = letters]
    obtain s' j es where
      r: "SerialPortWrite rpi3 idle_mini_uart (Some letters) 3 unprobed = Some (Returned 3, s')"
      and w: "writes (trace s') = writes (trace unprobed) @ TxBytes rpi3 letters 3"
      and j: "FirstAt (TransmitterEmptyAt rpi3 idle_mini_uart)
                (length (trace (DetectUart rpi3 idle_mini_uart unprobed))) j"
      and tr: "trace s' = trace (DetectUart rpi3 idle_mini_uart unprobed) @
          Polls idle_mini_uart (mini rpi3 R_UART_LSR)
            (length (trace (DetectUart rpi3 idle_mini_uart unprobed))) (Suc j) @ es"
      and es: "set es \<subseteq> WriteAccesses rpi3"
      by blast
    have "FirstAt (TransmitterEmptyAt rpi3 idle_mini_uart)
            (length (trace (DetectUart rpi3 idle_mini_uart unprobed))) 0"
      by (simp add: FirstAt_def idle_transmitter)
    with j have "j = 0" by (rule FirstAt_unique)
    with tr have e: "trace s' = [Rd32 0x3F200004 0x12000, Rd8 0x3F215054 0x60] @ es"
      by (simp add: trace_DetectUart_unprobed Gpio_rpi3 i0 Polls_def mini_rpi3 rd8_def
          idle_mini_uart_def)
    from run_Write_letters r e
    have "es = [Wr8 0x3F215040 0x55, Wr8 0x3F215040 0x55, Wr8 0x3F215040 0x55]" by simp
    note e
    moreover note \<open>es = [Wr8 0x3F215040 0x55, Wr8 0x3F215040 0x55, Wr8 0x3F215040 0x55]\<close>
    moreover from w have "writes (trace s') = [(0x3F215040, 0x55), (0x3F215040, 0x55), (0x3F215040, 0x55)]"
      by (simp add: t unprobed_def)
    ultimately show ?thesis using r es by blast
  qed
  have 2: "\<exists>s'. SerialPortWrite rpi3 busy_then_idle (Some letters) 0 unprobed = Some (Returned 0, s') \<and>
      trace s' = [Rd32 0x3F200004 0x12000, Rd8 0x3F215054 0, Rd8 0x3F215054 0, Rd8 0x3F215054 0x60]"
  proof -
    from SerialPortWrite_sends_buffer [OF busy_is_mini busy_transmitter_empty busy_writable z,
        where Buffer = letters]
    obtain s' j es where
      r: "SerialPortWrite rpi3 busy_then_idle (Some letters) 0 unprobed = Some (Returned 0, s')"
      and j: "FirstAt (TransmitterEmptyAt rpi3 busy_then_idle)
                (length (trace (DetectUart rpi3 busy_then_idle unprobed))) j"
      and tr: "trace s' = trace (DetectUart rpi3 busy_then_idle unprobed) @
          Polls busy_then_idle (mini rpi3 R_UART_LSR)
            (length (trace (DetectUart rpi3 busy_then_idle unprobed))) (Suc j) @ es"
      and es: "es = []"
      using flow_rpi3 by auto
    have "FirstAt (TransmitterEmptyAt rpi3 busy_then_idle)
            (length (trace (DetectUart rpi3 busy_then_idle unprobed))) 2"
      by (auto simp: FirstAt_def busy_transmitter trace_DetectUart_unprobed)
    with j have "j = 2" by (rule FirstAt_unique)
    with tr es have "trace s' =
        [Rd32 0x3F200004 0x12000, Rd8 0x3F215054 0, Rd8 0x3F215054 0, Rd8 0x3F215054 0x60]"
      by (simp add: trace_DetectUart_unprobed Gpio_rpi3 b0 Polls_def mini_rpi3 rd8_def
          busy_then_idle_def idle_mini_uart_def upt_rec)
    with r show ?thesis by blast
  qed
  have 3: "\<exists>s'. SerialPortWrite rpi3_flow idle_mini_uart (Some letters) 0 unprobed = Some (Returned 0, s') \<and>
      trace s' = [Rd32 0x3F200004 0x12000, Rd8 0x3F215054 0x60, Rd8 0x3F215058 0x30]"
  proof -
    from SerialPortWrite_sends_buffer [OF flow_is_mini flow_transmitter_empty flow_writable z,
        where Buffer = letters]
    obtain s' j es k where
      r: "SerialPortWrite rpi3_flow idle_mini_uart (Some letters) 0 unprobed = Some (Returned 0, s')"
      and j: "FirstAt (TransmitterEmptyAt rpi3_flow idle_mini_uart)
                (length (trace (DetectUart rpi3_flow idle_mini_uart unprobed))) j"
      and tr: "trace s' = trace (DetectUart rpi3_flow idle_mini_uart unprobed) @
          Polls idle_mini_uart (mini rpi3_flow R_UART_LSR)
            (length (trace (DetectUart rpi3_flow idle_mini_uart unprobed))) (Suc j) @ es"
      and k: "FirstAt (WritableAt rpi3_flow idle_mini_uart)
                (length (trace (DetectUart rpi3_flow idle_mini_uart unprobed)) + Suc j) k"
      and es: "es = Polls idle_mini_uart (mini rpi3_flow R_UART_MSR)
                (length (trace (DetectUart rpi3_flow idle_mini_uart unprobed)) + Suc j) (Suc k)"
      using flow_rpi3_flow(1) by auto
    have "FirstAt (TransmitterEmptyAt rpi3_flow idle_mini_uart)
            (length (trace (DetectUart rpi3_flow idle_mini_uart unprobed))) 0"
      by (simp add: FirstAt_def flow_transmitter)
    with j have j0: "j = 0" by (rule FirstAt_unique)
    have "FirstAt (WritableAt rpi3_flow idle_mini_uart)
            (length (trace (DetectUart rpi3_flow idle_mini_uart unprobed)) + Suc j) 0"
      by (simp add: FirstAt_def flow_writable_at)
    with k have k0: "k = 0" by (rule FirstAt_unique)
    from tr es j0 k0 have "trace s' =
        [Rd32 0x3F200004 0x12000, Rd8 0x3F215054 0x60, Rd8 0x3F215058 0x30]"
      by (simp add: trace_DetectUart_unprobed flow_rpi3_flow(2) i0 Polls_def mini_rpi3_flow mini_rpi3
          rd8_def idle_mini_uart_def)
    with r show ?thesis by blast
  qed
  from 1 2 3 idle_is_mini idle_transmitter_empty idle_writable FifoSize_rpi3 busy_is_mini
    busy_transmitter_empty busy_writable flow_rpi3 flow_is_mini flow_transmitter_empty
    flow_writable flow_rpi3_flow(1)
  show ?thesis by simp
qed

theorem SerialPortWrite_zero_fifo_counterexample:
  "recurs (TransmitterEmptyAt rpi3_fifo0 idle_mini_uart) \<and>
   recurs (WritableAt rpi3_fifo0 idle_mini_uart) \<and>
   SerialPortWrite rpi3_fifo0 idle_mini_uart (Some letters) 1 unprobed = None"
proof -
  have tx: "recurs (TransmitterEmptyAt rpi3_fifo0 idle_mini_uart)"
    by (simp add: recurs_def TransmitterEmptyAt_def rd8_def mini_def reg_def
        MINI_UART_REGISTER_BASE_def rpi3_fifo0_def rpi3_def idle_mini_uart_def R_UART_LSR_def
        B_UART_LSR_TEMT_def B_UART_LSR_TXRDY_def)
  have wr: "recurs (WritableAt rpi3_fifo0 idle_mini_uart)"
    by (simp add: recurs_def WritableAt_def rpi3_fifo0_def rpi3_def)
  have m: "\<not> UsePl011Uart (DetectUart rpi3_fifo0 idle_mini_uart unprobed)"
    by (simp add: DetectUart_def MmioRead32_def Let_def unprobed_def idle_mini_uart_def
        rpi3_fifo0_def rpi3_def)
  have z: "FifoSize rpi3_fifo0 = 0"
    by (simp add: FifoSize_def rpi3_fifo0_def rpi3_def B_UART_FCR_FIFOE_def B_UART_FCR_FIFO64_def)
  have "WriteLoop rpi3_fifo0 idle_mini_uart (MINI_UART_REGISTER_BASE rpi3_fifo0) 0 1 letters
          (DetectUart rpi3_fifo0 idle_mini_uart unprobed) = None"
  proof (cases "WriteLoop rpi3_fifo0 idle_mini_uart (MINI_UART_REGISTER_BASE rpi3_fifo0) 0 1 letters
          (DetectUart rpi3_fifo0 idle_mini_uart unprobed)")
    case None then show ?thesis .
  next
    case (Some s')
    from WriteLoop_spins [OF this] show ?thesis by simp
  qed
  then have "SerialPortWrite rpi3_fifo0 idle_mini_uart (Some letters) 1 unprobed = None"
    using m by (simp add: SerialPortWrite_def Let_def z)
  with tx wr show ?thesis by simp
qed

lemma receiving_ready: "ReceiveReadyAt rpi3 receiving_mini_uart t"
  by (simp add: ReceiveReadyAt_def rd8_def mini_rpi3 receiving_mini_uart_def B_UART_LSR_RXRDY_def)







lemma Poll_pl011:
  "UsePl011Uart s \<Longrightarrow>
   SerialPortPoll p hw s = (Forwarded (PL011UartPoll (PL011_UART_REGISTER_BASE p)), s)"
  by (simp add: SerialPortPoll_def)

lemma GetControl_pl011:
  "UsePl011Uart s \<Longrightarrow>
   SerialPortGetControl p b hw s = (Forwarded (PL011UartGetControl (PL011_UART_REGISTER_BASE p)), s)"
  by (simp add: SerialPortGetControl_def)

lemma SetControl_pl011:
  "UsePl011Uart s \<Longrightarrow>
   SerialPortSetControl p b hw Control s =
     (Forwarded (PL011UartSetControl (PL011_UART_REGISTER_BASE p) Control), s)"
  by (simp add: SerialPortSetControl_def)

lemma SetAttributes_pl011:
  "UsePl011Uart s \<Longrightarrow>
   SerialPortSetAttributes p hw a s =
     (Forwarded (PL011UartInitializePort (PL011_UART_REGISTER_BASE p) a), s)"
  by (simp add: SerialPortSetAttributes_def)

lemma unprobed_flags: "\<not> UsePl011UartSet unprobed" "\<not> UsePl011Uart unprobed"
  by (simp_all add: unprobed_def)

lemma on_pl011_flags: "UsePl011Uart on_pl011" by (simp add: on_pl011_def)

lemma PL011_rpi3: "PL011_UART_REGISTER_BASE rpi3 = 0x3F201000"
  by (simp add: PL011_UART_REGISTER_BASE_def rpi3_def)

text \<open>
  C1, as amended. From a state in which no detection has run, \<^verbatim>\<open>SerialPortInitialize\<close> and
  \<^verbatim>\<open>SerialPortWrite\<close> detect the variant before they branch: their first access is the
  load of the GPIO function select register, and afterwards \<^verbatim>\<open>UsePl011UartSet\<close> is true
  and \<^verbatim>\<open>UsePl011Uart\<close> says whether that register, masked with \<open>0x0003F000\<close>, read
  \<open>0x00024000\<close>. The other five operations do not detect, and branch on
  \<^verbatim>\<open>UsePl011Uart\<close> as it stands. When it is true, \<^verbatim>\<open>SerialPortRead\<close>,
  \<^verbatim>\<open>SerialPortPoll\<close>, \<^verbatim>\<open>SerialPortGetControl\<close>, \<^verbatim>\<open>SerialPortSetControl\<close> and
  \<^verbatim>\<open>SerialPortSetAttributes\<close> hand over to the PL011 library at once, in the state they
  were called in. When it is false none of them hands over, both flags stay as they were,
  and the accesses of the first four are 8-bit loads and stores of registers of the mini
  UART, so that none is the 32-bit load of the probe; \<^verbatim>\<open>SerialPortSetAttributes\<close> either
  makes no access, or loads the clock divider and then only stores. The two detecting
  operations return on hardware that keeps answering their busy-wait loops, and
  \<^verbatim>\<open>SerialPortRead\<close> returns on hardware that always has a byte waiting.
\<close>

theorem detection_in_Initialize_and_Write_only:
  "(\<not> UsePl011UartSet s \<longrightarrow>
      (\<forall>r s'. SerialPortInitialize p hw s = Some (r, s') \<longrightarrow> Detected p hw s s') \<and>
      (\<forall>r s'. SerialPortWrite p hw Buffer n s = Some (r, s') \<longrightarrow> Detected p hw s s')) \<and>
   (UsePl011Uart s \<longrightarrow>
      SerialPortRead p hw Buffer n s =
        Some (Forwarded (PL011UartRead (PL011_UART_REGISTER_BASE p) Buffer n), s) \<and>
      SerialPortPoll p hw s = (Forwarded (PL011UartPoll (PL011_UART_REGISTER_BASE p)), s) \<and>
      SerialPortGetControl p b hw s =
        (Forwarded (PL011UartGetControl (PL011_UART_REGISTER_BASE p)), s) \<and>
      SerialPortSetControl p b hw Control s =
        (Forwarded (PL011UartSetControl (PL011_UART_REGISTER_BASE p) Control), s) \<and>
      SerialPortSetAttributes p hw a s =
        (Forwarded (PL011UartInitializePort (PL011_UART_REGISTER_BASE p) a), s)) \<and>
   (\<not> UsePl011Uart s \<longrightarrow>
      (\<forall>r s'. SerialPortRead p hw Buffer n s = Some (r, s') \<longrightarrow>
         (\<exists>x. r = Returned x) \<and> within (ReadAccesses p) s s') \<and>
      ((\<exists>x. fst (SerialPortPoll p hw s) = Returned x) \<and>
       within (PollAccesses p) s (snd (SerialPortPoll p hw s))) \<and>
      ((\<exists>x. fst (SerialPortGetControl p b hw s) = Returned x) \<and>
       within (GetControlAccesses p) s (snd (SerialPortGetControl p b hw s))) \<and>
      ((\<exists>x. fst (SerialPortSetControl p b hw Control s) = Returned x) \<and>
       within (SetControlAccesses p) s (snd (SerialPortSetControl p b hw Control s))) \<and>
      ((\<forall>c. fst (SerialPortSetAttributes p hw a s) \<noteq> Forwarded c) \<and>
       (snd (SerialPortSetAttributes p hw a s) = s \<or>
        (\<exists>ws. snd (SerialPortSetAttributes p hw a s) =
           (AfterClockRead p hw s)\<lparr>trace := trace (AfterClockRead p hw s) @
              map (\<lambda>(a, v). Wr8 a v) ws\<rparr>)))) \<and>
   (\<forall>x v. Rd32 x v \<notin> ReadAccesses p \<union> PollAccesses p \<union> GetControlAccesses p \<union>
             SetControlAccesses p) \<and>
   (recurs (TransmitterEmptyAt p hw) \<longrightarrow>
      (\<exists>r s'. SerialPortInitialize p hw s = Some (r, s'))) \<and>
   (recurs (TransmitterEmptyAt p hw) \<and> recurs (WritableAt p hw) \<and> 0 < FifoSize p \<longrightarrow>
      (\<exists>r s'. SerialPortWrite p hw Buffer n s = Some (r, s'))) \<and>
   ((\<forall>t. ReceiveReadyAt p hw t) \<longrightarrow> (\<exists>r s'. SerialPortRead p hw Buffer n s = Some (r, s')))"
proof (intro conjI impI allI)
  fix r s' assume u: "\<not> UsePl011UartSet s" and "SerialPortInitialize p hw s = Some (r, s')"
  then show "Detected p hw s s'" by (intro extends_Detected [OF u] Initialize_extends)
next
  fix r s' assume u: "\<not> UsePl011UartSet s" and "SerialPortWrite p hw Buffer n s = Some (r, s')"
  then show "Detected p hw s s'" by (intro extends_Detected [OF u] Write_extends)
next
  assume pl: "UsePl011Uart s"
  show "SerialPortRead p hw Buffer n s =
        Some (Forwarded (PL011UartRead (PL011_UART_REGISTER_BASE p) Buffer n), s)"
    using pl by (rule Read_pl011)
  show "SerialPortPoll p hw s = (Forwarded (PL011UartPoll (PL011_UART_REGISTER_BASE p)), s)"
    using pl by (rule Poll_pl011)
  show "SerialPortGetControl p b hw s =
        (Forwarded (PL011UartGetControl (PL011_UART_REGISTER_BASE p)), s)"
    using pl by (rule GetControl_pl011)
  show "SerialPortSetControl p b hw Control s =
        (Forwarded (PL011UartSetControl (PL011_UART_REGISTER_BASE p) Control), s)"
    using pl by (rule SetControl_pl011)
  show "SerialPortSetAttributes p hw a s =
        (Forwarded (PL011UartInitializePort (PL011_UART_REGISTER_BASE p) a), s)"
    using pl by (rule SetAttributes_pl011)
next
  fix r s' assume m: "\<not> UsePl011Uart s" and r: "SerialPortRead p hw Buffer n s = Some (r, s')"
  from Read_mini [OF m r] show "\<exists>x. r = Returned x" "within (ReadAccesses p) s s'"
    by simp_all
next
  assume m: "\<not> UsePl011Uart s"
  from Poll_mini [OF m] show "\<exists>x. fst (SerialPortPoll p hw s) = Returned x"
    "within (PollAccesses p) s (snd (SerialPortPoll p hw s))" by simp_all
  from GetControl_mini [OF m] show "\<exists>x. fst (SerialPortGetControl p b hw s) = Returned x"
    "within (GetControlAccesses p) s (snd (SerialPortGetControl p b hw s))" by simp_all
  from SetControl_mini [OF m] show "\<exists>x. fst (SerialPortSetControl p b hw Control s) = Returned x"
    "within (SetControlAccesses p) s (snd (SerialPortSetControl p b hw Control s))" by simp_all
  from SetAttributes_mini [OF m, of p hw a]
  show "snd (SerialPortSetAttributes p hw a s) = s \<or>
        (\<exists>ws. snd (SerialPortSetAttributes p hw a s) =
           (AfterClockRead p hw s)\<lparr>trace := trace (AfterClockRead p hw s) @
              map (\<lambda>(a, v). Wr8 a v) ws\<rparr>)" by (rule conjunct2)
next
  fix c assume m: "\<not> UsePl011Uart s"
  from SetAttributes_mini [OF m, of p hw a]
  show "fst (SerialPortSetAttributes p hw a s) \<noteq> Forwarded c" by simp
next
  fix x v
  show "Rd32 x v \<notin> ReadAccesses p \<union> PollAccesses p \<union> GetControlAccesses p \<union>
             SetControlAccesses p" by (rule no_probe_in_accesses)
next
  assume "recurs (TransmitterEmptyAt p hw)"
  from Initialize_returns [OF this, of s]
  show "\<exists>r s'. SerialPortInitialize p hw s = Some (r, s')" by auto
next
  assume "recurs (TransmitterEmptyAt p hw) \<and> recurs (WritableAt p hw) \<and> 0 < FifoSize p"
  then show "\<exists>r s'. SerialPortWrite p hw Buffer n s = Some (r, s')"
    using Write_returns by blast
next
  assume "\<forall>t. ReceiveReadyAt p hw t"
  then show "\<exists>r s'. SerialPortRead p hw Buffer n s = Some (r, s')" by (rule Read_returns)
qed

theorem detection_in_Initialize_and_Write_only_witness:
  "\<not> UsePl011UartSet unprobed \<and>
   recurs (TransmitterEmptyAt rpi3 idle_mini_uart) \<and> recurs (WritableAt rpi3 idle_mini_uart) \<and>
   0 < FifoSize rpi3 \<and>
   (\<exists>r s'. SerialPortInitialize rpi3 idle_mini_uart unprobed = Some (r, s') \<and>
      Detected rpi3 idle_mini_uart unprobed s') \<and>
   (\<exists>r s'. SerialPortWrite rpi3 idle_mini_uart (Some letters) 3 unprobed = Some (r, s') \<and>
      Detected rpi3 idle_mini_uart unprobed s') \<and>
   UsePl011Uart on_pl011 \<and>
   SerialPortRead rpi3 pl011_board (Some letters) 2 on_pl011 =
     Some (Forwarded (PL011UartRead 0x3F201000 (Some letters) 2), on_pl011) \<and>
   SerialPortPoll rpi3 pl011_board on_pl011 = (Forwarded (PL011UartPoll 0x3F201000), on_pl011) \<and>
   SerialPortGetControl rpi3 uefi_bits pl011_board on_pl011 =
     (Forwarded (PL011UartGetControl 0x3F201000), on_pl011) \<and>
   SerialPortSetControl rpi3 uefi_bits pl011_board 0x0002 on_pl011 =
     (Forwarded (PL011UartSetControl 0x3F201000 0x0002), on_pl011) \<and>
   SerialPortSetAttributes rpi3 pl011_board explicit_8n1 on_pl011 =
     (Forwarded (PL011UartInitializePort 0x3F201000 explicit_8n1), on_pl011) \<and>
   \<not> UsePl011Uart unprobed \<and> (\<forall>t. ReceiveReadyAt rpi3 receiving_mini_uart t) \<and>
   (\<exists>x s'. SerialPortRead rpi3 receiving_mini_uart (Some letters) 2 unprobed = Some (Returned x, s') \<and>
      within (ReadAccesses rpi3) unprobed s' \<and>
      trace s' = [Rd8 0x3F215050 0, Rd8 0x3F215054 0x61, Rd8 0x3F215040 0x41,
                  Rd8 0x3F215054 0x61, Rd8 0x3F215040 0x41]) \<and>
   (\<exists>x. fst (SerialPortPoll rpi3 idle_mini_uart unprobed) = Returned x) \<and>
   within (PollAccesses rpi3) unprobed (snd (SerialPortPoll rpi3 idle_mini_uart unprobed)) \<and>
   trace (snd (SerialPortPoll rpi3 idle_mini_uart unprobed)) = [Rd8 0x3F215054 0x60] \<and>
   (\<exists>x. fst (SerialPortGetControl rpi3 uefi_bits idle_mini_uart unprobed) = Returned x) \<and>
   within (GetControlAccesses rpi3) unprobed
     (snd (SerialPortGetControl rpi3 uefi_bits idle_mini_uart unprobed)) \<and>
   trace (snd (SerialPortGetControl rpi3 uefi_bits idle_mini_uart unprobed)) =
     [Rd8 0x3F215058 0x30, Rd8 0x3F215050 0, Rd8 0x3F215054 0x60] \<and>
   (\<exists>x. fst (SerialPortSetControl rpi3 uefi_bits idle_mini_uart 0x0002 unprobed) = Returned x) \<and>
   within (SetControlAccesses rpi3) unprobed
     (snd (SerialPortSetControl rpi3 uefi_bits idle_mini_uart 0x0002 unprobed)) \<and>
   trace (snd (SerialPortSetControl rpi3 uefi_bits idle_mini_uart 0x0002 unprobed)) =
     [Rd8 0x3F215050 0, Wr8 0x3F215050 0x02] \<and>
   (\<exists>ws. snd (SerialPortSetAttributes rpi3 idle_mini_uart explicit_8n1 unprobed) =
      (AfterClockRead rpi3 idle_mini_uart unprobed)
        \<lparr>trace := trace (AfterClockRead rpi3 idle_mini_uart unprobed) @
           map (\<lambda>(a, v). Wr8 a v) ws\<rparr>) \<and>
   trace (snd (SerialPortSetAttributes rpi3 idle_mini_uart explicit_8n1 unprobed)) =
     [Rd32 0x3F101008 0x5000, Wr8 0x3F21504C 0x80, Wr8 0x3F215044 0, Wr8 0x3F215040 0xD9,
      Wr8 0x3F21504C 0x03]"
proof -
  note u = unprobed_flags
  have f: "0 < FifoSize rpi3" by (simp add: FifoSize_rpi3)
  note T = detection_in_Initialize_and_Write_only [where p = rpi3 and hw = idle_mini_uart
      and s = unprobed and b = uefi_bits and Control = "0x0002" and a = explicit_8n1
      and Buffer = "Some letters" and n = 3]
  note D = T [THEN conjunct1, THEN mp, OF u(1)]
  from T [THEN conjunct2, THEN conjunct2, THEN conjunct2, THEN conjunct2, THEN conjunct1,
      THEN mp, OF idle_transmitter_empty]
  obtain r1 s1 where i: "SerialPortInitialize rpi3 idle_mini_uart unprobed = Some (r1, s1)"
    by blast
  from D [THEN conjunct1, rule_format, OF i] i
  have 1: "\<exists>r s'. SerialPortInitialize rpi3 idle_mini_uart unprobed = Some (r, s') \<and>
      Detected rpi3 idle_mini_uart unprobed s'" by blast
  from idle_transmitter_empty idle_writable f
  have "recurs (TransmitterEmptyAt rpi3 idle_mini_uart) \<and> recurs (WritableAt rpi3 idle_mini_uart) \<and>
      0 < FifoSize rpi3" by simp
  from T [THEN conjunct2, THEN conjunct2, THEN conjunct2, THEN conjunct2, THEN conjunct2,
      THEN conjunct1, THEN mp, OF this]
  obtain r2 s2 where w: "SerialPortWrite rpi3 idle_mini_uart (Some letters) 3 unprobed = Some (r2, s2)"
    by blast
  from D [THEN conjunct2, rule_format, OF w] w
  have 2: "\<exists>r s'. SerialPortWrite rpi3 idle_mini_uart (Some letters) 3 unprobed = Some (r, s') \<and>
      Detected rpi3 idle_mini_uart unprobed s'" by blast
  note P = detection_in_Initialize_and_Write_only [where p = rpi3 and hw = pl011_board
      and s = on_pl011 and b = uefi_bits and Control = "0x0002" and a = explicit_8n1
      and Buffer = "Some letters" and n = 2, THEN conjunct2, THEN conjunct1, THEN mp,
      OF on_pl011_flags, unfolded PL011_rpi3]
  note M = T [THEN conjunct2, THEN conjunct2, THEN conjunct1, THEN mp, OF u(2)]
  note R = detection_in_Initialize_and_Write_only [where p = rpi3 and hw = receiving_mini_uart
      and s = unprobed and Buffer = "Some letters" and n = 2]
  have rr: "\<forall>t. ReceiveReadyAt rpi3 receiving_mini_uart t" by (simp add: receiving_ready)
  from R [THEN conjunct2, THEN conjunct2, THEN conjunct2, THEN conjunct2, THEN conjunct2,
      THEN conjunct2, THEN mp, OF rr]
  obtain r3 s3 where rd: "SerialPortRead rpi3 receiving_mini_uart (Some letters) 2 unprobed = Some (r3, s3)"
    by blast
  from run_Read_two rd have "trace s3 = [Rd8 0x3F215050 0, Rd8 0x3F215054 0x61, Rd8 0x3F215040 0x41,
                  Rd8 0x3F215054 0x61, Rd8 0x3F215040 0x41]"
    by simp
  with R [THEN conjunct2, THEN conjunct2, THEN conjunct1, THEN mp, OF u(2), THEN conjunct1,
      rule_format, OF rd] rd
  have 3: "\<exists>x s'. SerialPortRead rpi3 receiving_mini_uart (Some letters) 2 unprobed
        = Some (Returned x, s') \<and> within (ReadAccesses rpi3) unprobed s' \<and>
      trace s' = [Rd8 0x3F215050 0, Rd8 0x3F215054 0x61, Rd8 0x3F215040 0x41,
                  Rd8 0x3F215054 0x61, Rd8 0x3F215040 0x41]"
    by blast
  have "\<not> InvalidAttributes explicit_8n1" by (rule explicit_8n1_valid)
  have b: "ucast (BaudRate (DefaultedBaudRate rpi3 explicit_8n1)) = (115200 :: UINT32)"
    by (simp add: DefaultedBaudRate_def explicit_8n1_def)
  then have d: "fst (SerialPortGetDivisor rpi3 idle_mini_uart
      (ucast (BaudRate (DefaultedBaudRate rpi3 explicit_8n1))) unprobed) = Some 217"
    by (simp add: idle_divisor)
  from SetAttributes_succeeds [OF u(2) explicit_8n1_valid d] obtain a4 s4 where
    sa: "SerialPortSetAttributes rpi3 idle_mini_uart explicit_8n1 unprobed
          = (Returned (RETURN_SUCCESS, a4), s4)" by blast
  have ne: "snd (SerialPortSetAttributes rpi3 idle_mini_uart explicit_8n1 unprobed) \<noteq> unprobed"
  proof
    assume "snd (SerialPortSetAttributes rpi3 idle_mini_uart explicit_8n1 unprobed) = unprobed"
    with sa have "s4 = unprobed" by simp
    moreover from SetAttributes_returned_success [OF u(2) sa] obtain dv l where
      "writes (trace s4) = writes (trace unprobed) @ SetAttributesWrites rpi3 dv (l AND 0x3F)"
      by blast
    ultimately show False by (simp add: SetAttributesWrites_def)
  qed
  with M [THEN conjunct2, THEN conjunct2, THEN conjunct2, THEN conjunct2, THEN conjunct2]
  have 4: "\<exists>ws. snd (SerialPortSetAttributes rpi3 idle_mini_uart explicit_8n1 unprobed) =
      (AfterClockRead rpi3 idle_mini_uart unprobed)
        \<lparr>trace := trace (AfterClockRead rpi3 idle_mini_uart unprobed) @
           map (\<lambda>(a, v). Wr8 a v) ws\<rparr>"
    by blast
  note M' = M [THEN conjunct2]
  from u(1) idle_transmitter_empty idle_writable f 1 2 on_pl011_flags P u(2) rr 3
    M' [THEN conjunct1] M' [THEN conjunct2, THEN conjunct1]
    M' [THEN conjunct2, THEN conjunct2, THEN conjunct1] 4
    run_Poll run_GetControl(1) run_SetControl(1) run_SetAttributes
  show ?thesis by simp
qed

theorem Poll_does_not_detect_counterexample:
  "\<not> UsePl011UartSet unprobed \<and> Pl011Selected rpi3 pl011_board (length (trace unprobed)) \<and>
   \<not> UsePl011UartSet (snd (SerialPortPoll rpi3 pl011_board unprobed)) \<and>
   \<not> UsePl011Uart (snd (SerialPortPoll rpi3 pl011_board unprobed)) \<and>
   trace (snd (SerialPortPoll rpi3 pl011_board unprobed)) = [Rd8 0x3F215054 0]"
  by (simp add: unprobed_def Pl011Selected_def GpioFunctionSelect_def pl011_board_def rpi3_def
      SerialPortPoll_def SerialPortReadRegister_def MmioRead8_def Let_def reg_def
      MINI_UART_REGISTER_BASE_def R_UART_LSR_def B_UART_LSR_RXRDY_def)

end
